theory Spec2Isabelle
  imports Complex_Main
begin

section \<open>Strings\<close>

text \<open>
  JavaScript strings are modelled as \<^typ>\<open>string\<close>. A character outside ASCII is
  written as the bytes of its UTF-8 encoding.
\<close>

definition digit_char :: "int \<Rightarrow> char" where
  "digit_char d = ''0123456789'' ! nat d"

function show_nat :: "int \<Rightarrow> string" where
  "show_nat n = (if n < 10 then [digit_char n] else show_nat (n div 10) @ [digit_char (n mod 10)])"
  by pat_completeness auto
termination
  by (relation "measure nat") auto

declare show_nat.simps [simp del]

definition squared :: string where \<comment> \<open>superscript two, U+00B2\<close>
  "squared = [CHR 0xC2, CHR 0xB2]"

definition cubed :: string where \<comment> \<open>superscript three, U+00B3\<close>
  "cubed = [CHR 0xC2, CHR 0xB3]"

definition degree :: string where \<comment> \<open>degree sign, U+00B0\<close>
  "degree = [CHR 0xC2, CHR 0xB0]"

definition sub_two :: string where \<comment> \<open>subscript two, U+2082\<close>
  "sub_two = [CHR 0xE2, CHR 0x82, CHR 0x82]"

definition arrow :: string where \<comment> \<open>rightwards arrow, U+2192\<close>
  "arrow = [CHR 0xE2, CHR 0x86, CHR 0x92]"

definition quote :: string where \<comment> \<open>the apostrophe\<close>
  "quote = [CHR 0x27]"

section \<open>Numbers\<close>

text \<open>
  A JavaScript Number is an IEEE 754 binary64 value. The finite ones are modelled by the
  rational they denote, \<open>Fin 0\<close> being the positive zero; the negative zero, the two
  infinities and NaN are constructors of their own. An arithmetic operation computes the
  exact rational result and rounds it to the nearest binary64 value, ties to even.
\<close>

datatype jsnum = NaN | PosInf | NegInf | NegZero | Fin rat

function ilog2 :: "int \<Rightarrow> int" where
  "ilog2 n = (if n < 2 then 0 else 1 + ilog2 (n div 2))"
  by pat_completeness auto
termination
  by (relation "measure nat") auto

declare ilog2.simps [simp del]

definition pow_int :: "rat \<Rightarrow> int \<Rightarrow> rat" where
  "pow_int b e = (if 0 \<le> e then b ^ nat e else 1 / b ^ nat (- e))"

definition binary_exponent :: "rat \<Rightarrow> int" where
  \<comment> \<open>for \<open>0 < a\<close>, the \<open>e\<close> with \<open>2 ^ e \<le> a < 2 ^ (e + 1)\<close>\<close>
  "binary_exponent a =
     (if 1 \<le> a then ilog2 \<lfloor>a\<rfloor>
      else let n = \<lceil>1 / a\<rceil> in - (if n \<le> 1 then 0 else 1 + ilog2 (n - 1)))"

definition round_half_even :: "rat \<Rightarrow> int" where
  "round_half_even x =
     (let f = \<lfloor>x\<rfloor>; d = x - of_int f
      in if d < 1 / 2 then f else if 1 / 2 < d then f + 1 else if even f then f else f + 1)"

definition round64 :: "rat \<Rightarrow> jsnum" where
  \<comment> \<open>53 significant bits, exponents from -1022 (below: subnormal) to 1023; a result of
     \<open>2 ^ 1024\<close> or more overflows to an infinity\<close>
  "round64 r =
     (if r = 0 then Fin 0
      else let a = \<bar>r\<bar>;
               e = max (binary_exponent a) (- 1022);
               q = pow_int 2 (e - 52);
               m = round_half_even (a / q)
           in if 1024 \<le> e \<or> (e = 1023 \<and> m = 2 ^ 53) then (if r < 0 then NegInf else PosInf)
              else if m = 0 then (if r < 0 then NegZero else Fin 0)
              else Fin (if r < 0 then - (of_int m * q) else of_int m * q))"

fun is_finite :: "jsnum \<Rightarrow> bool" where
  "is_finite (Fin r) = True"
| "is_finite NegZero = True"
| "is_finite _ = False"

fun real_value :: "jsnum \<Rightarrow> rat" where
  "real_value (Fin r) = r"
| "real_value _ = 0"

fun sign_bit :: "jsnum \<Rightarrow> bool" where
  "sign_bit (Fin r) = (r < 0)"
| "sign_bit NegZero = True"
| "sign_bit NegInf = True"
| "sign_bit _ = False"

definition is_zero :: "jsnum \<Rightarrow> bool" where
  "is_zero x = (x = Fin 0 \<or> x = NegZero)"

definition signed_zero :: "bool \<Rightarrow> jsnum" where
  "signed_zero neg = (if neg then NegZero else Fin 0)"

definition signed_inf :: "bool \<Rightarrow> jsnum" where
  "signed_inf neg = (if neg then NegInf else PosInf)"

definition num_sub :: "jsnum \<Rightarrow> jsnum \<Rightarrow> jsnum" where
  "num_sub x y =
     (if x = NaN \<or> y = NaN then NaN
      else if \<not> is_finite x then (if y = x then NaN else x)
      else if \<not> is_finite y then signed_inf (\<not> sign_bit y)
      else let d = real_value x - real_value y
           in if d = 0 then signed_zero (x = NegZero \<and> y = Fin 0) else round64 d)"

definition num_mul :: "jsnum \<Rightarrow> jsnum \<Rightarrow> jsnum" where
  "num_mul x y =
     (let neg = (sign_bit x \<noteq> sign_bit y)
      in if x = NaN \<or> y = NaN then NaN
         else if \<not> is_finite x \<or> \<not> is_finite y
           then (if is_zero x \<or> is_zero y then NaN else signed_inf neg)
         else if is_zero x \<or> is_zero y then signed_zero neg
         else round64 (real_value x * real_value y))"

definition num_div :: "jsnum \<Rightarrow> jsnum \<Rightarrow> jsnum" where
  "num_div x y =
     (let neg = (sign_bit x \<noteq> sign_bit y)
      in if x = NaN \<or> y = NaN then NaN
         else if \<not> is_finite x then (if is_finite y then signed_inf neg else NaN)
         else if \<not> is_finite y then signed_zero neg
         else if is_zero y then (if is_zero x then NaN else signed_inf neg)
         else if is_zero x then signed_zero neg
         else round64 (real_value x / real_value y))"

subsection \<open>Number to string\<close>

definition decimal_exponent :: "rat \<Rightarrow> int" where
  \<comment> \<open>for \<open>0 < a\<close>, the \<open>n\<close> with \<open>10 ^ (n - 1) \<le> a < 10 ^ n\<close>\<close>
  "decimal_exponent a =
     (if 1 \<le> a then int (length (show_nat \<lfloor>a\<rfloor>))
      else 1 - int (length (show_nat (\<lceil>1 / a\<rceil> - 1))))"

definition digits_valid :: "rat \<Rightarrow> int \<Rightarrow> int \<Rightarrow> int \<Rightarrow> bool" where
  \<comment> \<open>the decimal \<open>s * 10 ^ (n - k)\<close> reads back as the number \<open>a\<close>\<close>
  "digits_valid a n k s = (round64 (of_int s * pow_int 10 (n - k)) = Fin a)"

definition closest_digits :: "rat \<Rightarrow> int \<Rightarrow> int \<Rightarrow> int" where
  \<comment> \<open>of the two \<open>k\<close>-digit neighbours of \<open>a\<close>, the valid one closest to \<open>a\<close> (the even
     one at a tie); the lower neighbour when neither is valid\<close>
  "closest_digits a n k =
     (let scale = pow_int 10 (n - k);
          lo = \<lfloor>a / scale\<rfloor>;
          dlo = a - of_int lo * scale;
          dhi = of_int (lo + 1) * scale - a
      in if \<not> digits_valid a n k (lo + 1) then lo
         else if \<not> digits_valid a n k lo then lo + 1
         else if dlo < dhi then lo else if dhi < dlo then lo + 1
         else if even lo then lo else lo + 1)"

fun shortest_digits :: "rat \<Rightarrow> int \<Rightarrow> int list \<Rightarrow> int \<times> int" where
  \<comment> \<open>the first length \<open>k\<close> of the list at which a neighbour is valid, and that neighbour\<close>
  "shortest_digits a n [] = (17, closest_digits a n 17)"
| "shortest_digits a n (k # ks) =
     (let scale = pow_int 10 (n - k); lo = \<lfloor>a / scale\<rfloor>
      in if digits_valid a n k lo \<or> digits_valid a n k (lo + 1)
         then (k, closest_digits a n k) else shortest_digits a n ks)"

definition exponent_part :: "int \<Rightarrow> string" where
  "exponent_part e = ''e'' @ (if e < 0 then ''-'' else ''+'') @ show_nat \<bar>e\<bar>"

definition positive_to_string :: "rat \<Rightarrow> string" where
  \<comment> \<open>Number::toString in radix 10 of a finite \<open>0 < a\<close>\<close>
  "positive_to_string a =
     (let n0 = decimal_exponent a;
          (k0, s0) = shortest_digits a n0 [1, 2, 3, 4, 5, 6, 7, 8, 9, 10, 11, 12, 13, 14, 15, 16];
          (s, n) = (if s0 = 10 ^ nat k0 then (s0 div 10, n0 + 1) else (s0, n0));
          ds = show_nat s;
          k = int (length ds)
      in if k \<le> n \<and> n \<le> 21 then ds @ replicate (nat (n - k)) CHR ''0''
         else if 0 < n \<and> n \<le> 21 then take (nat n) ds @ ''.'' @ drop (nat n) ds
         else if - 6 < n \<and> n \<le> 0 then ''0.'' @ replicate (nat (- n)) CHR ''0'' @ ds
         else if k = 1 then ds @ exponent_part (n - 1)
         else take 1 ds @ ''.'' @ drop 1 ds @ exponent_part (n - 1))"

fun num_to_string :: "jsnum \<Rightarrow> string" where
  "num_to_string NaN = ''NaN''"
| "num_to_string PosInf = ''Infinity''"
| "num_to_string NegInf = ''-Infinity''"
| "num_to_string NegZero = ''0''"
| "num_to_string (Fin r) =
     (if r = 0 then ''0'' else if r < 0 then ''-'' @ positive_to_string (- r)
      else positive_to_string r)"

definition fixed_digits :: "nat \<Rightarrow> rat \<Rightarrow> string" where
  \<comment> \<open>steps 9 to 11 of Number.prototype.toFixed for \<open>0 \<le> a < 10 ^ 21\<close>: the integer \<open>n\<close>
     with \<open>n / 10 ^ f\<close> closest to \<open>a\<close>, the larger one at a tie\<close>
  "fixed_digits f a =
     (let n = \<lfloor>a * 10 ^ f + 1 / 2\<rfloor>;
          m = show_nat n;
          m' = replicate (f + 1 - length m) CHR ''0'' @ m
      in if f = 0 then m
         else take (length m' - f) m' @ ''.'' @ drop (length m' - f) m')"

definition toFixed :: "nat \<Rightarrow> jsnum \<Rightarrow> string" where
  "toFixed f x =
     (case x of
        Fin r \<Rightarrow>
          (let a = \<bar>r\<bar>
           in (if r < 0 then ''-'' else '''') @
              (if 10 ^ 21 \<le> a then positive_to_string a else fixed_digits f a))
      | NegZero \<Rightarrow> fixed_digits f 0
      | _ \<Rightarrow> num_to_string x)"

subsection \<open>parseInt\<close>

definition white_space :: "string list" where
  \<comment> \<open>the code points of WhiteSpace and LineTerminator, each as the bytes of its UTF-8
     encoding: TAB, LF, VT, FF, CR, SP, U+00A0, U+1680, U+2000 to U+200A, U+2028, U+2029,
     U+202F, U+205F, U+3000, U+FEFF\<close>
  "white_space =
     [[CHR 0x09], [CHR 0x0A], [CHR 0x0B], [CHR 0x0C], [CHR 0x0D], [CHR 0x20],
      [CHR 0xC2, CHR 0xA0], [CHR 0xE1, CHR 0x9A, CHR 0x80],
      [CHR 0xE2, CHR 0x80, CHR 0x80], [CHR 0xE2, CHR 0x80, CHR 0x81],
      [CHR 0xE2, CHR 0x80, CHR 0x82], [CHR 0xE2, CHR 0x80, CHR 0x83],
      [CHR 0xE2, CHR 0x80, CHR 0x84], [CHR 0xE2, CHR 0x80, CHR 0x85],
      [CHR 0xE2, CHR 0x80, CHR 0x86], [CHR 0xE2, CHR 0x80, CHR 0x87],
      [CHR 0xE2, CHR 0x80, CHR 0x88], [CHR 0xE2, CHR 0x80, CHR 0x89],
      [CHR 0xE2, CHR 0x80, CHR 0x8A], [CHR 0xE2, CHR 0x80, CHR 0xA8],
      [CHR 0xE2, CHR 0x80, CHR 0xA9], [CHR 0xE2, CHR 0x80, CHR 0xAF],
      [CHR 0xE2, CHR 0x81, CHR 0x9F], [CHR 0xE3, CHR 0x80, CHR 0x80],
      [CHR 0xEF, CHR 0xBB, CHR 0xBF]]"

definition is_space :: "string \<Rightarrow> bool" where
  \<comment> \<open>the bytes are those of one code point of WhiteSpace or LineTerminator\<close>
  "is_space w = (w \<in> set white_space)"

fun trimStart :: "string \<Rightarrow> string" where
  \<comment> \<open>the string without its leading white space; a code point of white space takes one,
     two or three bytes\<close>
  "trimStart [] = []"
| "trimStart (c # cs) =
     (if is_space [c] then trimStart cs
      else if is_space (take 2 (c # cs)) then trimStart (drop 1 cs)
      else if is_space (take 3 (c # cs)) then trimStart (drop 2 cs)
      else c # cs)"

definition digit_value :: "char \<Rightarrow> int" where
  "digit_value c =
     (let v = int (of_char c :: nat)
      in if 48 \<le> v \<and> v \<le> 57 then v - 48
         else if 97 \<le> v \<and> v \<le> 122 then v - 87
         else if 65 \<le> v \<and> v \<le> 90 then v - 55
         else 36)"

definition radix_value :: "int \<Rightarrow> string \<Rightarrow> int" where
  "radix_value R ds = foldl (\<lambda>acc c. acc * R + digit_value c) 0 ds"

definition parseInt :: "string \<Rightarrow> jsnum" where
  \<comment> \<open>parseInt of a string, no radix argument\<close>
  "parseInt str =
     (let S = trimStart str;
          neg = (take 1 S = ''-'');
          S1 = (if take 1 S = ''-'' \<or> take 1 S = ''+'' then drop 1 S else S);
          hex = (take 2 S1 = ''0x'' \<or> take 2 S1 = ''0X'');
          R = (if hex then 16 else 10);
          S2 = (if hex then drop 2 S1 else S1);
          Z = takeWhile (\<lambda>c. digit_value c < R) S2;
          m = radix_value R Z
      in if Z = [] then NaN
         else if m = 0 then signed_zero neg
         else round64 (if neg then - of_int m else of_int m))"

section \<open>Values received from the server\<close>

text \<open>
  The body of a response is a parsed JSON text. \<open>JUndefined\<close> is what reading a missing
  property gives; no parsed text contains it. An object is the list of its members, the
  first binding of a name being the one that counts.
\<close>

datatype json =
    JUndefined
  | JNull
  | JBool bool
  | JNum jsnum
  | JStr string
  | JArr "json list"
  | JObj "(string \<times> json) list"

text \<open>
  What a script can throw. The wording of a TypeError raised by the engine is the engine's
  own; \<open>error_message\<close> gives it in the wording of V8, without the source text of the receiver.
\<close>

datatype type_error =
    ReadOfNullish json string   \<comment> \<open>a property read on undefined or null\<close>
  | NotCallable string          \<comment> \<open>a call of a property that holds no function\<close>
  | NoPrimitive                 \<comment> \<open>an object that converts to no primitive value\<close>
  | WriteOfNull string          \<comment> \<open>a property written on null\<close>

datatype exn =
    Error string          \<comment> \<open>\<open>new Error(message)\<close>, thrown by the script\<close>
  | SyntaxError string    \<comment> \<open>a body that is no JSON text\<close>
  | NetworkError string   \<comment> \<open>a \<open>fetch\<close> that rejects\<close>
  | TypeError type_error

fun error_message :: "exn \<Rightarrow> string" where
  "error_message (Error m) = m"
| "error_message (SyntaxError m) = m"
| "error_message (NetworkError m) = m"
| "error_message (TypeError (ReadOfNullish v p)) =
     ''Cannot read properties of '' @ (if v = JNull then ''null'' else ''undefined'') @
     '' (reading '' @ quote @ p @ quote @ '')''"
| "error_message (TypeError (NotCallable p)) = p @ '' is not a function''"
| "error_message (TypeError NoPrimitive) = ''Cannot convert object to primitive value''"
| "error_message (TypeError (WriteOfNull p)) =
     ''Cannot set properties of null (setting '' @ quote @ p @ quote @ '')''"

definition bind :: "exn + 'a \<Rightarrow> ('a \<Rightarrow> exn + 'b) \<Rightarrow> exn + 'b" where
  "bind r f = (case r of Inl e \<Rightarrow> Inl e | Inr v \<Rightarrow> f v)"

fun truthy :: "json \<Rightarrow> bool" where
  "truthy JUndefined = False"
| "truthy JNull = False"
| "truthy (JBool b) = b"
| "truthy (JNum x) = (x \<noteq> NaN \<and> x \<noteq> NegZero \<and> x \<noteq> Fin 0)"
| "truthy (JStr s) = (s \<noteq> [])"
| "truthy (JArr xs) = True"
| "truthy (JObj kvs) = True"

fun get_prop :: "string \<Rightarrow> json \<Rightarrow> exn + json" where
  \<comment> \<open>\<open>v.name\<close>, for a name that no prototype defines, as the names the scripts read are\<close>
  "get_prop name JUndefined = Inl (TypeError (ReadOfNullish JUndefined name))"
| "get_prop name JNull = Inl (TypeError (ReadOfNullish JNull name))"
| "get_prop name (JObj kvs) = Inr (case map_of kvs name of Some v \<Rightarrow> v | None \<Rightarrow> JUndefined)"
| "get_prop name _ = Inr JUndefined"

fun get_index :: "nat \<Rightarrow> json \<Rightarrow> exn + json" where
  \<comment> \<open>\<open>v[i]\<close>; a string is indexed by character\<close>
  "get_index i JUndefined = Inl (TypeError (ReadOfNullish JUndefined (show_nat (int i))))"
| "get_index i JNull = Inl (TypeError (ReadOfNullish JNull (show_nat (int i))))"
| "get_index i (JArr xs) = Inr (if i < length xs then xs ! i else JUndefined)"
| "get_index i (JStr s) = Inr (if i < length s then JStr [s ! i] else JUndefined)"
| "get_index i (JObj kvs) =
     Inr (case map_of kvs (show_nat (int i)) of Some v \<Rightarrow> v | None \<Rightarrow> JUndefined)"
| "get_index i _ = Inr JUndefined"

fun keys_count :: "json \<Rightarrow> nat" where
  \<comment> \<open>\<open>Object.keys(v).length\<close> of a value that is neither undefined nor null\<close>
  "keys_count (JObj kvs) = length (remdups (map fst kvs))"
| "keys_count (JArr xs) = length xs"
| "keys_count (JStr s) = length s"
| "keys_count _ = 0"

fun join_with :: "string \<Rightarrow> string list \<Rightarrow> string" where
  "join_with sep [] = []"
| "join_with sep [x] = x"
| "join_with sep (x # y # ys) = x @ sep @ join_with sep (y # ys)"

fun sequence :: "(exn + 'a) list \<Rightarrow> exn + 'a list" where
  \<comment> \<open>the results in order, or the first exception\<close>
  "sequence [] = Inr []"
| "sequence (Inl e # rs) = Inl e"
| "sequence (Inr v # rs) = (case sequence rs of Inl e \<Rightarrow> Inl e | Inr vs \<Rightarrow> Inr (v # vs))"

fun to_string :: "json \<Rightarrow> exn + string" where
  \<comment> \<open>the conversion to a string that \<open>+\<close>, a template literal and \<open>new Error\<close> apply. An
     object that has a member named \<open>toString\<close> has no callable \<open>toString\<close> any more.\<close>
  "to_string JUndefined = Inr ''undefined''"
| "to_string JNull = Inr ''null''"
| "to_string (JBool b) = Inr (if b then ''true'' else ''false'')"
| "to_string (JNum x) = Inr (num_to_string x)"
| "to_string (JStr s) = Inr s"
| "to_string (JArr xs) =
     (case sequence (map (\<lambda>x. if x = JUndefined \<or> x = JNull then Inr [] else to_string x) xs) of
        Inl e \<Rightarrow> Inl e | Inr ss \<Rightarrow> Inr (join_with '','' ss))"
| "to_string (JObj kvs) =
     (if ''toString'' \<in> fst ` set kvs then Inl (TypeError NoPrimitive)
      else Inr ''[object Object]'')"

fun call_toString :: "json \<Rightarrow> exn + string" where
  \<comment> \<open>the method call \<open>v.toString()\<close>\<close>
  "call_toString JUndefined = Inl (TypeError (ReadOfNullish JUndefined ''toString''))"
| "call_toString JNull = Inl (TypeError (ReadOfNullish JNull ''toString''))"
| "call_toString (JObj kvs) =
     (if ''toString'' \<in> fst ` set kvs then Inl (TypeError (NotCallable ''toString''))
      else Inr ''[object Object]'')"
| "call_toString v = to_string v"

fun call_toFixed :: "nat \<Rightarrow> json \<Rightarrow> exn + string" where
  \<comment> \<open>the method call \<open>v.toFixed(d)\<close>: only a Number has the method\<close>
  "call_toFixed d (JNum x) = Inr (toFixed d x)"
| "call_toFixed d JUndefined = Inl (TypeError (ReadOfNullish JUndefined ''toFixed''))"
| "call_toFixed d JNull = Inl (TypeError (ReadOfNullish JNull ''toFixed''))"
| "call_toFixed d _ = Inl (TypeError (NotCallable ''toFixed''))"

section \<open>The statistics formatter (static/apis_statistics.js)\<close>

subsection \<open>Pictographs of the section titles\<close>

definition evergreen_tree :: string where \<comment> \<open>U+1F332\<close>
  "evergreen_tree = [CHR 0xF0, CHR 0x9F, CHR 0x8C, CHR 0xB2]"

definition straight_ruler :: string where \<comment> \<open>U+1F4CF\<close>
  "straight_ruler = [CHR 0xF0, CHR 0x9F, CHR 0x93, CHR 0x8F]"

definition seedling :: string where \<comment> \<open>U+1F331\<close>
  "seedling = [CHR 0xF0, CHR 0x9F, CHR 0x8C, CHR 0xB1]"

definition globe :: string where \<comment> \<open>U+1F30D\<close>
  "globe = [CHR 0xF0, CHR 0x9F, CHR 0x8C, CHR 0x8D]"

definition cloud :: string where \<comment> \<open>U+2601 U+FE0F\<close>
  "cloud = [CHR 0xE2, CHR 0x98, CHR 0x81, CHR 0xEF, CHR 0xB8, CHR 0x8F]"

definition water_wave :: string where \<comment> \<open>U+1F30A\<close>
  "water_wave = [CHR 0xF0, CHR 0x9F, CHR 0x8C, CHR 0x8A]"

definition chart_increasing :: string where \<comment> \<open>U+1F4C8\<close>
  "chart_increasing = [CHR 0xF0, CHR 0x9F, CHR 0x93, CHR 0x88]"

definition wood :: string where \<comment> \<open>U+1FAB5\<close>
  "wood = [CHR 0xF0, CHR 0x9F, CHR 0xAA, CHR 0xB5]"

definition snow_mountain :: string where \<comment> \<open>U+1F3D4 U+FE0F\<close>
  "snow_mountain = [CHR 0xF0, CHR 0x9F, CHR 0x8F, CHR 0x94, CHR 0xEF, CHR 0xB8, CHR 0x8F]"

definition thermometer :: string where \<comment> \<open>U+1F321 U+FE0F\<close>
  "thermometer = [CHR 0xF0, CHR 0x9F, CHR 0x8C, CHR 0xA1, CHR 0xEF, CHR 0xB8, CHR 0x8F]"

definition bar_chart :: string where \<comment> \<open>U+1F4CA\<close>
  "bar_chart = [CHR 0xF0, CHR 0x9F, CHR 0x93, CHR 0x8A]"

definition sheaf_of_rice :: string where \<comment> \<open>U+1F33E\<close>
  "sheaf_of_rice = [CHR 0xF0, CHR 0x9F, CHR 0x8C, CHR 0xBE]"

definition gear :: string where \<comment> \<open>U+2699 U+FE0F\<close>
  "gear = [CHR 0xE2, CHR 0x9A, CHR 0x99, CHR 0xEF, CHR 0xB8, CHR 0x8F]"

definition droplet :: string where \<comment> \<open>U+1F4A7\<close>
  "droplet = [CHR 0xF0, CHR 0x9F, CHR 0x92, CHR 0xA7]"

definition warning_sign :: string where \<comment> \<open>U+26A0 U+FE0F\<close>
  "warning_sign = [CHR 0xE2, CHR 0x9A, CHR 0xA0, CHR 0xEF, CHR 0xB8, CHR 0x8F]"

definition cycle_arrows :: string where \<comment> \<open>U+1F504\<close>
  "cycle_arrows = [CHR 0xF0, CHR 0x9F, CHR 0x94, CHR 0x84]"

subsection \<open>Rows and sections\<close>

definition stat_item :: "string \<Rightarrow> string" where
  \<open>stat_item text = ''<div class="stat-item">'' @ text @ ''</div>''\<close>

definition stat_row :: "string \<Rightarrow> string \<Rightarrow> string" where
  \<open>stat_row label val =
     ''<div class="stat-item"><span class="stat-label">'' @ label @
     ''</span><span class="stat-value">'' @ val @ ''</span></div>''\<close>

definition section_header :: "string \<Rightarrow> string" where
  \<open>section_header title = ''<div class="stat-section-header">'' @ title @ ''</div>''\<close>

definition build :: "(exn + string) list \<Rightarrow> exn + string" where
  \<comment> \<open>\<open>content += ...\<close>, statement after statement; an exception abandons the content\<close>
  "build rs = (case sequence rs of Inl e \<Rightarrow> Inl e | Inr ss \<Rightarrow> Inr (concat ss))"

definition when_truthy :: "string \<Rightarrow> json \<Rightarrow> (json \<Rightarrow> exn + string) \<Rightarrow> exn + string" where
  \<comment> \<open>\<open>if (obj.name) { ... obj.name ... }\<close>\<close>
  "when_truthy name obj f = bind (get_prop name obj) (\<lambda>v. if truthy v then f v else Inr [])"

definition when_defined :: "string \<Rightarrow> json \<Rightarrow> (json \<Rightarrow> exn + string) \<Rightarrow> exn + string" where
  \<comment> \<open>\<open>if (obj.name !== undefined) { ... obj.name ... }\<close>\<close>
  "when_defined name obj f =
     bind (get_prop name obj) (\<lambda>v. if v \<noteq> JUndefined then f v else Inr [])"

definition fixed_row :: "string \<Rightarrow> nat \<Rightarrow> string \<Rightarrow> json \<Rightarrow> exn + string" where
  \<comment> \<open>a row showing \<open>v.toFixed(d) + unit\<close>\<close>
  "fixed_row label d unit v = bind (call_toFixed d v) (\<lambda>s. Inr (stat_row label (s @ unit)))"

definition text_row :: "string \<Rightarrow> json \<Rightarrow> exn + string" where
  \<comment> \<open>a row showing \<open>v\<close> itself, concatenated into the markup\<close>
  "text_row label v = bind (to_string v) (\<lambda>s. Inr (stat_row label s))"

definition string_row :: "string \<Rightarrow> json \<Rightarrow> exn + string" where
  \<comment> \<open>a row showing \<open>v.toString()\<close>\<close>
  "string_row label v = bind (call_toString v) (\<lambda>s. Inr (stat_row label s))"

definition group :: "string \<Rightarrow> (exn + string) list \<Rightarrow> exn + string" where
  "group title rows = build (Inr (section_header title) # rows)"

definition km2 :: string where
  "km2 = '' km'' @ squared"

subsection \<open>displayForestStatistics\<close>

definition displayForestStatistics :: "json \<Rightarrow> exn + string" where
  "displayForestStatistics data =
     (if \<not> truthy data \<or> keys_count data = 0
      then Inr (stat_item ''No statistics data available'')
      else build
        [Inr (section_header (evergreen_tree @ '' Forest Analysis'')),
         when_truthy ''roi_area_km2'' data
           (fixed_row (''ROI Area (km'' @ squared @ ''):'') 2 km2),
         when_truthy ''roi_area_ha'' data (fixed_row ''ROI Area (ha):'' 2 '' ha''),
         when_truthy ''mean_NDVI'' data (fixed_row ''Mean NDVI:'' 4 []),
         when_truthy ''mean_NBR'' data (fixed_row ''Mean NBR:'' 4 []),
         when_truthy ''forest_classification'' data (text_row ''Forest Classification:''),
         when_truthy ''biomass_partitioning'' data (\<lambda>biomassPart.
           group (straight_ruler @ '' Biomass Partitioning'')
             [when_defined ''aboveground_biomass_Mg_per_ha'' biomassPart
                (fixed_row ''Aboveground Biomass:'' 2 '' Mg/ha''),
              when_defined ''belowground_biomass_Mg_per_ha'' biomassPart
                (fixed_row ''Belowground Biomass:'' 2 '' Mg/ha''),
              when_defined ''total_biomass_Mg_per_ha'' biomassPart
                (fixed_row ''Total Biomass per Hectare:'' 2 '' Mg/ha'')]),
         when_truthy ''biomass_estimation'' data (\<lambda>biomassEst.
           group (seedling @ '' Biomass Estimation'')
             [when_defined ''average_biomass_Mg_per_ha'' biomassEst
                (fixed_row ''Average Biomass per Hectare:'' 2 '' Mg/ha''),
              when_defined ''total_biomass_Mg'' biomassEst
                (fixed_row ''Total Biomass:'' 2 '' Mg'')]),
         when_truthy ''carbon_stock_estimation'' data (\<lambda>carbonStock.
           group (globe @ '' Carbon Stock'')
             [when_defined ''conversion_factor'' carbonStock
                (fixed_row ''Conversion Factor:'' 2 []),
              when_defined ''average_carbon_stock_MgC_per_ha'' carbonStock
                (fixed_row ''Average Carbon Stock per Hectare:'' 2 '' MgC/ha''),
              when_defined ''total_carbon_stock_MgC'' carbonStock
                (fixed_row ''Total Carbon Stock:'' 2 '' MgC'')]),
         when_truthy ''co2_equivalent_estimation'' data (\<lambda>co2Eq.
           group (cloud @ '' CO'' @ sub_two @ '' Equivalent'')
             [when_defined ''conversion_factor'' co2Eq
                (fixed_row ''Conversion Factor:'' 2 []),
              when_defined ''total_co2_eq_Mg'' co2Eq
                (fixed_row (''Total CO'' @ sub_two @ '' Equivalent:'') 2 '' Mg'')])])"

subsection \<open>displayWetlandStatistics\<close>

definition change_row :: "json \<Rightarrow> exn + string" where
  \<comment> \<open>the row of the change over time. \<open>endArea - startArea\<close> converts its operands to
     numbers, the left one first, which throws for what converts to no primitive; a
     conversion that succeeds on an operand that is no Number is followed by the failing
     call of \<open>toFixed\<close> on that operand.\<close>
  "change_row changeData =
     bind (get_prop ''start_year'' changeData) (\<lambda>start_year.
     bind (get_prop ''end_year'' changeData) (\<lambda>end_year.
     bind (get_prop ''wetland_area_ha'' changeData) (\<lambda>wetland_area_ha.
       if truthy start_year \<and> truthy end_year \<and> truthy wetland_area_ha then
         bind (get_index 0 wetland_area_ha) (\<lambda>startArea.
         bind (get_index 1 wetland_area_ha) (\<lambda>endArea.
         bind (to_string endArea) (\<lambda>_.
         bind (to_string startArea) (\<lambda>_.
         bind (call_toFixed 2 startArea) (\<lambda>startText.
         bind (to_string start_year) (\<lambda>startYear.
         bind (call_toFixed 2 endArea) (\<lambda>endText.
         bind (to_string end_year) (\<lambda>endYear.
           case (startArea, endArea) of
             (JNum s, JNum e) \<Rightarrow>
               (let changeHa = num_sub e s;
                    changePercent = toFixed 1 (num_mul (num_div changeHa s) (Fin 100))
                in Inr (stat_row ''Wetland Area (ha):''
                     (startText @ '' ha ('' @ startYear @ '') '' @ arrow @ '' '' @
                      endText @ '' ha ('' @ endYear @ '') '' @ arrow @ '' '' @
                      toFixed 2 changeHa @ '' ha ('' @ changePercent @ ''%)'')))
           | _ \<Rightarrow> Inl (TypeError (NotCallable ''toFixed''))))))))))
       else Inr [])))"

definition displayWetlandStatistics :: "json \<Rightarrow> exn + string" where
  "displayWetlandStatistics data =
     (if \<not> truthy data \<or> keys_count data = 0
      then Inr (stat_item ''No statistics data available'')
      else build
        [Inr (section_header (water_wave @ '' Wetland Overview'')),
         bind (get_prop ''roi_area_km2'' data) (\<lambda>a.
         bind (get_prop ''area_km2'' data) (\<lambda>b.
           let v = (if truthy a then a else b)
           in if truthy v then fixed_row (''ROI Area (km'' @ squared @ ''):'') 2 km2 v
              else Inr [])),
         when_truthy ''roi_area_ha'' data (fixed_row ''ROI Area (ha):'' 2 '' ha''),
         when_truthy ''mean_ndwi'' data (fixed_row ''Mean NDWI:'' 3 []),
         when_truthy ''mean_mndwi'' data (fixed_row ''Mean MNDWI:'' 3 []),
         when_truthy ''wetland_class'' data (text_row ''Wetland Class:''),
         when_truthy ''water_frequency_index'' data (\<lambda>v.
           bind (call_toFixed 2 v) (\<lambda>s.
             case v of
               JNum x \<Rightarrow> Inr (stat_row ''Water Frequency Index:''
                 (s @ '' ('' @ toFixed 0 (num_mul x (Fin 100)) @ ''% waterlogged)''))
             | _ \<Rightarrow> Inl (TypeError (NotCallable ''toFixed'')))),
         when_truthy ''change_over_time'' data (\<lambda>changeData.
           group (chart_increasing @ '' Wetland Change Over Time'') [change_row changeData]),
         when_truthy ''biomass_carbon'' data (\<lambda>bioCarbon.
           group (wood @ '' Biomass & Carbon Sequestration'')
             [when_defined ''aboveground_biomass_Mg_per_ha'' bioCarbon
                (fixed_row ''Aboveground Biomass:'' 2 '' Mg/ha''),
              when_defined ''total_carbon_stock_MgC'' bioCarbon
                (fixed_row ''Total Carbon Stock (MgC):'' 2 '' MgC''),
              when_defined ''co2_equivalent_MgCO2e'' bioCarbon
                (fixed_row (''CO'' @ sub_two @ '' Equivalent:'') 2
                   ('' MgCO'' @ sub_two @ ''e''))])])"

subsection \<open>displayTundraStatistics\<close>

definition displayTundraStatistics :: "json \<Rightarrow> exn + string" where
  "displayTundraStatistics data =
     build
       [Inr (section_header (snow_mountain @ '' Tundra Analysis'')),
        when_truthy ''roi_area_km2'' data (fixed_row ''Total ROI Area:'' 2 km2),
        when_truthy ''analysis_method'' data (text_row ''Analysis Method:''),
        bind (get_prop ''total_tundra_area_km2'' data) (\<lambda>total.
        bind (get_prop ''tundra_coverage_percent'' data) (\<lambda>coverage.
          if total \<noteq> JUndefined \<and> coverage \<noteq> JUndefined then
            group (thermometer @ '' Tundra Coverage'')
              [fixed_row ''Total Tundra Area:'' 2 km2 total,
               fixed_row ''Tundra Coverage:'' 1 ''%'' coverage,
               when_truthy ''dominant_tundra_type'' data (text_row ''Dominant Type:'')]
          else Inr [])),
        when_truthy ''class_areas_km2'' data (\<lambda>classAreas.
          group (bar_chart @ '' Class Distribution'')
            [when_defined ''arctic_tundra'' classAreas (fixed_row ''Arctic Tundra:'' 2 km2),
             when_defined ''alpine_tundra'' classAreas (fixed_row ''Alpine Tundra:'' 2 km2),
             when_defined ''wet_tundra'' classAreas (fixed_row ''Wet Tundra:'' 2 km2),
             when_defined ''shrub_dry_tundra'' classAreas
               (fixed_row ''Shrub/Dry Tundra:'' 2 km2)]),
        when_truthy ''environmental_indicators'' data (\<lambda>indicators.
          group (globe @ '' Environmental Indicators'')
            [when_defined ''mean_temperature_celsius'' indicators
               (fixed_row ''Mean Temperature:'' 1 ('' '' @ degree @ ''C'')),
             when_defined ''mean_ndvi'' indicators (fixed_row ''Mean NDVI:'' 2 []),
             when_defined ''permafrost_probability'' indicators
               (fixed_row ''Permafrost Probability:'' 2 [])])]"

subsection \<open>displayGrasslandStatistics\<close>

definition under_analysis :: "json \<Rightarrow> string \<Rightarrow> (json \<Rightarrow> exn + string) \<Rightarrow> exn + string" where
  \<comment> \<open>\<open>if (data.grassland_analysis && data.grassland_analysis.name) { ... }\<close>\<close>
  "under_analysis data name f =
     bind (get_prop ''grassland_analysis'' data) (\<lambda>analysis.
       if truthy analysis then when_truthy name analysis f else Inr [])"

definition displayGrasslandStatistics :: "json \<Rightarrow> exn + string" where
  "displayGrasslandStatistics data =
     build
       [Inr (section_header (sheaf_of_rice @ '' Grassland Analysis'')),
        under_analysis data ''roi_area_km2''
          (fixed_row (''ROI Area (km'' @ squared @ ''):'') 2 km2),
        under_analysis data ''roi_area_hectares'' (fixed_row ''ROI Area (ha):'' 2 '' ha''),
        under_analysis data ''mean_ndvi'' (fixed_row ''Mean NDVI:'' 3 []),
        under_analysis data ''vegetation_classification'' (\<lambda>vegClass.
          group (bar_chart @ '' Vegetation Classification'')
            [when_defined ''non_vegetation_area_ha'' vegClass
               (fixed_row ''Non-Vegetation Area:'' 2 '' ha''),
             when_defined ''grassland_area_ha'' vegClass
               (fixed_row ''Grassland Area:'' 2 '' ha''),
             when_defined ''savanna_area_ha'' vegClass
               (fixed_row ''Savanna Area:'' 2 '' ha''),
             when_defined ''dense_vegetation_area_ha'' vegClass
               (fixed_row ''Dense Vegetation Area:'' 2 '' ha'')]),
        under_analysis data ''carbon_estimation'' (\<lambda>carbonEst.
          group (globe @ '' Carbon Estimation'')
            [when_defined ''total_biomass_Mg'' carbonEst
               (fixed_row ''Total Biomass:'' 2 '' Mg''),
             when_defined ''total_carbon_stock_MgC'' carbonEst
               (fixed_row ''Total Carbon Stock:'' 2 '' MgC''),
             when_defined ''co2_equivalent_MgCO2e'' carbonEst
               (fixed_row (''CO'' @ sub_two @ '' Equivalent:'') 2
                  ('' MgCO'' @ sub_two @ ''e''))]),
        when_truthy ''methodology'' data (\<lambda>method.
          group (gear @ '' Methodology'')
            [when_truthy ''approach'' method (text_row ''Approach:''),
             when_truthy ''data_source'' method (text_row ''Data Source:'')])]"

subsection \<open>displayAlgalBloomsStatistics\<close>

definition displayAlgalBloomsStatistics :: "json \<Rightarrow> exn + string" where
  "displayAlgalBloomsStatistics data =
     build
       [Inr (section_header (water_wave @ '' Algal Blooms Analysis'')),
        when_truthy ''roi_area_sq_km'' data (fixed_row ''ROI Area:'' 2 km2),
        when_truthy ''mean_ndci'' data (fixed_row ''Mean NDCI:'' 2 []),
        when_defined ''bloom_detected'' data (string_row ''Bloom Detected:''),
        when_truthy ''severity_level'' data (text_row ''Severity Level:''),
        when_truthy ''bloom_extent_sq_km'' data (fixed_row ''Bloom Extent:'' 2 km2),
        when_truthy ''classification_by_area_ha'' data (\<lambda>classData.
          group (bar_chart @ '' Classification by Area'')
            [when_defined ''no_bloom_ha'' classData (fixed_row ''No Bloom:'' 2 '' ha''),
             when_defined ''low_bloom_ha'' classData (fixed_row ''Low Bloom:'' 2 '' ha''),
             when_defined ''moderate_bloom_ha'' classData
               (fixed_row ''Moderate Bloom:'' 2 '' ha''),
             when_defined ''severe_bloom_ha'' classData
               (fixed_row ''Severe Bloom:'' 2 '' ha'')]),
        when_truthy ''water_quality_indicators'' data (\<lambda>indicators.
          group (droplet @ '' Water Quality Indicators'')
            [when_truthy ''chlorophyll_indicator'' indicators
               (text_row ''Chlorophyll Indicator:''),
             when_truthy ''turbidity_level'' indicators (text_row ''Turbidity Level:'')])]"

subsection \<open>displaySoilStatistics\<close>

definition displaySoilStatistics :: "json \<Rightarrow> exn + string" where
  "displaySoilStatistics data =
     build
       [Inr (section_header (globe @ '' Soil Moisture Analysis'')),
        when_truthy ''roi_area_km2'' data (fixed_row ''ROI Area:'' 2 km2),
        when_truthy ''soil_moisture_index'' data (fixed_row ''Soil Moisture Index:'' 2 []),
        when_truthy ''soil_moisture_level'' data (text_row ''Moisture Level:''),
        when_truthy ''vegetation_index_ndvi'' data
          (fixed_row ''Vegetation Index (NDVI):'' 3 []),
        when_truthy ''water_index_ndwi'' data (fixed_row ''Water Index (NDWI):'' 3 []),
        when_truthy ''land_surface_temperature_c'' data
          (fixed_row ''Land Surface Temperature:'' 1 ('' '' @ degree @ ''C'')),
        when_truthy ''data_availability'' data (\<lambda>availability.
          group (bar_chart @ '' Data Availability'')
            [when_defined ''sentinel2_available'' availability
               (string_row ''Sentinel-2 Available:''),
             when_defined ''modis_lst_available'' availability
               (string_row ''MODIS LST Available:'')])]"

subsection \<open>displayChlorophyllStatistics\<close>

definition displayChlorophyllStatistics :: "json \<Rightarrow> exn + string" where
  "displayChlorophyllStatistics data =
     build
       [Inr (section_header (water_wave @ '' Chlorophyll Analysis'')),
        when_truthy ''roi_area_km2'' data (fixed_row ''Total ROI Area:'' 2 km2),
        when_truthy ''land_area_km2'' data (fixed_row ''Land Area:'' 2 km2),
        when_truthy ''ocean_area_km2'' data (fixed_row ''Ocean Area:'' 2 km2),
        when_truthy ''ocean_coverage_percent'' data (fixed_row ''Ocean Coverage:'' 1 ''%''),
        when_truthy ''mean_chlorophyll_mg_m3'' data
          (fixed_row ''Mean Chlorophyll-a:'' 2 ('' mg/m'' @ cubed)),
        when_truthy ''trophic_status'' data (text_row ''Trophic Status:''),
        when_truthy ''water_quality_assessment'' data (text_row ''Water Quality:''),
        when_truthy ''bloom_risk'' data (text_row ''Bloom Risk:''),
        when_defined ''analysis_applicable'' data (string_row ''Analysis Applicable:''),
        when_truthy ''recommendation'' data (text_row ''Recommendation:''),
        when_truthy ''data_source'' data (\<lambda>source.
          build
            [Inr (section_header (bar_chart @ '' Data Source'')),
             text_row ''Satellite Source:'' source,
             when_truthy ''images_processed'' data (text_row ''Images Processed:'')])]"

subsection \<open>displayStatistics\<close>

text \<open>
  A formatter ends by assigning its content to the content element of its layer, which it
  names by a literal id; the model gives the content and the id apart. The layers are
  introduced here, since the table of the formatters is indexed by them.
\<close>

datatype layer = forest | wetland | tundra | grassland | algal_blooms | soil | chlorophyll

fun layer_name :: "layer \<Rightarrow> string" where
  "layer_name forest = ''forest''"
| "layer_name wetland = ''wetland''"
| "layer_name tundra = ''tundra''"
| "layer_name grassland = ''grassland''"
| "layer_name algal_blooms = ''algal_blooms''"
| "layer_name soil = ''soil''"
| "layer_name chlorophyll = ''chlorophyll''"

fun displayFunctions :: "layer \<Rightarrow> json \<Rightarrow> exn + string" where
  "displayFunctions forest = displayForestStatistics"
| "displayFunctions wetland = displayWetlandStatistics"
| "displayFunctions tundra = displayTundraStatistics"
| "displayFunctions grassland = displayGrasslandStatistics"
| "displayFunctions algal_blooms = displayAlgalBloomsStatistics"
| "displayFunctions soil = displaySoilStatistics"
| "displayFunctions chlorophyll = displayChlorophyllStatistics"

fun content_element :: "layer \<Rightarrow> string" where
  \<comment> \<open>the id that the formatter of the layer assigns to\<close>
  "content_element forest = ''forestStatsContent''"
| "content_element wetland = ''wetlandStatsContent''"
| "content_element tundra = ''tundraStatsContent''"
| "content_element grassland = ''grasslandStatsContent''"
| "content_element algal_blooms = ''algalBloomsStatsContent''"
| "content_element soil = ''soilStatsContent''"
| "content_element chlorophyll = ''chlorophyllStatsContent''"

section \<open>The dashboard (static/app.js)\<close>

subsection \<open>Layers\<close>

definition validLayers :: "layer list" where
  "validLayers = [forest, wetland, tundra, grassland, algal_blooms, soil, chlorophyll]"

fun defaultResolution :: "layer \<Rightarrow> jsnum" where
  "defaultResolution forest = Fin 10"
| "defaultResolution wetland = Fin 10"
| "defaultResolution tundra = Fin 250"
| "defaultResolution grassland = Fin 10"
| "defaultResolution algal_blooms = Fin 300"
| "defaultResolution soil = Fin 500"
| "defaultResolution chlorophyll = Fin 4638"

subsection \<open>Legends\<close>

text \<open>
  Modelled from the spec: the legend descriptor. The legend configuration of the backend
  (legends/legend_configs.py) is not among the sources; a descriptor is taken as the spec
  gives it: a title, a type, an ordered list of items with a colour and a label, and an
  optional methodology text (empty when there is none). The body of a legend response
  maps legend keys to descriptors.
\<close>

record legend_item =
  color :: string
  label :: string

record legend_info =
  title :: string
  legend_type :: string
  items :: "legend_item list"
  methodology :: string

type_synonym legend_data = "(string \<times> legend_info) list"

definition is_hex_digit :: "char \<Rightarrow> bool" where
  "is_hex_digit c = (digit_value c < 16)"

definition colorPattern :: "string \<Rightarrow> bool" where
  \<comment> \<open>the regular expression \<open>/^#[0-9A-F]{6}$/i\<close>\<close>
  "colorPattern c = (length c = 7 \<and> take 1 c = ''#'' \<and> list_all is_hex_digit (drop 1 c))"

definition legend_item_html :: "legend_item \<Rightarrow> string" where
  \<open>legend_item_html item =
     (let safeColor = (if colorPattern (color item) then color item else ''#cccccc'')
      in ''<div class="legend-item">'' @
         ''<div class="legend-color" style="background-color: '' @ safeColor @ '';"></div>'' @
         ''<span class="legend-label">'' @ label item @ ''</span>'' @
         ''</div>'')\<close>

definition legend_html :: "legend_info \<Rightarrow> string" where
  \<open>legend_html legendInfo =
     ''<div class="legend-title">'' @ title legendInfo @ ''</div>'' @
     (if legend_type legendInfo = ''classification''
      then concat (map legend_item_html (items legendInfo)) else []) @
     (if methodology legendInfo \<noteq> []
      then ''<div class="legend-description">'' @ methodology legendInfo @ ''</div>'' else [])\<close>

definition legendKey :: "layer \<Rightarrow> string" where
  "legendKey layerType =
     (if layerType = algal_blooms then ''algal_blooms_classification''
      else if layerType = soil then ''soil_classification''
      else if layerType = chlorophyll then ''chlorophyll_classification''
      else layer_name layerType @ ''_classification'')"

subsection \<open>The network\<close>

text \<open>
  A \<open>fetch\<close> either rejects (with the message of the error) or resolves to a response with
  a status code; reading the body of a response as JSON either rejects (with the message of
  the syntax error) or gives the parsed value. The replies are inputs of the model: every
  function that awaits a request takes the reply as an argument, and the requests issued
  are logged in the state, in the order of the calls of \<open>fetch\<close>.
\<close>

datatype 'a body = Unparsable string | Parsed 'a

datatype 'a reply = Rejected string | Response int "'a body"

definition ok :: "int \<Rightarrow> bool" where
  "ok code = (200 \<le> code \<and> code \<le> 299)"

datatype request =
    SetupRoi "(jsnum \<times> jsnum) list" string string jsnum
      \<comment> \<open>POST /api/setup-roi: coordinates, start_date, end_date, resolution\<close>
  | AnalyzeLayer layer string string jsnum
      \<comment> \<open>POST /api/analyze-layer: layer_type, start_date, end_date, resolution\<close>
  | GetMapUrl layer       \<comment> \<open>GET /api/{layer}/map-url\<close>
  | GetLegend layer       \<comment> \<open>GET /api/legends/{layer}\<close>
  | GetStatistics layer   \<comment> \<open>GET /api/{layer}/statistics\<close>

fun is_analysis_request :: "layer \<Rightarrow> request \<Rightarrow> bool" where
  "is_analysis_request l (AnalyzeLayer l' _ _ _) = (l = l')"
| "is_analysis_request l _ = False"

subsection \<open>The state\<close>

text \<open>
  The state holds the globals of the script, the overlays attached to the map, the parts
  of the page that the script reads and writes, the pending timers and the log of requests.

  An overlay is a tile layer object: it has an identity, since the map is asked whether it
  holds this very object. The page markup (static/index.html) is not among the sources.
  The model takes the seven toggles, the layer rows with their status texts, the legend
  panel, the status container, the coordinate readout and the three parameter inputs as
  present: \<open>setupEventListeners\<close>, \<open>showStatus\<close>, \<open>clearAllLayers\<close> and the handler of
  the deletion dereference them unguarded. Whether the statistics panel that
  \<open>setActiveLayer\<close> looks up under the id \<open>layerType + 'Stats'\<close> exists is a field of the
  state, and so is which statistics content elements exist.

  The map library (Leaflet) is not among the sources either. Its \<open>addTo\<close> registers the
  tile layer with the map, so that \<open>hasLayer\<close> answers yes from then on, and then builds
  the tiles, expanding the URL template of the layer; the expansion throws when the map
  cannot fill the template (a placeholder that it has no value for, a URL that is not a
  string). Which tile URLs the map cannot draw, and with which exception, is the field
  \<open>tileFault\<close> of the state: no handler changes it.
\<close>

record overlay =
  ovId :: nat
  ovUrl :: json

record latlng =
  lat :: jsnum
  lng :: jsnum

record dashboard =
  currentPolygon :: "latlng list option"
  analysisLayers :: "layer \<Rightarrow> overlay option"
  legendData :: "layer \<Rightarrow> legend_data option"
  roiSetup :: bool
  layersAnalyzed :: "layer \<Rightarrow> bool"
  currentActiveLayer :: layer
  mapOverlays :: "nat set"
  nextOverlay :: nat
  toggleChecked :: "layer \<Rightarrow> bool"
  toggleDisabled :: "layer \<Rightarrow> bool"
  layerStatus :: "layer \<Rightarrow> string"
  itemActive :: "layer \<Rightarrow> bool"
  itemAnalyzing :: "layer \<Rightarrow> bool"
  panelPresent :: "layer \<Rightarrow> bool"
  panelActive :: "layer \<Rightarrow> bool"
  legendShown :: bool
  legendContent :: string
  statusContainer :: string
  coordinatesDisplay :: string
  statsContent :: "string \<Rightarrow> string option"
  startDate :: string
  endDate :: string
  resolutionSelect :: string
  timers :: "layer list"
  requests :: "request list"
  tileFault :: "json \<Rightarrow> exn option"

text \<open>
  How a piece of code ends: with the state it leaves, or with an exception thrown and the
  state at the throw.
\<close>

type_synonym outcome = "exn \<times> dashboard + dashboard"

definition uncaught :: "outcome \<Rightarrow> dashboard" where
  \<comment> \<open>an exception that leaves an event handler, or rejects a promise that nobody awaits,
     is reported on the console; the page stays as it was at the throw\<close>
  "uncaught r = (case r of Inr t \<Rightarrow> t | Inl (error, t) \<Rightarrow> t)"

definition fetch :: "request \<Rightarrow> dashboard \<Rightarrow> dashboard" where
  "fetch r s = s\<lparr>requests := requests s @ [r]\<rparr>"

subsection \<open>Status line, layer status, toggles\<close>

definition showStatus :: "string \<Rightarrow> string \<Rightarrow> dashboard \<Rightarrow> dashboard" where
  \<open>showStatus message type s =
     (let type1 = (if type = [] then ''loading'' else type);
          validTypes = [''success'', ''error'', ''loading'', ''warning''];
          safeType = (if type1 \<in> set validTypes then type1 else ''loading'')
      in s\<lparr>statusContainer := ''<div class="status '' @ safeType @ ''">'' @ message @ ''</div>''\<rparr>)\<close>

definition clearStatus :: "dashboard \<Rightarrow> dashboard" where
  "clearStatus s = s\<lparr>statusContainer := []\<rparr>"

definition updateLayerStatus :: "layer \<Rightarrow> string \<Rightarrow> dashboard \<Rightarrow> dashboard" where
  "updateLayerStatus layerType status s = s\<lparr>layerStatus := (layerStatus s)(layerType := status)\<rparr>"

definition resetLayerStates :: "dashboard \<Rightarrow> dashboard" where
  "resetLayerStates s =
     (let s1 = s\<lparr>layersAnalyzed := (\<lambda>l. False)\<rparr>;
          s2 = fold (\<lambda>l t. (updateLayerStatus l ''Draw ROI to enable''
                             (t\<lparr>toggleDisabled := (toggleDisabled t)(l := True),
                                toggleChecked := (toggleChecked t)(l := False)\<rparr>))
                           \<lparr>itemActive := (itemActive t)(l := False),
                            itemAnalyzing := (itemAnalyzing t)(l := False)\<rparr>)
                 validLayers s1;
          s3 = updateLayerStatus forest ''Ready (Default)'' s2
      in s3\<lparr>itemActive := (itemActive s3)(forest := True)\<rparr>)"

definition enableAllLayerToggles :: "dashboard \<Rightarrow> dashboard" where
  "enableAllLayerToggles s =
     fold (\<lambda>l t.
            let t1 = t\<lparr>toggleDisabled := (toggleDisabled t)(l := False)\<rparr>
            in if l = forest
               then updateLayerStatus l ''Analyzed''
                      (t1\<lparr>toggleChecked := (toggleChecked t1)(l := True)\<rparr>)
               else updateLayerStatus l ''Click toggle to analyze''
                      (t1\<lparr>toggleChecked := (toggleChecked t1)(l := False)\<rparr>))
          validLayers s"

subsection \<open>Statistics panel and legend\<close>

definition setActiveLayer :: "layer \<Rightarrow> dashboard \<Rightarrow> dashboard" where
  \<comment> \<open>\<open>StatisticsManager.loadStatistics\<close> is called and not awaited: it runs up to its
     \<open>fetch\<close>, and what it does with the reply is \<open>statisticsArrived\<close> below\<close>
  "setActiveLayer layerType s =
     (let s1 = s\<lparr>panelActive := (\<lambda>l. False)\<rparr>;
          s2 = (if panelPresent s1 layerType \<and> layersAnalyzed s1 layerType
                then fetch (GetStatistics layerType)
                       (s1\<lparr>panelActive := (panelActive s1)(layerType := True)\<rparr>)
                else s1)
      in s2\<lparr>currentActiveLayer := layerType\<rparr>)"

definition showMapLegend :: "legend_info \<Rightarrow> dashboard \<Rightarrow> dashboard" where
  "showMapLegend legendInfo s = s\<lparr>legendContent := legend_html legendInfo, legendShown := True\<rparr>"

definition removeLayer :: "overlay \<Rightarrow> dashboard \<Rightarrow> dashboard" where
  "removeLayer ov s = s\<lparr>mapOverlays := mapOverlays s - {ovId ov}\<rparr>"

definition addTo :: "overlay \<Rightarrow> dashboard \<Rightarrow> outcome" where
  \<comment> \<open>\<open>layer.addTo(map)\<close>: the layer is registered, then its tiles are built\<close>
  "addTo ov s =
     (let s1 = s\<lparr>mapOverlays := insert (ovId ov) (mapOverlays s)\<rparr>
      in case tileFault s (ovUrl ov) of
           Some error \<Rightarrow> Inl (error, s1)
         | None \<Rightarrow> Inr s1)"

definition lastVisible :: "dashboard \<Rightarrow> layer option" where
  \<comment> \<open>the loop over \<open>validLayers\<close> that keeps the last layer whose toggle is checked and
     that is analyzed\<close>
  "lastVisible s =
     fold (\<lambda>l found. if toggleChecked s l \<and> layersAnalyzed s l then Some l else found)
       validLayers None"

definition showLastVisible :: "dashboard \<Rightarrow> dashboard" where
  \<comment> \<open>the \<open>else\<close> branch of \<open>updateLayerVisibility\<close>\<close>
  "showLastVisible s =
     (case lastVisible s of
        Some lastVisibleLayer \<Rightarrow>
          (let t1 = (case legendData s lastVisibleLayer of
                       Some d \<Rightarrow>
                         (case map_of d (legendKey lastVisibleLayer) of
                            Some legendInfo \<Rightarrow> showMapLegend legendInfo s
                          | None \<Rightarrow> s\<lparr>legendShown := False\<rparr>)
                     | None \<Rightarrow> s);
               t2 = t1\<lparr>itemActive := (itemActive t1)(lastVisibleLayer := True)\<rparr>
           in setActiveLayer lastVisibleLayer t2)
      | None \<Rightarrow> s\<lparr>legendShown := False, panelActive := (\<lambda>l. False)\<rparr>)"

definition detachLayer :: "layer \<Rightarrow> dashboard \<Rightarrow> dashboard" where
  \<comment> \<open>the first statement of \<open>updateLayerVisibility\<close>: the overlay that \<open>analysisLayers\<close>
     holds for the layer leaves the map, if the map has it\<close>
  "detachLayer layerType s =
     (case analysisLayers s layerType of
        Some ov \<Rightarrow> if ovId ov \<in> mapOverlays s then removeLayer ov s else s
      | None \<Rightarrow> s)"

definition showLayer :: "layer \<Rightarrow> overlay \<Rightarrow> dashboard \<Rightarrow> outcome" where
  \<comment> \<open>the \<open>then\<close> branch of \<open>updateLayerVisibility\<close>\<close>
  "showLayer layerType ov s =
     (case addTo ov s of
        Inl thrown \<Rightarrow> Inl thrown
      | Inr t1 \<Rightarrow>
          (let t2 = t1\<lparr>itemActive := (itemActive t1)(layerType := True)\<rparr>;
               t3 = (case legendData t2 layerType of
                       Some d \<Rightarrow>
                         (case map_of d (legendKey layerType) of
                            Some legendInfo \<Rightarrow> showMapLegend legendInfo t2
                          | None \<Rightarrow> t2)
                     | None \<Rightarrow> t2)
           in Inr (setActiveLayer layerType t3)))"

definition keepForestEnabled :: "dashboard \<Rightarrow> dashboard" where
  \<comment> \<open>the last statement of \<open>updateLayerVisibility\<close>\<close>
  "keepForestEnabled s =
     (if layersAnalyzed s forest
      then s\<lparr>toggleDisabled := (toggleDisabled s)(forest := False)\<rparr> else s)"

definition updateLayerVisibility :: "layer \<Rightarrow> bool \<Rightarrow> dashboard \<Rightarrow> outcome" where
  "updateLayerVisibility layerType isVisible s =
     (let s1 = detachLayer layerType s;
          s2 = s1\<lparr>itemActive := (itemActive s1)(layerType := False)\<rparr>
      in case (case analysisLayers s2 layerType of
                 Some ov \<Rightarrow>
                   if isVisible \<and> layersAnalyzed s2 layerType then showLayer layerType ov s2
                   else Inr (showLastVisible s2)
               | None \<Rightarrow> Inr (showLastVisible s2)) of
           Inl thrown \<Rightarrow> Inl thrown
         | Inr s3 \<Rightarrow> Inr (keepForestEnabled s3))"

subsection \<open>Loading the overlay and the legend of a layer\<close>

fun contains :: "string \<Rightarrow> string \<Rightarrow> bool" where
  \<comment> \<open>\<open>contains p s\<close>: the string \<open>s\<close> includes \<open>p\<close>\<close>
  "contains p [] = (p = [])"
| "contains p (c # cs) = (take (length p) (c # cs) = p \<or> contains p cs)"

definition includes_host :: "json \<Rightarrow> bool" where
  \<comment> \<open>\<open>tile_url.includes('earthengine.googleapis.com')\<close> on a truthy value: a string and
     an array have the method; on anything else the call throws, and the \<open>catch\<close> of the
     promise logs it\<close>
  "includes_host u =
     (case u of
        JStr url \<Rightarrow> contains ''earthengine.googleapis.com'' url
      | JArr xs \<Rightarrow> JStr ''earthengine.googleapis.com'' \<in> set xs
      | _ \<Rightarrow> False)"

definition accepted_tile_url :: "json \<Rightarrow> json option" where
  \<comment> \<open>\<open>data && data.tile_url && data.tile_url.includes(...)\<close>\<close>
  "accepted_tile_url data =
     (if truthy data then
        (case get_prop ''tile_url'' data of
           Inr u \<Rightarrow> if truthy u \<and> includes_host u then Some u else None
         | Inl e \<Rightarrow> None)
      else None)"

definition mapUrlArrived :: "layer \<Rightarrow> json reply \<Rightarrow> dashboard \<Rightarrow> dashboard" where
  "mapUrlArrived layerType r s =
     (case r of
        Response code (Parsed data) \<Rightarrow>
          if ok code then
            (case accepted_tile_url data of
               Some u \<Rightarrow>
                 s\<lparr>analysisLayers :=
                     (analysisLayers s)(layerType := Some \<lparr>ovId = nextOverlay s, ovUrl = u\<rparr>),
                   nextOverlay := Suc (nextOverlay s)\<rparr>
             | None \<Rightarrow> s)
          else s
      | _ \<Rightarrow> s)"

definition legendArrived :: "layer \<Rightarrow> legend_data option reply \<Rightarrow> dashboard \<Rightarrow> dashboard" where
  \<comment> \<open>the body \<open>None\<close> stands for a falsy value\<close>
  "legendArrived layerType r s =
     (case r of
        Response code (Parsed (Some data)) \<Rightarrow>
          if ok code then s\<lparr>legendData := (legendData s)(layerType := Some data)\<rparr> else s
      | _ \<Rightarrow> s)"

definition loadLayerData ::
  "layer \<Rightarrow> json reply \<Rightarrow> legend_data option reply \<Rightarrow> dashboard \<Rightarrow> dashboard" where
  "loadLayerData layerType mapReply legendReply s =
     legendArrived layerType legendReply
       (mapUrlArrived layerType mapReply
          (fetch (GetLegend layerType) (fetch (GetMapUrl layerType) s)))"

definition clearAllLayers :: "dashboard \<Rightarrow> dashboard" where
  "clearAllLayers s =
     (let s1 = fold (\<lambda>l t. case analysisLayers t l of
                              Some ov \<Rightarrow> if ovId ov \<in> mapOverlays t then removeLayer ov t else t
                            | None \<Rightarrow> t)
                 validLayers s
      in clearStatus (s1\<lparr>legendShown := False, panelActive := (\<lambda>l. False)\<rparr>))"

subsection \<open>setupROI\<close>

definition failure_of_response :: "int \<Rightarrow> json body \<Rightarrow> exn" where
  \<comment> \<open>what the branch \<open>if (!response.ok)\<close> throws\<close>
  "failure_of_response code b =
     (let errorData = (case b of
                         Parsed j \<Rightarrow> j
                       | Unparsable m \<Rightarrow> JObj [(''detail'', JStr ''Unknown error'')])
      in case get_prop ''detail'' errorData of
           Inl e \<Rightarrow> e
         | Inr d \<Rightarrow>
             if truthy d then (case to_string d of Inl e \<Rightarrow> e | Inr m \<Rightarrow> Error m)
             else Error (''HTTP '' @ show_nat code))"

definition detail_or_unknown :: "json \<Rightarrow> exn + string" where
  \<comment> \<open>\<open>result.detail || 'Unknown error'\<close> inside a template literal\<close>
  "detail_or_unknown result =
     bind (get_prop ''detail'' result)
       (\<lambda>d. if truthy d then to_string d else Inr ''Unknown error'')"

definition roi_loaded :: "string \<Rightarrow> json reply \<Rightarrow> legend_data option reply \<Rightarrow> dashboard \<Rightarrow> dashboard" where
  \<comment> \<open>the success branch of \<open>setupROI\<close>, from \<open>showStatus\<close> to the end of
     \<open>loadLayerData\<close>\<close>
  "roi_loaded area mapReply legendReply s =
     (let s1 = showStatus (''ROI setup complete! Forest analysis ready. Area: '' @ area @ km2)
                 ''success'' s;
          s2 = enableAllLayerToggles s1
      in loadLayerData forest mapReply legendReply s2)"

definition roi_ready :: "string \<Rightarrow> json reply \<Rightarrow> legend_data option reply \<Rightarrow> dashboard \<Rightarrow> outcome" where
  \<comment> \<open>the success branch of \<open>setupROI\<close>, from \<open>showStatus\<close> on\<close>
  "roi_ready area mapReply legendReply s =
     (case updateLayerVisibility forest True (roi_loaded area mapReply legendReply s) of
        Inl thrown \<Rightarrow> Inl thrown
      | Inr s4 \<Rightarrow>
          (let s5 = updateLayerStatus forest ''Analyzed'' s4
           in Inr (s5\<lparr>toggleChecked := (toggleChecked s5)(forest := True),
                      toggleDisabled := (toggleDisabled s5)(forest := False)\<rparr>)))"

definition roi_failed :: "string \<Rightarrow> dashboard \<Rightarrow> dashboard" where
  \<comment> \<open>what the \<open>else\<close> branch and the \<open>catch\<close> block of \<open>setupROI\<close> do, each with its
     own message\<close>
  "roi_failed msg s = resetLayerStates ((showStatus msg ''error'' s)\<lparr>roiSetup := False\<rparr>)"

definition roi_tried ::
  "json reply \<Rightarrow> json reply \<Rightarrow> legend_data option reply \<Rightarrow> dashboard \<Rightarrow>
   outcome" where
  \<comment> \<open>the \<open>try\<close> block of \<open>setupROI\<close> from the reply on\<close>
  "roi_tried r mapReply legendReply s =
     (case r of
        Rejected m \<Rightarrow> Inl (NetworkError m, s)
      | Response code b \<Rightarrow>
          if \<not> ok code then Inl (failure_of_response code b, s)
          else
            (case b of
               Unparsable m \<Rightarrow> Inl (SyntaxError m, s)
             | Parsed result \<Rightarrow>
                 (case get_prop ''status'' result of
                    Inl e \<Rightarrow> Inl (e, s)
                  | Inr st \<Rightarrow>
                      if st = JStr ''success'' then
                        (let s2 = s\<lparr>roiSetup := True, layersAnalyzed := (\<lambda>l. l = forest)\<rparr>
                         in case bind (get_prop ''area_km2'' result) (call_toFixed 2) of
                              Inl e \<Rightarrow> Inl (e, s2)
                            | Inr area \<Rightarrow> roi_ready area mapReply legendReply s2)
                      else
                        (case detail_or_unknown result of
                           Inl e \<Rightarrow> Inl (e, s)
                         | Inr d \<Rightarrow> Inr (roi_failed (''ROI setup failed: '' @ d) s)))))"

definition roi_request :: "latlng list \<Rightarrow> dashboard \<Rightarrow> request" where
  "roi_request ring s =
     SetupRoi (map (\<lambda>p. (lng p, lat p)) ring)
       (if startDate s \<noteq> [] then startDate s else ''2021-01-01'')
       (if endDate s \<noteq> [] then endDate s else ''2023-01-01'')
       (parseInt (if resolutionSelect s \<noteq> [] then resolutionSelect s
                  else num_to_string (Fin 10)))"

definition roi_caught ::
  "json reply \<Rightarrow> json reply \<Rightarrow> legend_data option reply \<Rightarrow> dashboard \<Rightarrow> dashboard" where
  \<comment> \<open>the \<open>try\<close> block of \<open>setupROI\<close> from the reply on, with its \<open>catch\<close> block\<close>
  "roi_caught r mapReply legendReply s =
     (case roi_tried r mapReply legendReply s of
        Inr t \<Rightarrow> t
      | Inl (error, t) \<Rightarrow> roi_failed (''Error: '' @ error_message error) t)"

definition roi_requested ::
  "latlng list \<Rightarrow> json reply \<Rightarrow> json reply \<Rightarrow> legend_data option reply \<Rightarrow>
   dashboard \<Rightarrow> dashboard" where
  \<comment> \<open>\<open>setupROI\<close> past its early return\<close>
  "roi_requested ring r mapReply legendReply s =
     (let s0 = showStatus (cycle_arrows @ '' Setting up ROI and analyzing forest layer...'')
                 ''loading'' s
      in roi_caught r mapReply legendReply (fetch (roi_request ring s0) s0))"

definition setupROI ::
  "json reply \<Rightarrow> json reply \<Rightarrow> legend_data option reply \<Rightarrow> dashboard \<Rightarrow> dashboard" where
  "setupROI r mapReply legendReply s =
     (case currentPolygon s of
        None \<Rightarrow> s
      | Some ring \<Rightarrow> roi_requested ring r mapReply legendReply s)"

subsection \<open>analyzeLayer\<close>

definition analysis_failed :: "layer \<Rightarrow> bool \<Rightarrow> string \<Rightarrow> dashboard \<Rightarrow> dashboard" where
  \<comment> \<open>what the \<open>else\<close> branch and the \<open>catch\<close> block share, after their \<open>showStatus\<close>\<close>
  "analysis_failed layerType isReanalysis errorMessage s =
     (let s1 = updateLayerStatus layerType errorMessage s;
          s2 = s1\<lparr>itemAnalyzing := (itemAnalyzing s1)(layerType := False)\<rparr>
      in if \<not> isReanalysis
         then s2\<lparr>toggleChecked := (toggleChecked s2)(layerType := False)\<rparr> else s2)"

definition analysis_loaded ::
  "layer \<Rightarrow> bool \<Rightarrow> json reply \<Rightarrow> legend_data option reply \<Rightarrow> dashboard \<Rightarrow> dashboard" where
  \<comment> \<open>the success branch of \<open>analyzeLayer\<close>, up to the test of the toggle\<close>
  "analysis_loaded layerType isReanalysis mapReply legendReply s =
     (let s1 = s\<lparr>layersAnalyzed := (layersAnalyzed s)(layerType := True)\<rparr>;
          s2 = showStatus (layer_name layerType @
                 (if isReanalysis then '' re-analysis completed!'' else '' analysis completed!''))
                 ''success'' s1;
          s3 = loadLayerData layerType mapReply legendReply s2;
          s4 = updateLayerStatus layerType ''Analyzed'' s3
      in s4\<lparr>itemAnalyzing := (itemAnalyzing s4)(layerType := False),
            itemActive := (itemActive s4)(layerType := True)\<rparr>)"

definition analysis_succeeded ::
  "layer \<Rightarrow> bool \<Rightarrow> json reply \<Rightarrow> legend_data option reply \<Rightarrow> dashboard \<Rightarrow> outcome" where
  \<comment> \<open>the success branch of \<open>analyzeLayer\<close>\<close>
  "analysis_succeeded layerType isReanalysis mapReply legendReply s =
     (let s5 = analysis_loaded layerType isReanalysis mapReply legendReply s
      in if toggleChecked s5 layerType
         then (case updateLayerVisibility layerType True s5 of
                 Inl thrown \<Rightarrow> Inl thrown
               | Inr s6 \<Rightarrow> Inr (setActiveLayer layerType s6))
         else Inr s5)"

definition analysis_tried ::
  "layer \<Rightarrow> bool \<Rightarrow> json reply \<Rightarrow> json reply \<Rightarrow> legend_data option reply \<Rightarrow>
   dashboard \<Rightarrow> outcome" where
  \<comment> \<open>the \<open>try\<close> block of \<open>analyzeLayer\<close> from the reply on\<close>
  "analysis_tried layerType isReanalysis r mapReply legendReply s =
     (case r of
        Rejected m \<Rightarrow> Inl (NetworkError m, s)
      | Response code b \<Rightarrow>
          if \<not> ok code then Inl (failure_of_response code b, s)
          else
            (case b of
               Unparsable m \<Rightarrow> Inl (SyntaxError m, s)
             | Parsed result \<Rightarrow>
                 (case get_prop ''status'' result of
                    Inl e \<Rightarrow> Inl (e, s)
                  | Inr st \<Rightarrow>
                      if st = JStr ''success''
                      then analysis_succeeded layerType isReanalysis mapReply legendReply s
                      else
                        (case detail_or_unknown result of
                           Inl e \<Rightarrow> Inl (e, s)
                         | Inr d \<Rightarrow>
                             Inr (analysis_failed layerType isReanalysis
                                    ''Failed - Click toggle to retry''
                                    (showStatus (layer_name layerType @
                                       '' analysis failed: '' @ d) ''error'' s))))))"

definition analysis_request :: "layer \<Rightarrow> dashboard \<Rightarrow> request" where
  "analysis_request layerType s =
     AnalyzeLayer layerType
       (if startDate s \<noteq> [] then startDate s else ''2021-01-01'')
       (if endDate s \<noteq> [] then endDate s else ''2023-01-01'')
       (parseInt (if resolutionSelect s \<noteq> [] then resolutionSelect s
                  else num_to_string (defaultResolution layerType)))"

definition analysis_announced :: "layer \<Rightarrow> bool \<Rightarrow> dashboard \<Rightarrow> dashboard" where
  \<comment> \<open>the markers that \<open>analyzeLayer\<close> sets before its \<open>try\<close> block\<close>
  "analysis_announced layerType isReanalysis s =
     (let s1 = updateLayerStatus layerType
                 (if isReanalysis then ''Re-analyzing...'' else ''Analyzing...'') s;
          s2 = s1\<lparr>itemAnalyzing := (itemAnalyzing s1)(layerType := True)\<rparr>
      in showStatus (cycle_arrows @
           (if isReanalysis then '' Re-analyzing '' else '' Analyzing '') @
           layer_name layerType @ '' layer...'') ''loading'' s2)"

definition analysis_caught ::
  "layer \<Rightarrow> bool \<Rightarrow> json reply \<Rightarrow> json reply \<Rightarrow> legend_data option reply \<Rightarrow>
   dashboard \<Rightarrow> dashboard" where
  \<comment> \<open>the \<open>try\<close> block of \<open>analyzeLayer\<close> from the reply on, with its \<open>catch\<close> block\<close>
  "analysis_caught layerType isReanalysis r mapReply legendReply s =
     (case analysis_tried layerType isReanalysis r mapReply legendReply s of
        Inr t \<Rightarrow> t
      | Inl (error, t) \<Rightarrow>
          analysis_failed layerType isReanalysis ''Error - Click toggle to retry''
            (showStatus (''Error analyzing '' @ layer_name layerType @ '': '' @
               error_message error) ''error'' t))"

definition analysis_requested ::
  "layer \<Rightarrow> bool \<Rightarrow> json reply \<Rightarrow> json reply \<Rightarrow> legend_data option reply \<Rightarrow>
   dashboard \<Rightarrow> dashboard" where
  \<comment> \<open>\<open>analyzeLayer\<close> past its two early returns\<close>
  "analysis_requested layerType isReanalysis r mapReply legendReply s =
     (let s3 = analysis_announced layerType isReanalysis s
      in analysis_caught layerType isReanalysis r mapReply legendReply
           (fetch (analysis_request layerType s3) s3))"

definition analyzeLayer ::
  "layer \<Rightarrow> bool \<Rightarrow> json reply \<Rightarrow> json reply \<Rightarrow> legend_data option reply \<Rightarrow>
   dashboard \<Rightarrow> dashboard" where
  "analyzeLayer layerType isReanalysis r mapReply legendReply s =
     (if \<not> roiSetup s then showStatus ''Please draw a ROI first!'' ''error'' s
      else if layersAnalyzed s layerType \<and> \<not> isReanalysis then
        (if toggleChecked s layerType then uncaught (updateLayerVisibility layerType True s)
         else s)
      else analysis_requested layerType isReanalysis r mapReply legendReply s)"

subsection \<open>Changes of the date range and of the resolution\<close>

definition layersToReanalyze :: "dashboard \<Rightarrow> layer list" where
  "layersToReanalyze s = filter (\<lambda>l. layersAnalyzed s l \<and> toggleChecked s l) validLayers"

definition schedule_reanalysis :: "string \<Rightarrow> string \<Rightarrow> dashboard \<Rightarrow> dashboard" where
  \<comment> \<open>the common body of the two handlers: each layer gets its status text and a timer,
     \<open>setTimeout(function() { analyzeLayer(layerType, true); }, i * 500)\<close>\<close>
  "schedule_reanalysis announcement status s =
     (if \<not> roiSetup s then s
      else if layersToReanalyze s = [] then s
      else
        (let s1 = showStatus announcement ''loading'' s;
             s2 = fold (\<lambda>l t. updateLayerStatus l status t) (layersToReanalyze s) s1
         in s2\<lparr>timers := timers s2 @ layersToReanalyze s\<rparr>))"

definition handleDateChange :: "dashboard \<Rightarrow> dashboard" where
  "handleDateChange s =
     schedule_reanalysis
       (cycle_arrows @ '' Date range changed to '' @ startDate s @ '' - '' @ endDate s @
        ''. Re-analyzing active layers...'')
       ''Re-analyzing with new dates...'' s"

definition handleResolutionChange :: "dashboard \<Rightarrow> dashboard" where
  "handleResolutionChange s =
     schedule_reanalysis
       (cycle_arrows @ '' Resolution changed to '' @ resolutionSelect s @
        ''m. Re-analyzing active layers...'')
       ''Re-analyzing with new resolution...'' s"

subsection \<open>The handlers of the map and of the toggles\<close>

definition coordinate_line :: "nat \<Rightarrow> jsnum \<times> jsnum \<Rightarrow> string" where
  "coordinate_line i coord =
     show_nat (int i + 1) @ '': ['' @ toFixed 6 (fst coord) @ '', '' @ toFixed 6 (snd coord) @ '']''"

definition updateCoordinatesDisplay :: "latlng list \<Rightarrow> dashboard \<Rightarrow> dashboard" where
  "updateCoordinatesDisplay ring s =
     (let coordinates = map (\<lambda>p. (lng p, lat p)) ring
      in if coordinates \<noteq> [] then
           (let closed = coordinates @ [hd coordinates];
                coordText = join_with [CHR 0x0A]
                              (map (\<lambda>(i, c). coordinate_line i c) (enumerate 0 closed))
            in s\<lparr>coordinatesDisplay := ''<pre>'' @ coordText @ ''</pre>''\<rparr>)
         else s)"

definition shapeCreated ::
  "latlng list \<Rightarrow> json reply \<Rightarrow> json reply \<Rightarrow> legend_data option reply \<Rightarrow>
   dashboard \<Rightarrow> dashboard" where
  "shapeCreated ring r mapReply legendReply s =
     setupROI r mapReply legendReply
       (updateCoordinatesDisplay ring (s\<lparr>currentPolygon := Some ring\<rparr>))"

definition shapeEdited ::
  "latlng list \<Rightarrow> json reply \<Rightarrow> json reply \<Rightarrow> legend_data option reply \<Rightarrow>
   dashboard \<Rightarrow> dashboard" where
  \<comment> \<open>the edited shape is the current polygon, whose corners the editor has moved\<close>
  "shapeEdited ring r mapReply legendReply s =
     (case currentPolygon s of
        None \<Rightarrow> s
      | Some old \<Rightarrow>
          setupROI r mapReply legendReply
            (updateCoordinatesDisplay ring (s\<lparr>currentPolygon := Some ring\<rparr>)))"

definition shapeDeleted :: "dashboard \<Rightarrow> dashboard" where
  "shapeDeleted s =
     (resetLayerStates (clearAllLayers (s\<lparr>currentPolygon := None, roiSetup := False\<rparr>)))
       \<lparr>coordinatesDisplay := ''Draw a polygon on the map to see coordinates here...''\<rparr>"

definition toggleChanged ::
  "layer \<Rightarrow> json reply \<Rightarrow> json reply \<Rightarrow> legend_data option reply \<Rightarrow> dashboard \<Rightarrow> dashboard" where
  \<comment> \<open>the \<open>change\<close> listener of a toggle; \<open>analyzeLayer\<close> is called with one argument, so
     that \<open>isReanalysis\<close> is undefined\<close>
  "toggleChanged layerType r mapReply legendReply s =
     (if toggleChecked s layerType then
        (if layerType = forest then
           (if layersAnalyzed s forest then uncaught (updateLayerVisibility forest True s)
            else s)
         else if \<not> layersAnalyzed s layerType
           then analyzeLayer layerType False r mapReply legendReply s
         else uncaught (updateLayerVisibility layerType True s))
      else uncaught (updateLayerVisibility layerType False s))"

definition userToggles ::
  "layer \<Rightarrow> json reply \<Rightarrow> json reply \<Rightarrow> legend_data option reply \<Rightarrow> dashboard \<Rightarrow> dashboard" where
  \<comment> \<open>a click on a toggle: a disabled checkbox does not react; an enabled one flips and
     then notifies its listener\<close>
  "userToggles layerType r mapReply legendReply s =
     (if toggleDisabled s layerType then s
      else toggleChanged layerType r mapReply legendReply
             (s\<lparr>toggleChecked := (toggleChecked s)(layerType := \<not> toggleChecked s layerType)\<rparr>))"

subsection \<open>The reply to a statistics request\<close>

definition set_content :: "string \<Rightarrow> string \<Rightarrow> dashboard \<Rightarrow> exn + dashboard" where
  \<comment> \<open>\<open>document.getElementById(id).innerHTML = html\<close>\<close>
  "set_content elem html s =
     (case statsContent s elem of
        None \<Rightarrow> Inl (TypeError (WriteOfNull ''innerHTML''))
      | Some old \<Rightarrow> Inr (s\<lparr>statsContent := (statsContent s)(elem \<mapsto> html)\<rparr>))"

definition displayStatistics :: "layer \<Rightarrow> json \<Rightarrow> dashboard \<Rightarrow> exn + dashboard" where
  "displayStatistics layerType data s =
     (if truthy data
      then bind (displayFunctions layerType data)
             (\<lambda>content. set_content (content_element layerType) content s)
      else set_content (layer_name layerType @ ''StatsContent'')
             (stat_item ''No display function or data available'') s)"

definition statisticsArrived :: "layer \<Rightarrow> json reply \<Rightarrow> dashboard \<Rightarrow> dashboard" where
  \<comment> \<open>\<open>loadStatistics\<close> from its \<open>fetch\<close> on. An exception in the \<open>catch\<close> block rejects
     the promise of \<open>loadStatistics\<close>, which nobody awaits: the state stays as it is.\<close>
  "statisticsArrived layerType r s =
     (let own_element = layer_name layerType @ ''StatsContent'';
          tried =
            (case r of
               Rejected m \<Rightarrow> Inl (NetworkError m)
             | Response code b \<Rightarrow>
                 if \<not> ok code then Inl (Error (''HTTP '' @ show_nat code))
                 else
                   (case b of
                      Unparsable m \<Rightarrow> Inl (SyntaxError m)
                    | Parsed data \<Rightarrow>
                        if truthy data \<and> 0 < keys_count data
                        then displayStatistics layerType data s
                        else bind (set_content own_element
                                     (stat_item ''No statistics available'') s)
                               (\<lambda>t. Inr (showStatus (warning_sign @
                                  '' No statistics available for '' @ layer_name layerType)
                                  ''warning'' t))))
      in case tried of
           Inr t \<Rightarrow> t
         | Inl error \<Rightarrow>
             (case set_content own_element (stat_item ''Error loading data'') s of
                Inr t \<Rightarrow> showStatus (warning_sign @ '' Could not load '' @
                           layer_name layerType @ '' statistics'') ''error'' t
              | Inl error' \<Rightarrow> s))"

subsection \<open>Start and events\<close>

definition document_loaded :: "dashboard \<Rightarrow> bool" where
  \<comment> \<open>the globals as the script declares them, nothing on the map, nothing requested\<close>
  "document_loaded s =
     (currentPolygon s = None \<and> analysisLayers s = (\<lambda>l. None) \<and>
      legendData s = (\<lambda>l. None) \<and> \<not> roiSetup s \<and> layersAnalyzed s = (\<lambda>l. False) \<and>
      currentActiveLayer s = forest \<and> mapOverlays s = {} \<and> timers s = [] \<and>
      requests s = [])"

definition initializeApp :: "dashboard \<Rightarrow> dashboard" where
  "initializeApp s =
     showStatus (globe @
        '' Environmental Analysis Dashboard loaded. Draw a polygon to begin analysis.'')
       ''success''
       (resetLayerStates
          (s\<lparr>startDate := ''2021-01-01'', endDate := ''2023-01-01'',
              resolutionSelect := ''10''\<rparr>))"

text \<open>
  What happens to the dashboard. An event that awaits requests carries their replies. Each
  handler is run to its end before the next event: the interleaving of two handlers that
  both wait for the network is not modelled. A timer fires only while it is pending.
\<close>

datatype event =
    Created "latlng list" "json reply" "json reply" "legend_data option reply"
  | Edited "latlng list" "json reply" "json reply" "legend_data option reply"
  | Deleted
  | Toggled layer "json reply" "json reply" "legend_data option reply"
  | StartDateChanged string
  | EndDateChanged string
  | ResolutionChanged string
  | TimerFired layer "json reply" "json reply" "legend_data option reply"
  | StatisticsReply layer "json reply"

fun step :: "event \<Rightarrow> dashboard \<Rightarrow> dashboard" where
  "step (Created ring r m l) s = shapeCreated ring r m l s"
| "step (Edited ring r m l) s = shapeEdited ring r m l s"
| "step Deleted s = shapeDeleted s"
| "step (Toggled layerType r m l) s = userToggles layerType r m l s"
| "step (StartDateChanged v) s = handleDateChange (s\<lparr>startDate := v\<rparr>)"
| "step (EndDateChanged v) s = handleDateChange (s\<lparr>endDate := v\<rparr>)"
| "step (ResolutionChanged v) s = handleResolutionChange (s\<lparr>resolutionSelect := v\<rparr>)"
| "step (TimerFired layerType r m l) s =
     (if layerType \<in> set (timers s)
      then analyzeLayer layerType True r m l (s\<lparr>timers := remove1 layerType (timers s)\<rparr>)
      else s)"
| "step (StatisticsReply layerType r) s =
     (if GetStatistics layerType \<in> set (requests s) then statisticsArrived layerType r s else s)"

definition run :: "event list \<Rightarrow> dashboard \<Rightarrow> dashboard" where
  "run events s = fold step events s"

definition reachable :: "dashboard \<Rightarrow> bool" where
  "reachable s = (\<exists>page events. document_loaded page \<and> s = run events (initializeApp page))"

subsection \<open>Reading the log of requests\<close>

definition issued :: "dashboard \<Rightarrow> dashboard \<Rightarrow> request list" where
  \<comment> \<open>the requests that the later state has logged beyond those of the earlier one\<close>
  "issued s s' = drop (length (requests s)) (requests s')"

fun is_statistics_request :: "request \<Rightarrow> bool" where
  "is_statistics_request (GetStatistics l) = True"
| "is_statistics_request _ = False"

fun is_analysis :: "request \<Rightarrow> bool" where
  "is_analysis (AnalyzeLayer l start end resolution) = True"
| "is_analysis _ = False"

definition analysis_requests :: "request list \<Rightarrow> request list" where
  \<comment> \<open>the analysis requests among the given ones\<close>
  "analysis_requests qs = filter is_analysis qs"

definition status_line :: "string \<Rightarrow> string \<Rightarrow> string" where
  \<comment> \<open>the markup of the status container for a message of one of the four kinds\<close>
  \<open>status_line type msg = ''<div class="status '' @ type @ ''">'' @ msg @ ''</div>''\<close>

subsection \<open>Sample inputs\<close>

definition sample_page :: dashboard where
  \<comment> \<open>a page as the document loads: every statistics panel and content element present,
     nothing checked, nothing shown, and a map that can draw every tile URL\<close>
  "sample_page =
     \<lparr>currentPolygon = None, analysisLayers = (\<lambda>l. None), legendData = (\<lambda>l. None),
      roiSetup = False, layersAnalyzed = (\<lambda>l. False), currentActiveLayer = forest,
      mapOverlays = {}, nextOverlay = 0,
      toggleChecked = (\<lambda>l. False), toggleDisabled = (\<lambda>l. True), layerStatus = (\<lambda>l. []),
      itemActive = (\<lambda>l. False), itemAnalyzing = (\<lambda>l. False),
      panelPresent = (\<lambda>l. True), panelActive = (\<lambda>l. False),
      legendShown = False, legendContent = [], statusContainer = [], coordinatesDisplay = [],
      statsContent = (\<lambda>e. Some []), startDate = [], endDate = [], resolutionSelect = [],
      timers = [], requests = [], tileFault = (\<lambda>u. None)\<rparr>"

definition sample_ring :: "latlng list" where
  "sample_ring =
     [\<lparr>lat = Fin 28, lng = Fin 77\<rparr>, \<lparr>lat = Fin 28, lng = Fin 78\<rparr>,
      \<lparr>lat = Fin 29, lng = Fin 78\<rparr>, \<lparr>lat = Fin 29, lng = Fin 77\<rparr>]"

definition sample_area :: jsnum where
  \<comment> \<open>the binary64 number that the literal 12.3456 denotes\<close>
  "sample_area = Fin (6949954944958149 / 562949953421312)"

definition setup_ok :: "json reply" where
  "setup_ok =
     Response 200 (Parsed (JObj [(''status'', JStr ''success''), (''area_km2'', JNum sample_area)]))"

definition analysis_ok :: "json reply" where
  "analysis_ok = Response 200 (Parsed (JObj [(''status'', JStr ''success'')]))"

definition quota_exceeded :: "json reply" where
  \<comment> \<open>HTTP 500 with the body \<open>{"detail": "GEE quota exceeded"}\<close>\<close>
  "quota_exceeded = Response 500 (Parsed (JObj [(''detail'', JStr ''GEE quota exceeded'')]))"

definition tile_ok :: "json reply" where
  "tile_ok =
     Response 200 (Parsed (JObj
       [(''tile_url'', JStr ''https://earthengine.googleapis.com/v1/tiles/{z}/{x}/{y}'')]))"

definition sample_legend :: "layer \<Rightarrow> legend_info" where
  "sample_legend l =
     \<lparr>title = layer_name l, legend_type = ''classification'',
      items = [\<lparr>color = ''#00ff00'', label = ''High''\<rparr>], methodology = []\<rparr>"

definition legend_ok :: "layer \<Rightarrow> legend_data option reply" where
  "legend_ok l = Response 200 (Parsed (Some [(legendKey l, sample_legend l)]))"

definition legend_missing :: "legend_data option reply" where
  "legend_missing = Response 404 (Unparsable ''Unexpected token'')"


definition sample_ready :: dashboard where
  \<comment> \<open>a page with the ROI established and no resolution selected\<close>
  "sample_ready = sample_page\<lparr>roiSetup := True, toggleDisabled := (\<lambda>l. False)\<rparr>"

subsection \<open>Reading a reply and the visibility of layers\<close>

definition usable_tile :: "json reply \<Rightarrow> json option" where
  \<comment> \<open>the tile URL of a reply from which \<open>loadLayerData\<close> builds an overlay\<close>
  "usable_tile r =
     (case r of
        Response code (Parsed data) \<Rightarrow> if ok code then accepted_tile_url data else None
      | _ \<Rightarrow> None)"

definition usable_legend :: "legend_data option reply \<Rightarrow> legend_data option" where
  \<comment> \<open>the legend data of a reply that \<open>loadLayerData\<close> caches\<close>
  "usable_legend r =
     (case r of
        Response code (Parsed (Some data)) \<Rightarrow> if ok code then Some data else None
      | _ \<Rightarrow> None)"

definition visible :: "dashboard \<Rightarrow> layer \<Rightarrow> bool" where
  \<comment> \<open>what the scan of \<open>updateLayerVisibility\<close> tests: the toggle of the layer is checked
     and the layer is analyzed\<close>
  "visible s l = (toggleChecked s l \<and> layersAnalyzed s l)"

fun position :: "layer \<Rightarrow> nat" where
  \<comment> \<open>the place of a layer in the enumeration order\<close>
  "position forest = 0"
| "position wetland = 1"
| "position tundra = 2"
| "position grassland = 3"
| "position algal_blooms = 4"
| "position soil = 5"
| "position chlorophyll = 6"

definition cached_legend :: "dashboard \<Rightarrow> layer \<Rightarrow> legend_info option" where
  \<comment> \<open>the descriptor that the cached legend data of a layer holds under the legend key
     of the layer\<close>
  "cached_legend s l =
     (case legendData s l of Some d \<Rightarrow> map_of d (legendKey l) | None \<Rightarrow> None)"

definition shown_layer :: "layer \<Rightarrow> bool \<Rightarrow> dashboard \<Rightarrow> layer option" where
  \<comment> \<open>the layer that a call of \<open>updateLayerVisibility\<close> hands to \<open>setActiveLayer\<close>, if any\<close>
  "shown_layer l v s =
     (if v \<and> analysisLayers s l \<noteq> None \<and> layersAnalyzed s l then Some l else lastVisible s)"

definition refusal :: "layer \<Rightarrow> bool \<Rightarrow> dashboard \<Rightarrow> exn option" where
  \<comment> \<open>the exception that a call of \<open>updateLayerVisibility\<close> throws, if any: the call adds
     the overlay of the layer, and the map cannot draw it\<close>
  "refusal l v s =
     (if v \<and> layersAnalyzed s l
      then (case analysisLayers s l of Some ov \<Rightarrow> tileFault s (ovUrl ov) | None \<Rightarrow> None)
      else None)"

definition loaded_overlay :: "layer \<Rightarrow> json reply \<Rightarrow> dashboard \<Rightarrow> overlay option" where
  \<comment> \<open>the overlay that \<open>analysisLayers\<close> holds for a layer once \<open>loadLayerData\<close> has run:
     a new one if the reply gives a usable tile URL, otherwise the one held before\<close>
  "loaded_overlay l mapReply s =
     (case usable_tile mapReply of
        Some u \<Rightarrow> Some \<lparr>ovId = nextOverlay s, ovUrl = u\<rparr>
      | None \<Rightarrow> analysisLayers s l)"

definition tile_error :: "overlay option \<Rightarrow> dashboard \<Rightarrow> exn option" where
  \<comment> \<open>the exception with which the map refuses to draw the overlay, if there is an overlay
     and the map refuses it\<close>
  "tile_error ov s = (case ov of Some x \<Rightarrow> tileFault s (ovUrl x) | None \<Rightarrow> None)"

definition statistics_fetch :: "dashboard \<Rightarrow> layer \<Rightarrow> request list" where
  \<comment> \<open>what \<open>setActiveLayer\<close> requests for a layer\<close>
  "statistics_fetch s l =
     (if panelPresent s l \<and> layersAnalyzed s l then [GetStatistics l] else [])"

subsection \<open>Reading the reply to a setup or analysis request\<close>

definition setup_area :: "json reply \<Rightarrow> string option" where
  \<comment> \<open>the area text of a reply on which \<open>setupROI\<close> succeeds: a 2xx response whose body
     has the status \<open>success\<close> and an \<open>area_km2\<close> on which \<open>toFixed(2)\<close> can be called\<close>
  "setup_area r =
     (case r of
        Response code (Parsed result) \<Rightarrow>
          if ok code \<and> get_prop ''status'' result = Inr (JStr ''success'')
          then (case bind (get_prop ''area_km2'' result) (call_toFixed 2) of
                  Inr area \<Rightarrow> Some area
                | Inl e \<Rightarrow> None)
          else None
      | _ \<Rightarrow> None)"

definition analysis_success :: "json reply \<Rightarrow> bool" where
  \<comment> \<open>a reply on which \<open>analyzeLayer\<close> succeeds: a 2xx response whose body has the status
     \<open>success\<close>\<close>
  "analysis_success r =
     (case r of
        Response code (Parsed result) \<Rightarrow>
          ok code \<and> get_prop ''status'' result = Inr (JStr ''success'')
      | _ \<Rightarrow> False)"

definition refused :: "json reply \<Rightarrow> bool" where
  \<comment> \<open>a response that reports a failure: a status code outside 2xx, or a 2xx response whose
     body can be read and has a status other than \<open>success\<close>\<close>
  "refused r =
     (case r of
        Response code b \<Rightarrow>
          if ok code
          then (case b of
                  Parsed result \<Rightarrow>
                    (case get_prop ''status'' result of
                       Inr st \<Rightarrow> st \<noteq> JStr ''success''
                     | Inl e \<Rightarrow> False)
                | Unparsable m \<Rightarrow> False)
          else True
      | Rejected m \<Rightarrow> False)"

definition server_detail :: "json reply \<Rightarrow> string option" where
  \<comment> \<open>the detail string, not empty, that the body of a response provides\<close>
  "server_detail r =
     (case r of
        Response code (Parsed result) \<Rightarrow>
          (case get_prop ''detail'' result of
             Inr (JStr d) \<Rightarrow> if d \<noteq> [] then Some d else None
           | _ \<Rightarrow> None)
      | _ \<Rightarrow> None)"

definition no_detail :: "json reply \<Rightarrow> bool" where
  \<comment> \<open>the body of the response can be read and gives no detail: the property is missing
     or falsy\<close>
  "no_detail r =
     (case r of
        Response code (Parsed result) \<Rightarrow>
          (case get_prop ''detail'' result of Inr d \<Rightarrow> \<not> truthy d | Inl e \<Rightarrow> False)
      | _ \<Rightarrow> False)"

definition reply_code :: "json reply \<Rightarrow> int" where
  "reply_code r = (case r of Response code b \<Rightarrow> code | Rejected m \<Rightarrow> 0)"

definition sample_drawn :: dashboard where
  \<comment> \<open>the page once a first polygon has been drawn, at the call of \<open>setupROI\<close>\<close>
  "sample_drawn = sample_page\<lparr>currentPolygon := Some sample_ring\<rparr>"

definition sample_two :: dashboard where
  \<comment> \<open>forest, wetland and soil are analyzed and have their overlays; the overlays of
     wetland and soil are on the map; the toggle of soil is checked, that of wetland has
     just been unchecked; the legend of wetland is cached and displayed, the legend of soil
     was never delivered\<close>
  "sample_two =
     sample_page
       \<lparr>currentPolygon := Some sample_ring,
        analysisLayers :=
          (\<lambda>l. if l = forest then Some \<lparr>ovId = 0, ovUrl = JStr ''https://earthengine.googleapis.com/f''\<rparr>
               else if l = wetland then Some \<lparr>ovId = 1, ovUrl = JStr ''https://earthengine.googleapis.com/w''\<rparr>
               else if l = soil then Some \<lparr>ovId = 2, ovUrl = JStr ''https://earthengine.googleapis.com/s''\<rparr>
               else None),
        legendData :=
          (\<lambda>l. if l = forest \<or> l = wetland then Some [(legendKey l, sample_legend l)] else None),
        roiSetup := True,
        layersAnalyzed := (\<lambda>l. l = forest \<or> l = wetland \<or> l = soil),
        currentActiveLayer := soil,
        mapOverlays := {1, 2},
        nextOverlay := 3,
        toggleChecked := (\<lambda>l. l = soil),
        toggleDisabled := (\<lambda>l. False),
        panelActive := (\<lambda>l. l = soil),
        legendShown := True,
        legendContent := legend_html (sample_legend wetland)\<rparr>"

definition sample_both :: dashboard where
  \<comment> \<open>as \<open>sample_two\<close>, with the legend of soil cached as well\<close>
  "sample_both =
     sample_two\<lparr>legendData := (\<lambda>l. if l = forest \<or> l = wetland \<or> l = soil
                                   then Some [(legendKey l, sample_legend l)] else None)\<rparr>"

section \<open>Properties\<close>

subsection \<open>What the loops over the layers compute\<close>

lemma layer_fun_cases:
  "(f :: layer \<Rightarrow> 'a) = g \<longleftrightarrow>
     f forest = g forest \<and> f wetland = g wetland \<and> f tundra = g tundra \<and>
     f grassland = g grassland \<and> f algal_blooms = g algal_blooms \<and> f soil = g soil \<and>
     f chlorophyll = g chlorophyll"
proof
  assume "f = g" then show "f forest = g forest \<and> f wetland = g wetland \<and> f tundra = g tundra \<and>
     f grassland = g grassland \<and> f algal_blooms = g algal_blooms \<and> f soil = g soil \<and>
     f chlorophyll = g chlorophyll" by simp
next
  assume a: "f forest = g forest \<and> f wetland = g wetland \<and> f tundra = g tundra \<and>
     f grassland = g grassland \<and> f algal_blooms = g algal_blooms \<and> f soil = g soil \<and>
     f chlorophyll = g chlorophyll"
  show "f = g"
  proof
    fix x show "f x = g x" using a by (cases x) simp_all
  qed
qed

lemma resetLayerStates_eq:
  "resetLayerStates s =
     s\<lparr>layersAnalyzed := (\<lambda>l. False), toggleDisabled := (\<lambda>l. True),
       toggleChecked := (\<lambda>l. False),
       layerStatus := (\<lambda>l. if l = forest then ''Ready (Default)'' else ''Draw ROI to enable''),
       itemActive := (\<lambda>l. l = forest), itemAnalyzing := (\<lambda>l. False)\<rparr>"
  by (simp add: resetLayerStates_def validLayers_def updateLayerStatus_def Let_def layer_fun_cases)

lemma enableAllLayerToggles_eq:
  "enableAllLayerToggles s =
     s\<lparr>toggleDisabled := (\<lambda>l. False), toggleChecked := (\<lambda>l. l = forest),
       layerStatus := (\<lambda>l. if l = forest then ''Analyzed'' else ''Click toggle to analyze'')\<rparr>"
  by (simp add: enableAllLayerToggles_def validLayers_def updateLayerStatus_def Let_def layer_fun_cases)


lemma p10: "parseInt (num_to_string (Fin 10)) = Fin 10" by code_simp
lemma p250: "parseInt (num_to_string (Fin 250)) = Fin 250" by code_simp
lemma p300: "parseInt (num_to_string (Fin 300)) = Fin 300" by code_simp
lemma p500: "parseInt (num_to_string (Fin 500)) = Fin 500" by code_simp
lemma p4638: "parseInt (num_to_string (Fin 4638)) = Fin 4638" by code_simp

lemma default_resolution_read_back:
  "parseInt (num_to_string (defaultResolution l)) = defaultResolution l"
  using p10 p250 p300 p500 p4638 by (cases l) (simp_all only: defaultResolution.simps)

lemma lastVisible_update [simp]:
  "lastVisible (s\<lparr>mapOverlays := a1\<rparr>) = lastVisible s"
  "lastVisible (s\<lparr>itemActive := a2\<rparr>) = lastVisible s"
  "lastVisible (s\<lparr>legendContent := a3\<rparr>) = lastVisible s"
  "lastVisible (s\<lparr>legendShown := a4\<rparr>) = lastVisible s"
  "lastVisible (s\<lparr>panelActive := a5\<rparr>) = lastVisible s"
  "lastVisible (s\<lparr>requests := a6\<rparr>) = lastVisible s"
  "lastVisible (s\<lparr>currentActiveLayer := a7\<rparr>) = lastVisible s"
  "lastVisible (s\<lparr>toggleDisabled := a8\<rparr>) = lastVisible s"
  "lastVisible (s\<lparr>statusContainer := a9\<rparr>) = lastVisible s"
  "lastVisible (s\<lparr>layerStatus := a10\<rparr>) = lastVisible s"
  "lastVisible (s\<lparr>itemAnalyzing := a11\<rparr>) = lastVisible s"
  "lastVisible (s\<lparr>analysisLayers := a12\<rparr>) = lastVisible s"
  "lastVisible (s\<lparr>legendData := a13\<rparr>) = lastVisible s"
  "lastVisible (s\<lparr>nextOverlay := a14\<rparr>) = lastVisible s"
  by (simp_all add: lastVisible_def)

lemma detachLayer_eq:
  "detachLayer l s =
     s\<lparr>mapOverlays := (case analysisLayers s l of
                          Some ov \<Rightarrow> mapOverlays s - {ovId ov} | None \<Rightarrow> mapOverlays s)\<rparr>"
  by (simp add: detachLayer_def removeLayer_def split: option.splits)

lemma setActiveLayer_eq:
  "setActiveLayer l s =
     s\<lparr>panelActive := (\<lambda>x. x = l \<and> panelPresent s l \<and> layersAnalyzed s l),
       requests := requests s @ statistics_fetch s l,
       currentActiveLayer := l\<rparr>"
  by (auto simp add: setActiveLayer_def statistics_fetch_def fetch_def Let_def fun_eq_iff)

lemma uncaught_simps [simp]: "uncaught (Inr t) = t" "uncaught (Inl (e, t)) = t"
  by (simp_all add: uncaught_def)

lemma showLayer_eq:
  "tileFault s (ovUrl ov) = None \<Longrightarrow>
   showLayer l ov s =
     Inr (s\<lparr>mapOverlays := insert (ovId ov) (mapOverlays s),
       itemActive := (itemActive s)(l := True),
       legendContent := (case cached_legend s l of
                           Some info \<Rightarrow> legend_html info | None \<Rightarrow> legendContent s),
       legendShown := (case cached_legend s l of Some info \<Rightarrow> True | None \<Rightarrow> legendShown s),
       panelActive := (\<lambda>x. x = l \<and> panelPresent s l \<and> layersAnalyzed s l),
       requests := requests s @ statistics_fetch s l,
       currentActiveLayer := l\<rparr>)"
  by (simp add: showLayer_def setActiveLayer_eq addTo_def showMapLegend_def cached_legend_def
      statistics_fetch_def Let_def split: option.splits)

lemma showLayer_fault:
  "tileFault s (ovUrl ov) = Some e \<Longrightarrow>
   showLayer l ov s = Inl (e, s\<lparr>mapOverlays := insert (ovId ov) (mapOverlays s)\<rparr>)"
  by (simp add: showLayer_def addTo_def Let_def)

lemma showLastVisible_eq:
  "showLastVisible s =
     (case lastVisible s of
        Some a \<Rightarrow>
          s\<lparr>legendContent := (case cached_legend s a of
                               Some info \<Rightarrow> legend_html info | None \<Rightarrow> legendContent s),
            legendShown := (case legendData s a of
                              Some d \<Rightarrow> cached_legend s a \<noteq> None | None \<Rightarrow> legendShown s),
            itemActive := (itemActive s)(a := True),
            panelActive := (\<lambda>x. x = a \<and> panelPresent s a \<and> layersAnalyzed s a),
            requests := requests s @ statistics_fetch s a,
            currentActiveLayer := a\<rparr>
      | None \<Rightarrow> s\<lparr>legendShown := False, panelActive := (\<lambda>x. False)\<rparr>)"
  by (simp add: showLastVisible_def setActiveLayer_eq showMapLegend_def cached_legend_def
      statistics_fetch_def Let_def split: option.splits)

lemma keepForestEnabled_eq:
  "keepForestEnabled s =
     s\<lparr>toggleDisabled := (if layersAnalyzed s forest then (toggleDisabled s)(forest := False)
                            else toggleDisabled s)\<rparr>"
  by (simp add: keepForestEnabled_def)

lemma updateLayerVisibility_show:
  assumes "v" and "analysisLayers s l = Some ov" and "layersAnalyzed s l"
    and "tileFault s (ovUrl ov) = None"
  shows "updateLayerVisibility l v s =
     Inr (s\<lparr>mapOverlays := insert (ovId ov) (mapOverlays s),
       itemActive := (itemActive s)(l := True),
       legendContent := (case cached_legend s l of
                           Some info \<Rightarrow> legend_html info | None \<Rightarrow> legendContent s),
       legendShown := (case cached_legend s l of Some info \<Rightarrow> True | None \<Rightarrow> legendShown s),
       panelActive := (\<lambda>x. x = l \<and> panelPresent s l),
       requests := requests s @ statistics_fetch s l,
       currentActiveLayer := l,
       toggleDisabled := (if layersAnalyzed s forest then (toggleDisabled s)(forest := False)
                          else toggleDisabled s)\<rparr>)"
  using assms
  by (simp add: updateLayerVisibility_def detachLayer_eq showLayer_eq keepForestEnabled_eq
      cached_legend_def statistics_fetch_def Let_def cong: option.case_cong)

lemma updateLayerVisibility_fault:
  assumes "v" and "analysisLayers s l = Some ov" and "layersAnalyzed s l"
    and "tileFault s (ovUrl ov) = Some e"
  shows "updateLayerVisibility l v s =
     Inl (e, s\<lparr>mapOverlays := insert (ovId ov) (mapOverlays s),
                itemActive := (itemActive s)(l := False)\<rparr>)"
  using assms
  by (simp add: updateLayerVisibility_def detachLayer_eq showLayer_fault Let_def)

lemma updateLayerVisibility_other:
  assumes "\<not> (v \<and> analysisLayers s l \<noteq> None \<and> layersAnalyzed s l)"
  shows "updateLayerVisibility l v s =
     Inr (keepForestEnabled (showLastVisible
       (s\<lparr>mapOverlays := (case analysisLayers s l of
                            Some ov \<Rightarrow> mapOverlays s - {ovId ov} | None \<Rightarrow> mapOverlays s),
          itemActive := (itemActive s)(l := False)\<rparr>)))"
  using assms
  by (auto simp add: updateLayerVisibility_def detachLayer_eq Let_def split: option.splits)

lemma shown_layer_cases:
  obtains (show_it) ov where "v" "analysisLayers s l = Some ov" "layersAnalyzed s l"
      "tileFault s (ovUrl ov) = None" "shown_layer l v s = Some l" "refusal l v s = None"
  | (fault) ov e where "v" "analysisLayers s l = Some ov" "layersAnalyzed s l"
      "tileFault s (ovUrl ov) = Some e" "refusal l v s = Some e"
  | (other) a where "\<not> (v \<and> analysisLayers s l \<noteq> None \<and> layersAnalyzed s l)"
      "lastVisible s = Some a" "shown_layer l v s = Some a" "refusal l v s = None"
  | (nothing) "\<not> (v \<and> analysisLayers s l \<noteq> None \<and> layersAnalyzed s l)"
      "lastVisible s = None" "shown_layer l v s = None" "refusal l v s = None"
proof (cases "v \<and> analysisLayers s l \<noteq> None \<and> layersAnalyzed s l")
  case True
  then obtain ov where ov: "analysisLayers s l = Some ov" by auto
  show ?thesis
  proof (cases "tileFault s (ovUrl ov)")
    case None
    show ?thesis
      by (rule show_it [of ov]) (use True ov None in \<open>simp_all add: shown_layer_def refusal_def\<close>)
  next
    case (Some e)
    show ?thesis
      by (rule fault [of ov e]) (use True ov Some in \<open>simp_all add: refusal_def\<close>)
  qed
next
  case False
  then have r: "refusal l v s = None"
    by (auto simp add: refusal_def split: option.splits)
  show ?thesis
  proof (cases "lastVisible s")
    case None
    show ?thesis
      by (rule nothing) (use False r None in \<open>auto simp add: shown_layer_def\<close>)
  next
    case (Some a)
    show ?thesis
      by (rule other [of a]) (use False r Some in \<open>auto simp add: shown_layer_def\<close>)
  qed
qed

lemma lastVisible_analyzed: "lastVisible s = Some a \<Longrightarrow> layersAnalyzed s a"
  by (simp add: lastVisible_def validLayers_def split: if_splits)

lemma ulv_kept [simp]:
  "layersAnalyzed (uncaught (updateLayerVisibility l v s)) = layersAnalyzed s"
  "toggleChecked (uncaught (updateLayerVisibility l v s)) = toggleChecked s"
  "roiSetup (uncaught (updateLayerVisibility l v s)) = roiSetup s"
  "statusContainer (uncaught (updateLayerVisibility l v s)) = statusContainer s"
  "analysisLayers (uncaught (updateLayerVisibility l v s)) = analysisLayers s"
  "legendData (uncaught (updateLayerVisibility l v s)) = legendData s"
  "nextOverlay (uncaught (updateLayerVisibility l v s)) = nextOverlay s"
  "currentPolygon (uncaught (updateLayerVisibility l v s)) = currentPolygon s"
  "layerStatus (uncaught (updateLayerVisibility l v s)) = layerStatus s"
  "itemAnalyzing (uncaught (updateLayerVisibility l v s)) = itemAnalyzing s"
  "panelPresent (uncaught (updateLayerVisibility l v s)) = panelPresent s"
  "timers (uncaught (updateLayerVisibility l v s)) = timers s"
  "startDate (uncaught (updateLayerVisibility l v s)) = startDate s"
  "endDate (uncaught (updateLayerVisibility l v s)) = endDate s"
  "resolutionSelect (uncaught (updateLayerVisibility l v s)) = resolutionSelect s"
  "coordinatesDisplay (uncaught (updateLayerVisibility l v s)) = coordinatesDisplay s"
  "statsContent (uncaught (updateLayerVisibility l v s)) = statsContent s"
  "tileFault (uncaught (updateLayerVisibility l v s)) = tileFault s"
  by (rule shown_layer_cases [of v s l];
      simp add: updateLayerVisibility_show updateLayerVisibility_other
        updateLayerVisibility_fault keepForestEnabled_eq showLastVisible_eq)+

lemma ulv_returns:
  "refusal l v s = None \<Longrightarrow>
   updateLayerVisibility l v s = Inr (uncaught (updateLayerVisibility l v s))"
  by (rule shown_layer_cases [of v s l];
      simp add: updateLayerVisibility_show updateLayerVisibility_other)

lemma ulv_throws:
  "refusal l v s = Some e \<Longrightarrow>
   updateLayerVisibility l v s =
     Inl (e, s\<lparr>mapOverlays := (case analysisLayers s l of
                                   Some ov \<Rightarrow> insert (ovId ov) (mapOverlays s)
                                 | None \<Rightarrow> mapOverlays s),
                itemActive := (itemActive s)(l := False)\<rparr>)"
  by (rule shown_layer_cases [of v s l]; simp add: updateLayerVisibility_fault)

lemma refusal_hide [simp]: "refusal l False s = None"
  by (simp add: refusal_def)

lemma ulv_toggleDisabled:
  "refusal l v s = None \<Longrightarrow>
   toggleDisabled (uncaught (updateLayerVisibility l v s)) =
     (if layersAnalyzed s forest then (toggleDisabled s)(forest := False) else toggleDisabled s)"
  by (rule shown_layer_cases [of v s l];
      simp add: updateLayerVisibility_show updateLayerVisibility_other keepForestEnabled_eq
        showLastVisible_eq)

lemma ulv_currentActiveLayer:
  "refusal l v s = None \<Longrightarrow>
   currentActiveLayer (uncaught (updateLayerVisibility l v s)) =
     (case shown_layer l v s of Some a \<Rightarrow> a | None \<Rightarrow> currentActiveLayer s)"
  by (rule shown_layer_cases [of v s l];
      simp add: updateLayerVisibility_show updateLayerVisibility_other keepForestEnabled_eq
        showLastVisible_eq)

lemma ulv_panelActive:
  "refusal l v s = None \<Longrightarrow>
   panelActive (uncaught (updateLayerVisibility l v s)) =
     (case shown_layer l v s of
        Some a \<Rightarrow> (\<lambda>x. x = a \<and> panelPresent s a)
      | None \<Rightarrow> (\<lambda>x. False))"
  by (rule shown_layer_cases [of v s l];
      simp add: updateLayerVisibility_show updateLayerVisibility_other keepForestEnabled_eq
        showLastVisible_eq lastVisible_analyzed)

lemma ulv_requests:
  "requests (uncaught (updateLayerVisibility l v s)) =
     requests s @ (if refusal l v s = None
                   then (case shown_layer l v s of
                           Some a \<Rightarrow> if panelPresent s a then [GetStatistics a] else []
                         | None \<Rightarrow> [])
                   else [])"
  by (rule shown_layer_cases [of v s l];
      simp add: updateLayerVisibility_show updateLayerVisibility_other
        updateLayerVisibility_fault keepForestEnabled_eq
        showLastVisible_eq lastVisible_analyzed statistics_fetch_def)

lemma ulv_mapOverlays:
  "mapOverlays (uncaught (updateLayerVisibility l v s)) =
     (case analysisLayers s l of
        Some ov \<Rightarrow> if v \<and> layersAnalyzed s l then insert (ovId ov) (mapOverlays s)
                   else mapOverlays s - {ovId ov}
      | None \<Rightarrow> mapOverlays s)"
  by (rule shown_layer_cases [of v s l];
      auto simp add: updateLayerVisibility_show updateLayerVisibility_other
        updateLayerVisibility_fault keepForestEnabled_eq
        showLastVisible_eq split: option.splits)

lemma ulv_legend_cached:
  "refusal l v s = None \<Longrightarrow> shown_layer l v s = Some a \<Longrightarrow>
   cached_legend s a = Some info \<Longrightarrow>
   legendShown (uncaught (updateLayerVisibility l v s)) \<and>
   legendContent (uncaught (updateLayerVisibility l v s)) = legend_html info"
  by (rule shown_layer_cases [of v s l];
      auto simp add: updateLayerVisibility_show updateLayerVisibility_other keepForestEnabled_eq
        showLastVisible_eq cached_legend_def split: option.splits)

lemma ulv_legend_none:
  "refusal l v s = None \<Longrightarrow> shown_layer l v s = None \<Longrightarrow>
   \<not> legendShown (uncaught (updateLayerVisibility l v s))"
  by (rule shown_layer_cases [of v s l];
      simp add: updateLayerVisibility_show updateLayerVisibility_other keepForestEnabled_eq
        showLastVisible_eq)

lemma ulv_legend_not_loaded:
  assumes "\<not> (v \<and> analysisLayers s l \<noteq> None \<and> layersAnalyzed s l)"
    and "lastVisible s = Some a" and "legendData s a = None"
  shows "legendShown (uncaught (updateLayerVisibility l v s)) = legendShown s"
    and "legendContent (uncaught (updateLayerVisibility l v s)) = legendContent s"
  using assms
  by (simp_all add: updateLayerVisibility_other keepForestEnabled_eq showLastVisible_eq
      cached_legend_def)

lemma ulv_legend_no_key:
  assumes "\<not> (v \<and> analysisLayers s l \<noteq> None \<and> layersAnalyzed s l)"
    and "lastVisible s = Some a" and "legendData s a = Some d" and "cached_legend s a = None"
  shows "\<not> legendShown (uncaught (updateLayerVisibility l v s))"
  using assms
  by (simp_all add: updateLayerVisibility_other keepForestEnabled_eq showLastVisible_eq
      cached_legend_def)

lemma ulv_itemActive:
  "refusal l v s = None \<Longrightarrow>
   itemActive (uncaught (updateLayerVisibility l v s)) =
     (case shown_layer l v s of
        Some a \<Rightarrow> (itemActive s)(l := False, a := True)
      | None \<Rightarrow> (itemActive s)(l := False))"
  by (rule shown_layer_cases [of v s l];
      auto simp add: updateLayerVisibility_show updateLayerVisibility_other keepForestEnabled_eq
        showLastVisible_eq)

lemma requests_setActiveLayer:
  "requests (setActiveLayer l s) = requests s @ statistics_fetch s l"
  by (simp add: setActiveLayer_eq)

lemma statistics_fetch_only: "list_all is_statistics_request (statistics_fetch s l)"
  by (simp add: statistics_fetch_def)

lemma requests_updateLayerVisibility:
  "\<exists>qs. requests (uncaught (updateLayerVisibility l v s)) = requests s @ qs \<and>
        list_all is_statistics_request qs"
  by (simp add: ulv_requests split: option.splits)

lemma statistics_not_analysis:
  "list_all is_statistics_request qs \<Longrightarrow> analysis_requests qs = []"
proof (induction qs)
  case Nil
  then show ?case by (simp add: analysis_requests_def)
next
  case (Cons q qs)
  then show ?case by (cases q) (simp_all add: analysis_requests_def)
qed

lemma analysis_requests_simps [simp]:
  "analysis_requests [] = []"
  "analysis_requests (q # qs) =
     (if is_analysis q then q # analysis_requests qs else analysis_requests qs)"
  by (simp_all add: analysis_requests_def)

lemma analysis_requests_append [simp]:
  "analysis_requests (xs @ ys) = analysis_requests xs @ analysis_requests ys"
  by (simp add: analysis_requests_def)

lemma requests_loadLayerData:
  "requests (loadLayerData l m g s) = requests s @ [GetMapUrl l, GetLegend l]"
  by (simp add: loadLayerData_def legendArrived_def mapUrlArrived_def fetch_def
      split: reply.splits body.splits option.splits)

lemma loadLayerData_eq:
  "loadLayerData l m g s =
     s\<lparr>requests := requests s @ [GetMapUrl l, GetLegend l],
       analysisLayers := (case usable_tile m of
                            Some u \<Rightarrow> (analysisLayers s)(l := Some \<lparr>ovId = nextOverlay s, ovUrl = u\<rparr>)
                          | None \<Rightarrow> analysisLayers s),
       nextOverlay := (case usable_tile m of
                         Some u \<Rightarrow> Suc (nextOverlay s) | None \<Rightarrow> nextOverlay s),
       legendData := (case usable_legend g of
                        Some d \<Rightarrow> (legendData s)(l := Some d) | None \<Rightarrow> legendData s)\<rparr>"
  by (simp add: loadLayerData_def mapUrlArrived_def legendArrived_def usable_tile_def
      usable_legend_def fetch_def split: reply.splits body.splits option.splits)

lemma showStatus_eq:
  "showStatus msg ''success'' s = s\<lparr>statusContainer := status_line ''success'' msg\<rparr>"
  "showStatus msg ''error'' s = s\<lparr>statusContainer := status_line ''error'' msg\<rparr>"
  "showStatus msg ''loading'' s = s\<lparr>statusContainer := status_line ''loading'' msg\<rparr>"
  "showStatus msg ''warning'' s = s\<lparr>statusContainer := status_line ''warning'' msg\<rparr>"
  by (simp_all add: showStatus_def status_line_def Let_def)

lemma analysis_loaded_eq:
  "analysis_loaded l re m g s =
     s\<lparr>layersAnalyzed := (layersAnalyzed s)(l := True),
       statusContainer := status_line ''success'' (layer_name l @
          (if re then '' re-analysis completed!'' else '' analysis completed!'')),
       requests := requests s @ [GetMapUrl l, GetLegend l],
       analysisLayers := (case usable_tile m of
                            Some u \<Rightarrow> (analysisLayers s)(l := Some \<lparr>ovId = nextOverlay s, ovUrl = u\<rparr>)
                          | None \<Rightarrow> analysisLayers s),
       nextOverlay := (case usable_tile m of
                         Some u \<Rightarrow> Suc (nextOverlay s) | None \<Rightarrow> nextOverlay s),
       legendData := (case usable_legend g of
                        Some d \<Rightarrow> (legendData s)(l := Some d) | None \<Rightarrow> legendData s),
       layerStatus := (layerStatus s)(l := ''Analyzed''),
       itemAnalyzing := (itemAnalyzing s)(l := False),
       itemActive := (itemActive s)(l := True)\<rparr>"
  by (simp add: analysis_loaded_def showStatus_eq loadLayerData_eq updateLayerStatus_def Let_def
      cong: option.case_cong)

lemma analysis_succeeded_cases:
  obtains (untouched) "\<not> toggleChecked s l"
      "analysis_succeeded l re m g s = Inr (analysis_loaded l re m g s)"
  | (shown) "toggleChecked s l" "refusal l True (analysis_loaded l re m g s) = None"
      "analysis_succeeded l re m g s =
         Inr (setActiveLayer l
                (uncaught (updateLayerVisibility l True (analysis_loaded l re m g s))))"
  | (fault) e where "toggleChecked s l"
      "refusal l True (analysis_loaded l re m g s) = Some e"
      "analysis_succeeded l re m g s =
         Inl (e, uncaught (updateLayerVisibility l True (analysis_loaded l re m g s)))"
proof -
  define u where "u = analysis_loaded l re m g s"
  have tc: "toggleChecked u l = toggleChecked s l"
    by (simp add: u_def analysis_loaded_eq)
  have unfold: "analysis_succeeded l re m g s =
      (if toggleChecked s l
       then (case updateLayerVisibility l True u of
               Inl thrown \<Rightarrow> Inl thrown
             | Inr s6 \<Rightarrow> Inr (setActiveLayer l s6))
       else Inr u)"
    unfolding analysis_succeeded_def Let_def u_def [symmetric] tc by (rule refl)
  show ?thesis
  proof (cases "toggleChecked s l")
    case False
    then show ?thesis
      using unfold by (intro untouched) (simp_all add: u_def)
  next
    case True
    show ?thesis
    proof (cases "refusal l True u")
      case None
      have "analysis_succeeded l re m g s =
              Inr (setActiveLayer l (uncaught (updateLayerVisibility l True u)))"
        unfolding unfold using True by (subst ulv_returns [OF None]) simp
      then show ?thesis
        using True None by (intro shown) (simp_all add: u_def)
    next
      case (Some e)
      have "analysis_succeeded l re m g s =
              Inl (e, uncaught (updateLayerVisibility l True u))"
        unfolding unfold using True by (subst (1 2) ulv_throws [OF Some]) simp
      then show ?thesis
        using True Some by (intro fault [of e]) (simp_all add: u_def)
    qed
  qed
qed

lemma requests_analysis_succeeded:
  "\<exists>qs. requests (uncaught (analysis_succeeded l re m g s)) = requests s @ qs \<and>
        analysis_requests qs = []"
proof -
  define u where "u = analysis_loaded l re m g s"
  have rt: "requests u = requests s @ [GetMapUrl l, GetLegend l]"
    by (simp add: u_def analysis_loaded_eq)
  obtain qs where qs: "requests (uncaught (updateLayerVisibility l True u)) = requests u @ qs"
     "list_all is_statistics_request qs"
    using requests_updateLayerVisibility by blast
  have q0: "analysis_requests qs = []"
    using qs(2) by (rule statistics_not_analysis)
  have q1: "analysis_requests
      (statistics_fetch (uncaught (updateLayerVisibility l True u)) l) = []"
    using statistics_fetch_only by (rule statistics_not_analysis)
  show ?thesis
    by (rule analysis_succeeded_cases [of s l re m g])
       (use rt qs(1) q0 q1 in \<open>simp_all add: requests_setActiveLayer u_def [symmetric]\<close>)
qed

lemma requests_analysis_failed:
  "requests (analysis_failed l re msg s) = requests s"
  by (simp add: analysis_failed_def updateLayerStatus_def Let_def)

lemma requests_analysis_tried:
  "\<exists>qs. requests (uncaught (analysis_tried l re r m g s)) = requests s @ qs \<and>
        analysis_requests qs = []"
  using requests_analysis_succeeded [of l re m g s]
  by (cases r) (auto simp add: analysis_tried_def requests_analysis_failed showStatus_def Let_def
      split: body.splits sum.splits if_splits)

lemma analysis_request_announced:
  "analysis_request l (analysis_announced l re s) = analysis_request l s"
  by (simp add: analysis_request_def analysis_announced_def showStatus_def
      updateLayerStatus_def Let_def)

lemma requests_analysis_announced:
  "requests (analysis_announced l re s) = requests s"
  by (simp add: analysis_announced_def showStatus_def updateLayerStatus_def Let_def)

lemma requests_analysis_caught:
  "requests (analysis_caught l re r m g s) = requests (uncaught (analysis_tried l re r m g s))"
  by (cases "analysis_tried l re r m g s")
     (auto simp add: analysis_caught_def requests_analysis_failed showStatus_def Let_def)

lemma requests_analysis_requested:
  "\<exists>qs. requests (analysis_requested l re r m g s) =
           requests s @ analysis_request l s # qs \<and> analysis_requests qs = []"
proof -
  let ?s4 = "fetch (analysis_request l (analysis_announced l re s)) (analysis_announced l re s)"
  have r4: "requests ?s4 = requests s @ [analysis_request l s]"
    by (simp add: fetch_def analysis_request_announced requests_analysis_announced)
  show ?thesis
    using requests_analysis_tried [of l re r m g ?s4]
    by (auto simp add: analysis_requested_def Let_def r4 requests_analysis_caught)
qed

lemma requests_analyzeLayer:
  assumes "roiSetup s" and "re \<or> \<not> layersAnalyzed s l"
  shows "\<exists>qs. requests (analyzeLayer l re r m g s) =
           requests s @ analysis_request l s # qs \<and> analysis_requests qs = []"
proof -
  have "analyzeLayer l re r m g s = analysis_requested l re r m g s"
    using assms by (auto simp add: analyzeLayer_def)
  then show ?thesis
    using requests_analysis_requested by simp
qed

lemma all_layers:
  "(\<forall>l. P l) \<longleftrightarrow>
     P forest \<and> P wetland \<and> P tundra \<and> P grassland \<and> P algal_blooms \<and> P soil \<and> P chlorophyll"
  by (metis layer.exhaust)

lemma lastVisible_chain:
  "lastVisible s =
     (if visible s chlorophyll then Some chlorophyll
      else if visible s soil then Some soil
      else if visible s algal_blooms then Some algal_blooms
      else if visible s grassland then Some grassland
      else if visible s tundra then Some tundra
      else if visible s wetland then Some wetland
      else if visible s forest then Some forest
      else None)"
  by (simp add: lastVisible_def validLayers_def visible_def)

lemma lastVisible_None: "lastVisible s = None \<longleftrightarrow> (\<forall>b. \<not> visible s b)"
  by (simp add: lastVisible_chain all_layers)

lemma lastVisible_Some:
  "lastVisible s = Some a \<longleftrightarrow>
     visible s a \<and> (\<forall>b. visible s b \<longrightarrow> position b \<le> position a)"
  by (cases a) (auto simp add: lastVisible_chain all_layers)

lemma fold_detach:
  "fold detachLayer ls s =
     s\<lparr>mapOverlays :=
         mapOverlays s - {i. \<exists>l ov. l \<in> set ls \<and> analysisLayers s l = Some ov \<and> ovId ov = i}\<rparr>"
proof (induction ls arbitrary: s)
  case Nil
  then show ?case by simp
next
  case (Cons l ls)
  have "mapOverlays (detachLayer l s) -
          {i. \<exists>k ov. k \<in> set ls \<and> analysisLayers s k = Some ov \<and> ovId ov = i} =
        mapOverlays s -
          {i. \<exists>k ov. (k = l \<or> k \<in> set ls) \<and> analysisLayers s k = Some ov \<and> ovId ov = i}"
    by (auto simp add: detachLayer_eq split: option.splits)
  then show ?case
    by (simp add: Cons.IH) (simp add: detachLayer_eq)
qed

lemma clearAllLayers_eq:
  "clearAllLayers s =
     s\<lparr>mapOverlays := mapOverlays s - {i. \<exists>l ov. analysisLayers s l = Some ov \<and> ovId ov = i},
       legendShown := False, panelActive := (\<lambda>l. False), statusContainer := []\<rparr>"
proof -
  have step: "(\<lambda>l t. case analysisLayers t l of
                        Some ov \<Rightarrow> if ovId ov \<in> mapOverlays t then removeLayer ov t else t
                      | None \<Rightarrow> t) = detachLayer"
    by (simp add: fun_eq_iff detachLayer_def)
  have every: "set validLayers = UNIV"
    by (auto simp add: validLayers_def) (metis layer.exhaust)
  show ?thesis
    by (simp add: clearAllLayers_def step fold_detach every clearStatus_def Let_def)
qed

lemma shapeDeleted_eq:
  "shapeDeleted s =
     s\<lparr>currentPolygon := None, roiSetup := False,
       mapOverlays := mapOverlays s - {i. \<exists>l ov. analysisLayers s l = Some ov \<and> ovId ov = i},
       legendShown := False, panelActive := (\<lambda>l. False), statusContainer := [],
       layersAnalyzed := (\<lambda>l. False), toggleDisabled := (\<lambda>l. True),
       toggleChecked := (\<lambda>l. False),
       layerStatus := (\<lambda>l. if l = forest then ''Ready (Default)'' else ''Draw ROI to enable''),
       itemActive := (\<lambda>l. l = forest), itemAnalyzing := (\<lambda>l. False),
       coordinatesDisplay := ''Draw a polygon on the map to see coordinates here...''\<rparr>"
  by (simp add: shapeDeleted_def clearAllLayers_eq resetLayerStates_eq)

lemma roi_failed_eq:
  "roi_failed msg s =
     s\<lparr>statusContainer := status_line ''error'' msg, roiSetup := False,
       layersAnalyzed := (\<lambda>l. False), toggleDisabled := (\<lambda>l. True),
       toggleChecked := (\<lambda>l. False),
       layerStatus := (\<lambda>l. if l = forest then ''Ready (Default)'' else ''Draw ROI to enable''),
       itemActive := (\<lambda>l. l = forest), itemAnalyzing := (\<lambda>l. False)\<rparr>"
  by (simp add: roi_failed_def resetLayerStates_eq showStatus_def status_line_def Let_def)

lemma roi_failed_overwrites [simp]:
  "roi_failed msg (s\<lparr>roiSetup := a, layersAnalyzed := b\<rparr>) = roi_failed msg s"
  by (simp add: roi_failed_eq)

lemma roi_tried_success:
  "setup_area r = Some area \<Longrightarrow>
   roi_tried r m g s =
     roi_ready area m g (s\<lparr>roiSetup := True, layersAnalyzed := (\<lambda>l. l = forest)\<rparr>)"
  by (auto simp add: setup_area_def roi_tried_def Let_def
      split: reply.splits body.splits sum.splits if_splits)

lemma roi_tried_failure:
  "setup_area r = None \<Longrightarrow> \<exists>msg. roi_caught r m g s = roi_failed msg s"
  by (cases r) (auto simp add: setup_area_def roi_caught_def roi_tried_def Let_def
      split: body.splits sum.splits if_splits)

subsection \<open>What setupROI and analyzeLayer keep\<close>

lemma roi_loaded_eq:
  "roi_loaded area m g s =
     s\<lparr>statusContainer := status_line ''success''
          (''ROI setup complete! Forest analysis ready. Area: '' @ area @ km2),
       toggleDisabled := (\<lambda>l. False), toggleChecked := (\<lambda>l. l = forest),
       layerStatus := (\<lambda>l. if l = forest then ''Analyzed'' else ''Click toggle to analyze''),
       requests := requests s @ [GetMapUrl forest, GetLegend forest],
       analysisLayers := (case usable_tile m of
                            Some u \<Rightarrow> (analysisLayers s)(forest := Some \<lparr>ovId = nextOverlay s, ovUrl = u\<rparr>)
                          | None \<Rightarrow> analysisLayers s),
       nextOverlay := (case usable_tile m of
                         Some u \<Rightarrow> Suc (nextOverlay s) | None \<Rightarrow> nextOverlay s),
       legendData := (case usable_legend g of
                        Some d \<Rightarrow> (legendData s)(forest := Some d) | None \<Rightarrow> legendData s)\<rparr>"
  by (simp add: roi_loaded_def showStatus_eq enableAllLayerToggles_eq loadLayerData_eq Let_def
      cong: option.case_cong)

lemma roi_ready_cases:
  obtains (ready) "refusal forest True (roi_loaded area m g s) = None"
      "roi_ready area m g s =
         Inr ((uncaught (updateLayerVisibility forest True (roi_loaded area m g s)))
                \<lparr>layerStatus :=
                   (layerStatus (roi_loaded area m g s))(forest := ''Analyzed''),
                 toggleChecked := (toggleChecked (roi_loaded area m g s))(forest := True),
                 toggleDisabled :=
                   (toggleDisabled
                      (uncaught (updateLayerVisibility forest True (roi_loaded area m g s))))
                   (forest := False)\<rparr>)"
  | (fault) e where "refusal forest True (roi_loaded area m g s) = Some e"
      "roi_ready area m g s =
         Inl (e, uncaught (updateLayerVisibility forest True (roi_loaded area m g s)))"
proof -
  define t where "t = roi_loaded area m g s"
  have unfold: "roi_ready area m g s =
     (case updateLayerVisibility forest True t of
        Inl thrown \<Rightarrow> Inl thrown
      | Inr s4 \<Rightarrow>
          (let s5 = updateLayerStatus forest ''Analyzed'' s4
           in Inr (s5\<lparr>toggleChecked := (toggleChecked s5)(forest := True),
                      toggleDisabled := (toggleDisabled s5)(forest := False)\<rparr>)))"
    unfolding roi_ready_def t_def by (rule refl)
  show ?thesis
  proof (cases "refusal forest True t")
    case None
    have "roi_ready area m g s =
         Inr ((uncaught (updateLayerVisibility forest True t))
                \<lparr>layerStatus := (layerStatus t)(forest := ''Analyzed''),
                 toggleChecked := (toggleChecked t)(forest := True),
                 toggleDisabled :=
                   (toggleDisabled (uncaught (updateLayerVisibility forest True t)))
                   (forest := False)\<rparr>)"
      unfolding unfold
      by (subst ulv_returns [OF None]) (simp add: updateLayerStatus_def Let_def)
    then show ?thesis
      using None by (intro ready) (simp_all add: t_def)
  next
    case (Some e)
    have "roi_ready area m g s = Inl (e, uncaught (updateLayerVisibility forest True t))"
      unfolding unfold by (subst (1 2) ulv_throws [OF Some]) simp
    then show ?thesis
      using Some by (intro fault [of e]) (simp_all add: t_def)
  qed
qed

lemma only_forest_shown:
  assumes "toggleChecked t = (\<lambda>l. l = forest)" and "layersAnalyzed t = (\<lambda>l. l = forest)"
  shows "shown_layer forest True t = Some forest"
proof -
  have "visible t b \<longleftrightarrow> b = forest" for b
    using assms by (auto simp add: visible_def)
  then have "lastVisible t = Some forest"
    by (simp add: lastVisible_Some)
  then show ?thesis
    by (simp add: shown_layer_def)
qed

lemma roi_ready_fields:
  assumes an: "layersAnalyzed s = (\<lambda>l. l = forest)"
    and accepted: "refusal forest True (roi_loaded area m g s) = None"
  shows "roi_ready area m g s = Inr (uncaught (roi_ready area m g s))"
    and "roiSetup (uncaught (roi_ready area m g s)) = roiSetup s"
    and "layersAnalyzed (uncaught (roi_ready area m g s)) = (\<lambda>l. l = forest)"
    and "toggleDisabled (uncaught (roi_ready area m g s)) = (\<lambda>l. False)"
    and "toggleChecked (uncaught (roi_ready area m g s)) = (\<lambda>l. l = forest)"
    and "requests (uncaught (roi_ready area m g s)) =
           requests s @ [GetMapUrl forest, GetLegend forest] @
           (if panelPresent s forest then [GetStatistics forest] else [])"
    and "analysisLayers (uncaught (roi_ready area m g s)) =
           (case usable_tile m of
              Some u \<Rightarrow> (analysisLayers s)(forest := Some \<lparr>ovId = nextOverlay s, ovUrl = u\<rparr>)
            | None \<Rightarrow> analysisLayers s)"
    and "nextOverlay (uncaught (roi_ready area m g s)) =
           (case usable_tile m of Some u \<Rightarrow> Suc (nextOverlay s) | None \<Rightarrow> nextOverlay s)"
    and "legendData (uncaught (roi_ready area m g s)) =
           (case usable_legend g of
              Some d \<Rightarrow> (legendData s)(forest := Some d) | None \<Rightarrow> legendData s)"
    and "mapOverlays (uncaught (roi_ready area m g s)) =
           (case analysisLayers (uncaught (roi_ready area m g s)) forest of
              Some ov \<Rightarrow> insert (ovId ov) (mapOverlays s) | None \<Rightarrow> mapOverlays s)"
    and "currentActiveLayer (uncaught (roi_ready area m g s)) = forest"
    and "panelActive (uncaught (roi_ready area m g s)) = (\<lambda>x. x = forest \<and> panelPresent s forest)"
    and "statusContainer (uncaught (roi_ready area m g s)) =
           status_line ''success''
             (''ROI setup complete! Forest analysis ready. Area: '' @ area @ km2)"
    and "layerStatus (uncaught (roi_ready area m g s)) =
           (\<lambda>l. if l = forest then ''Analyzed'' else ''Click toggle to analyze'')"
    and "currentPolygon (uncaught (roi_ready area m g s)) = currentPolygon s"
    and "panelPresent (uncaught (roi_ready area m g s)) = panelPresent s"
    and "timers (uncaught (roi_ready area m g s)) = timers s"
    and "tileFault (uncaught (roi_ready area m g s)) = tileFault s"
proof -
  define msg where "msg = ''ROI setup complete! Forest analysis ready. Area: '' @ area @ km2"
  define t where "t = roi_loaded area m g s"
  define u where "u = uncaught (updateLayerVisibility forest True t)"
  define w where "w = u\<lparr>layerStatus := (layerStatus t)(forest := ''Analyzed''),
                 toggleChecked := (toggleChecked t)(forest := True),
                 toggleDisabled := (toggleDisabled u)(forest := False)\<rparr>"
  have acc: "refusal forest True t = None"
    using accepted by (simp add: t_def)
  have ready: "roi_ready area m g s = Inr w"
    by (rule roi_ready_cases [of area m g s])
       (use accepted in \<open>simp_all add: w_def u_def t_def\<close>)
  have tg: "layersAnalyzed t = (\<lambda>l. l = forest)" "toggleChecked t = (\<lambda>l. l = forest)"
    "toggleDisabled t = (\<lambda>l. False)" "mapOverlays t = mapOverlays s"
    "panelPresent t = panelPresent s" "roiSetup t = roiSetup s"
    "requests t = requests s @ [GetMapUrl forest, GetLegend forest]"
    "statusContainer t = status_line ''success'' msg"
    "layerStatus t = (\<lambda>l. if l = forest then ''Analyzed'' else ''Click toggle to analyze'')"
    "currentPolygon t = currentPolygon s" "timers t = timers s" "tileFault t = tileFault s"
    by (simp_all add: t_def roi_loaded_eq an msg_def)
  have tf: "analysisLayers t =
           (case usable_tile m of
              Some u \<Rightarrow> (analysisLayers s)(forest := Some \<lparr>ovId = nextOverlay s, ovUrl = u\<rparr>)
            | None \<Rightarrow> analysisLayers s)"
    "nextOverlay t =
           (case usable_tile m of Some u \<Rightarrow> Suc (nextOverlay s) | None \<Rightarrow> nextOverlay s)"
    "legendData t =
           (case usable_legend g of
              Some d \<Rightarrow> (legendData s)(forest := Some d) | None \<Rightarrow> legendData s)"
    by (simp_all add: t_def roi_loaded_eq)
  have shown: "shown_layer forest True t = Some forest"
    by (rule only_forest_shown) (simp_all add: tg)
  have u1: "roiSetup u = roiSetup s" "layersAnalyzed u = (\<lambda>l. l = forest)"
    "analysisLayers u = analysisLayers t" "nextOverlay u = nextOverlay t"
    "legendData u = legendData t"
    "statusContainer u = status_line ''success'' msg"
    "currentPolygon u = currentPolygon s" "panelPresent u = panelPresent s"
    "timers u = timers s" "tileFault u = tileFault s"
    unfolding u_def by (simp_all add: tg)
  have u3: "requests u = requests s @ [GetMapUrl forest, GetLegend forest] @
           (if panelPresent s forest then [GetStatistics forest] else [])"
    unfolding u_def by (simp add: ulv_requests shown tg acc)
  have u4: "mapOverlays u = (case analysisLayers t forest of
              Some ov \<Rightarrow> insert (ovId ov) (mapOverlays s) | None \<Rightarrow> mapOverlays s)"
    unfolding u_def by (cases "analysisLayers t forest") (simp_all add: ulv_mapOverlays tg)
  have u5: "currentActiveLayer u = forest"
    "panelActive u = (\<lambda>x. x = forest \<and> panelPresent s forest)"
    unfolding u_def by (simp_all add: ulv_currentActiveLayer ulv_panelActive shown tg acc)
  have wu: "uncaught (roi_ready area m g s) = w"
    by (simp add: ready)
  show "roi_ready area m g s = Inr (uncaught (roi_ready area m g s))"
    by (simp add: ready)
  show "roiSetup (uncaught (roi_ready area m g s)) = roiSetup s"
    by (simp add: wu w_def u1)
  show "layersAnalyzed (uncaught (roi_ready area m g s)) = (\<lambda>l. l = forest)"
    by (simp add: wu w_def u1)
  show "toggleDisabled (uncaught (roi_ready area m g s)) = (\<lambda>l. False)"
    unfolding wu w_def u_def by (simp add: ulv_toggleDisabled acc tg fun_eq_iff)
  show "toggleChecked (uncaught (roi_ready area m g s)) = (\<lambda>l. l = forest)"
    by (simp add: wu w_def tg fun_eq_iff)
  show "requests (uncaught (roi_ready area m g s)) =
           requests s @ [GetMapUrl forest, GetLegend forest] @
           (if panelPresent s forest then [GetStatistics forest] else [])"
    by (simp add: wu w_def u3)
  show "analysisLayers (uncaught (roi_ready area m g s)) =
           (case usable_tile m of
              Some u \<Rightarrow> (analysisLayers s)(forest := Some \<lparr>ovId = nextOverlay s, ovUrl = u\<rparr>)
            | None \<Rightarrow> analysisLayers s)"
    by (simp add: wu w_def u1 tf)
  show "nextOverlay (uncaught (roi_ready area m g s)) =
           (case usable_tile m of Some u \<Rightarrow> Suc (nextOverlay s) | None \<Rightarrow> nextOverlay s)"
    by (simp add: wu w_def u1 tf)
  show "legendData (uncaught (roi_ready area m g s)) =
           (case usable_legend g of
              Some d \<Rightarrow> (legendData s)(forest := Some d) | None \<Rightarrow> legendData s)"
    by (simp add: wu w_def u1 tf)
  have "analysisLayers w = analysisLayers t"
    by (simp add: w_def u1)
  then show "mapOverlays (uncaught (roi_ready area m g s)) =
           (case analysisLayers (uncaught (roi_ready area m g s)) forest of
              Some ov \<Rightarrow> insert (ovId ov) (mapOverlays s) | None \<Rightarrow> mapOverlays s)"
    unfolding wu by (simp add: w_def u4)
  show "currentActiveLayer (uncaught (roi_ready area m g s)) = forest"
    by (simp add: wu w_def u5)
  show "panelActive (uncaught (roi_ready area m g s)) = (\<lambda>x. x = forest \<and> panelPresent s forest)"
    by (simp add: wu w_def u5)
  show "statusContainer (uncaught (roi_ready area m g s)) =
           status_line ''success''
             (''ROI setup complete! Forest analysis ready. Area: '' @ area @ km2)"
    unfolding wu msg_def [symmetric] by (simp add: w_def u1)
  show "layerStatus (uncaught (roi_ready area m g s)) =
           (\<lambda>l. if l = forest then ''Analyzed'' else ''Click toggle to analyze'')"
    by (simp add: wu w_def tg fun_eq_iff)
  show "currentPolygon (uncaught (roi_ready area m g s)) = currentPolygon s"
    by (simp add: wu w_def u1)
  show "panelPresent (uncaught (roi_ready area m g s)) = panelPresent s"
    by (simp add: wu w_def u1)
  show "timers (uncaught (roi_ready area m g s)) = timers s"
    by (simp add: wu w_def u1)
  show "tileFault (uncaught (roi_ready area m g s)) = tileFault s"
    by (simp add: wu w_def u1)
qed

lemma roiSetup_roi_failed [simp]: "\<not> roiSetup (roi_failed msg s)"
  by (simp add: roi_failed_eq)

lemma roi_caught_established:
  "roiSetup (roi_caught r m g s) \<Longrightarrow> layersAnalyzed (roi_caught r m g s) forest"
proof (cases "setup_area r")
  case None
  then obtain msg where "roi_caught r m g s = roi_failed msg s"
    using roi_tried_failure by blast
  then show "roiSetup (roi_caught r m g s) \<Longrightarrow> ?thesis"
    by simp
next
  case (Some area)
  define s2 where "s2 = s\<lparr>roiSetup := True, layersAnalyzed := (\<lambda>l. l = forest)\<rparr>"
  have tried: "roi_tried r m g s = roi_ready area m g s2"
    unfolding s2_def using Some by (rule roi_tried_success)
  have an: "layersAnalyzed (roi_loaded area m g s2) = (\<lambda>l. l = forest)"
    by (simp add: roi_loaded_eq s2_def)
  show "roiSetup (roi_caught r m g s) \<Longrightarrow> ?thesis"
    by (rule roi_ready_cases [of area m g s2])
       (simp_all add: roi_caught_def tried an)
qed

lemma analysis_failed_eq:
  "analysis_failed l re msg s =
     s\<lparr>layerStatus := (layerStatus s)(l := msg),
       itemAnalyzing := (itemAnalyzing s)(l := False),
       toggleChecked := (if re then toggleChecked s else (toggleChecked s)(l := False))\<rparr>"
  by (simp add: analysis_failed_def updateLayerStatus_def Let_def)

lemma analysis_succeeded_kept:
  "roiSetup (uncaught (analysis_succeeded l re m g s)) = roiSetup s"
  "layersAnalyzed (uncaught (analysis_succeeded l re m g s)) = (layersAnalyzed s)(l := True)"
  by (rule analysis_succeeded_cases [of s l re m g];
      simp add: analysis_loaded_eq setActiveLayer_eq)+

lemma analysis_tried_kept:
  "roiSetup (uncaught (analysis_tried l re r m g s)) = roiSetup s"
  "layersAnalyzed (uncaught (analysis_tried l re r m g s)) = layersAnalyzed s \<or>
   layersAnalyzed (uncaught (analysis_tried l re r m g s)) = (layersAnalyzed s)(l := True)"
  by (cases r; simp add: analysis_tried_def analysis_succeeded_kept analysis_failed_eq
      showStatus_eq split: body.splits sum.splits)+

lemma analysis_caught_kept:
  "roiSetup (analysis_caught l re r m g s) = roiSetup s"
  "layersAnalyzed (analysis_caught l re r m g s) = layersAnalyzed s \<or>
   layersAnalyzed (analysis_caught l re r m g s) = (layersAnalyzed s)(l := True)"
  using analysis_tried_kept [of l re r m g s]
  by (cases "analysis_tried l re r m g s";
      auto simp add: analysis_caught_def analysis_failed_eq showStatus_eq)+

lemma analyzeLayer_kept:
  "roiSetup (analyzeLayer l re r m g s) = roiSetup s"
  "layersAnalyzed (analyzeLayer l re r m g s) = layersAnalyzed s \<or>
   layersAnalyzed (analyzeLayer l re r m g s) = (layersAnalyzed s)(l := True)"
proof -
  define s4 where
    "s4 = fetch (analysis_request l (analysis_announced l re s)) (analysis_announced l re s)"
  have k: "roiSetup s4 = roiSetup s" "layersAnalyzed s4 = layersAnalyzed s"
    by (simp_all add: s4_def fetch_def analysis_announced_def showStatus_eq
        updateLayerStatus_def Let_def)
  have req: "analysis_requested l re r m g s = analysis_caught l re r m g s4"
    unfolding analysis_requested_def Let_def s4_def by (rule refl)
  show "roiSetup (analyzeLayer l re r m g s) = roiSetup s"
    using analysis_caught_kept(1) [of l re r m g s4] k
    by (simp add: analyzeLayer_def req showStatus_eq)
  show "layersAnalyzed (analyzeLayer l re r m g s) = layersAnalyzed s \<or>
   layersAnalyzed (analyzeLayer l re r m g s) = (layersAnalyzed s)(l := True)"
    using analysis_caught_kept(2) [of l re r m g s4] k
    by (simp add: analyzeLayer_def req showStatus_eq)
qed

subsection \<open>While the ROI is established, forest is analyzed\<close>

lemma fold_updateLayerStatus:
  "fold (\<lambda>l t. updateLayerStatus l st t) ls s =
     s\<lparr>layerStatus := (\<lambda>x. if x \<in> set ls then st else layerStatus s x)\<rparr>"
proof (induction ls arbitrary: s)
  case Nil
  then show ?case by simp
next
  case (Cons l ls)
  show ?case
    by (simp add: Cons.IH) (auto simp add: updateLayerStatus_def fun_eq_iff)
qed

lemma schedule_reanalysis_kept:
  "roiSetup (schedule_reanalysis msg st s) = roiSetup s"
  "layersAnalyzed (schedule_reanalysis msg st s) = layersAnalyzed s"
  by (simp_all add: schedule_reanalysis_def fold_updateLayerStatus showStatus_eq Let_def)

lemma set_content_kept:
  "set_content e h s = Inr t \<Longrightarrow>
   roiSetup t = roiSetup s \<and> layersAnalyzed t = layersAnalyzed s"
  by (auto simp add: set_content_def split: option.splits)

lemma displayStatistics_kept:
  "displayStatistics l d s = Inr t \<Longrightarrow>
   roiSetup t = roiSetup s \<and> layersAnalyzed t = layersAnalyzed s"
  by (cases "displayFunctions l d")
     (auto simp add: displayStatistics_def bind_def dest: set_content_kept split: if_splits)

lemma statisticsArrived_kept:
  "roiSetup (statisticsArrived l r s) = roiSetup s"
  "layersAnalyzed (statisticsArrived l r s) = layersAnalyzed s"
proof -
  define own where "own = layer_name l @ ''StatsContent''"
  define tried where "tried =
            (case r of
               Rejected m \<Rightarrow> Inl (NetworkError m)
             | Response code b \<Rightarrow>
                 if \<not> ok code then Inl (Error (''HTTP '' @ show_nat code))
                 else
                   (case b of
                      Unparsable m \<Rightarrow> Inl (SyntaxError m)
                    | Parsed data \<Rightarrow>
                        if truthy data \<and> 0 < keys_count data
                        then displayStatistics l data s
                        else bind (set_content own
                                     (stat_item ''No statistics available'') s)
                               (\<lambda>t. Inr (showStatus (warning_sign @
                                  '' No statistics available for '' @ layer_name l)
                                  ''warning'' t))))"
  have unfold: "statisticsArrived l r s =
      (case tried of
           Inr t \<Rightarrow> t
         | Inl error \<Rightarrow>
             (case set_content own (stat_item ''Error loading data'') s of
                Inr t \<Rightarrow> showStatus (warning_sign @ '' Could not load '' @
                           layer_name l @ '' statistics'') ''error'' t
              | Inl error' \<Rightarrow> s))"
    unfolding statisticsArrived_def Let_def tried_def own_def by (rule refl)
  have ok: "roiSetup t = roiSetup s \<and> layersAnalyzed t = layersAnalyzed s" if "tried = Inr t" for t
  proof (cases r)
    case (Rejected m)
    with that show ?thesis by (simp add: tried_def)
  next
    case (Response code b)
    show ?thesis
    proof (cases b)
      case (Unparsable m)
      with that Response show ?thesis by (simp add: tried_def split: if_splits)
    next
      case (Parsed data)
      show ?thesis
      proof (cases "truthy data \<and> 0 < keys_count data")
        case True
        with that Response Parsed have "displayStatistics l data s = Inr t"
          by (simp add: tried_def split: if_splits)
        then show ?thesis by (rule displayStatistics_kept)
      next
        case False
        with that Response Parsed show ?thesis
          by (cases "set_content own (stat_item ''No statistics available'') s")
             (auto simp add: tried_def bind_def showStatus_eq dest: set_content_kept
              split: if_splits)
      qed
    qed
  qed
  have both: "roiSetup (statisticsArrived l r s) = roiSetup s \<and>
      layersAnalyzed (statisticsArrived l r s) = layersAnalyzed s"
  proof (cases tried)
    case (Inr t)
    then show ?thesis using ok [OF Inr] by (simp add: unfold)
  next
    case (Inl e)
    then show ?thesis
      by (cases "set_content own (stat_item ''Error loading data'') s")
         (auto simp add: unfold showStatus_eq dest: set_content_kept)
  qed
  show "roiSetup (statisticsArrived l r s) = roiSetup s"
    and "layersAnalyzed (statisticsArrived l r s) = layersAnalyzed s"
    using both by simp_all
qed

lemma updateCoordinatesDisplay_kept [simp]:
  "roiSetup (updateCoordinatesDisplay ring s) = roiSetup s"
  "layersAnalyzed (updateCoordinatesDisplay ring s) = layersAnalyzed s"
  "currentPolygon (updateCoordinatesDisplay ring s) = currentPolygon s"
  by (simp_all add: updateCoordinatesDisplay_def Let_def)

lemma setupROI_established:
  "roiSetup s \<longrightarrow> layersAnalyzed s forest \<Longrightarrow>
   roiSetup (setupROI r m g s) \<longrightarrow> layersAnalyzed (setupROI r m g s) forest"
  by (cases "currentPolygon s")
     (auto simp add: setupROI_def roi_requested_def Let_def dest: roi_caught_established)

lemma toggleChanged_kept:
  "roiSetup (toggleChanged l r m g s) = roiSetup s"
  "layersAnalyzed (toggleChanged l r m g s) = layersAnalyzed s \<or>
   layersAnalyzed (toggleChanged l r m g s) = (layersAnalyzed s)(l := True)"
  using analyzeLayer_kept [of l False r m g s]
  by (auto simp add: toggleChanged_def)

lemma step_established:
  assumes "roiSetup s \<longrightarrow> layersAnalyzed s forest"
  shows "roiSetup (step e s) \<longrightarrow> layersAnalyzed (step e s) forest"
proof (cases e)
  case (Created ring r m g)
  have "roiSetup (updateCoordinatesDisplay ring (s\<lparr>currentPolygon := Some ring\<rparr>)) \<longrightarrow>
        layersAnalyzed (updateCoordinatesDisplay ring (s\<lparr>currentPolygon := Some ring\<rparr>)) forest"
    using assms by simp
  then show ?thesis
    unfolding Created step.simps shapeCreated_def by (rule setupROI_established)
next
  case (Edited ring r m g)
  have "roiSetup (updateCoordinatesDisplay ring (s\<lparr>currentPolygon := Some ring\<rparr>)) \<longrightarrow>
        layersAnalyzed (updateCoordinatesDisplay ring (s\<lparr>currentPolygon := Some ring\<rparr>)) forest"
    using assms by simp
  then have "roiSetup (setupROI r m g (updateCoordinatesDisplay ring (s\<lparr>currentPolygon := Some ring\<rparr>))) \<longrightarrow>
        layersAnalyzed (setupROI r m g (updateCoordinatesDisplay ring (s\<lparr>currentPolygon := Some ring\<rparr>))) forest"
    by (rule setupROI_established)
  then show ?thesis
    using assms by (cases "currentPolygon s") (simp_all add: Edited shapeEdited_def)
next
  case Deleted
  then show ?thesis by (simp add: shapeDeleted_eq)
next
  case (Toggled l r m g)
  define s' where "s' = s\<lparr>toggleChecked := (toggleChecked s)(l := \<not> toggleChecked s l)\<rparr>"
  have "roiSetup s' = roiSetup s" "layersAnalyzed s' = layersAnalyzed s"
    by (simp_all add: s'_def)
  then show ?thesis
    using assms toggleChanged_kept [of l r m g s']
    by (auto simp add: Toggled userToggles_def s'_def [symmetric])
next
  case (StartDateChanged v)
  then show ?thesis
    using assms by (simp add: handleDateChange_def schedule_reanalysis_kept)
next
  case (EndDateChanged v)
  then show ?thesis
    using assms by (simp add: handleDateChange_def schedule_reanalysis_kept)
next
  case (ResolutionChanged v)
  then show ?thesis
    using assms by (simp add: handleResolutionChange_def schedule_reanalysis_kept)
next
  case (TimerFired l r m g)
  define s' where "s' = s\<lparr>timers := remove1 l (timers s)\<rparr>"
  have "roiSetup s' = roiSetup s" "layersAnalyzed s' = layersAnalyzed s"
    by (simp_all add: s'_def)
  then show ?thesis
    using assms analyzeLayer_kept [of l True r m g s']
    by (auto simp add: TimerFired s'_def [symmetric])
next
  case (StatisticsReply l r)
  then show ?thesis
    using assms by (simp add: statisticsArrived_kept)
qed

lemma run_established:
  "roiSetup s \<longrightarrow> layersAnalyzed s forest \<Longrightarrow>
   roiSetup (run events s) \<longrightarrow> layersAnalyzed (run events s) forest"
proof (induction events arbitrary: s)
  case Nil
  then show ?case by (simp add: run_def)
next
  case (Cons e events)
  have "roiSetup (step e s) \<longrightarrow> layersAnalyzed (step e s) forest"
    using Cons.prems by (rule step_established)
  then have "roiSetup (run events (step e s)) \<longrightarrow> layersAnalyzed (run events (step e s)) forest"
    by (rule Cons.IH)
  then show ?case by (simp add: run_def)
qed

lemma reachable_established: "reachable s \<Longrightarrow> roiSetup s \<Longrightarrow> layersAnalyzed s forest"
proof -
  assume "reachable s" and set: "roiSetup s"
  then obtain page events where page: "document_loaded page"
    and s: "s = run events (initializeApp page)"
    by (auto simp add: reachable_def)
  have "\<not> roiSetup (initializeApp page)"
    using page by (simp add: initializeApp_def showStatus_eq resetLayerStates_eq document_loaded_def)
  then have "roiSetup (run events (initializeApp page)) \<longrightarrow>
      layersAnalyzed (run events (initializeApp page)) forest"
    by (intro run_established) simp
  then show ?thesis using s set by simp
qed

subsection \<open>What setupROI does on a success\<close>

lemma roi_requested_eq:
  "roi_requested ring r m g s =
     roi_caught r m g
       (s\<lparr>statusContainer := status_line ''loading''
            (cycle_arrows @ '' Setting up ROI and analyzing forest layer...''),
          requests := requests s @ [roi_request ring s]\<rparr>)"
  by (simp add: roi_requested_def showStatus_eq fetch_def roi_request_def Let_def)

lemma roi_caught_ready:
  assumes "setup_area r = Some area"
  shows "roi_caught r m g s =
     (case roi_ready area m g (s\<lparr>roiSetup := True, layersAnalyzed := (\<lambda>l. l = forest)\<rparr>) of
        Inr t \<Rightarrow> t
      | Inl (e, t) \<Rightarrow> roi_failed (''Error: '' @ error_message e) t)"
  by (simp add: roi_caught_def roi_tried_success [OF assms])

lemma refusal_roi_loaded:
  "refusal forest True (roi_loaded area m g (s\<lparr>roiSetup := a, layersAnalyzed := (\<lambda>l. l = forest)\<rparr>)) =
     tile_error (loaded_overlay forest m s) s"
proof -
  define t where "t = roi_loaded area m g (s\<lparr>roiSetup := a, layersAnalyzed := (\<lambda>l. l = forest)\<rparr>)"
  have "tileFault t = tileFault s" "layersAnalyzed t forest"
    "analysisLayers t forest = loaded_overlay forest m s"
    by (simp_all add: t_def roi_loaded_eq loaded_overlay_def split: option.splits)
  then show ?thesis
    unfolding t_def [symmetric]
    by (simp add: refusal_def tile_error_def split: option.splits)
qed

lemma setupROI_ready:
  assumes poly: "currentPolygon s = Some ring" and area: "setup_area r = Some area"
    and drawn: "tile_error (loaded_overlay forest m s) s = None"
  shows "roiSetup (setupROI r m g s)"
    and "layersAnalyzed (setupROI r m g s) = (\<lambda>l. l = forest)"
    and "toggleDisabled (setupROI r m g s) = (\<lambda>l. False)"
    and "toggleChecked (setupROI r m g s) = (\<lambda>l. l = forest)"
    and "requests (setupROI r m g s) =
           requests s @ [roi_request ring s, GetMapUrl forest, GetLegend forest] @
           (if panelPresent s forest then [GetStatistics forest] else [])"
    and "analysisLayers (setupROI r m g s) =
           (analysisLayers s)(forest := loaded_overlay forest m s)"
    and "nextOverlay (setupROI r m g s) =
           (case usable_tile m of Some u \<Rightarrow> Suc (nextOverlay s) | None \<Rightarrow> nextOverlay s)"
    and "legendData (setupROI r m g s) =
           (case usable_legend g of
              Some d \<Rightarrow> (legendData s)(forest := Some d) | None \<Rightarrow> legendData s)"
    and "mapOverlays (setupROI r m g s) =
           (case loaded_overlay forest m s of
              Some ov \<Rightarrow> insert (ovId ov) (mapOverlays s) | None \<Rightarrow> mapOverlays s)"
    and "currentActiveLayer (setupROI r m g s) = forest"
    and "panelActive (setupROI r m g s) = (\<lambda>x. x = forest \<and> panelPresent s forest)"
    and "statusContainer (setupROI r m g s) =
           status_line ''success''
             (''ROI setup complete! Forest analysis ready. Area: '' @ area @ km2)"
    and "layerStatus (setupROI r m g s) =
           (\<lambda>l. if l = forest then ''Analyzed'' else ''Click toggle to analyze'')"
    and "currentPolygon (setupROI r m g s) = Some ring"
    and "panelPresent (setupROI r m g s) = panelPresent s"
    and "timers (setupROI r m g s) = timers s"
    and "tileFault (setupROI r m g s) = tileFault s"
proof -
  define s0 where "s0 = s\<lparr>statusContainer := status_line ''loading''
            (cycle_arrows @ '' Setting up ROI and analyzing forest layer...''),
          requests := requests s @ [roi_request ring s]\<rparr>"
  define s2 where "s2 = s0\<lparr>roiSetup := True, layersAnalyzed := (\<lambda>l. l = forest)\<rparr>"
  define t where "t = uncaught (roi_ready area m g s2)"
  have an: "layersAnalyzed s2 = (\<lambda>l. l = forest)"
    by (simp add: s2_def)
  have "refusal forest True (roi_loaded area m g s2) = tile_error (loaded_overlay forest m s0) s0"
    unfolding s2_def by (rule refusal_roi_loaded)
  also have "\<dots> = tile_error (loaded_overlay forest m s) s"
    by (simp add: s0_def tile_error_def loaded_overlay_def split: option.splits)
  finally have acc: "refusal forest True (roi_loaded area m g s2) = None"
    using drawn by simp
  note f = roi_ready_fields [OF an acc, folded t_def]
  have "setupROI r m g s = roi_caught r m g s0"
    using poly by (simp add: setupROI_def roi_requested_eq s0_def)
  also have "\<dots> = t"
    using f(1) by (simp add: roi_caught_ready [OF area] s2_def [symmetric])
  finally have eq: "setupROI r m g s = t" .
  have s2: "roiSetup s2" "requests s2 = requests s @ [roi_request ring s]"
    "panelPresent s2 = panelPresent s" "analysisLayers s2 = analysisLayers s"
    "nextOverlay s2 = nextOverlay s" "legendData s2 = legendData s"
    "mapOverlays s2 = mapOverlays s" "currentPolygon s2 = Some ring" "timers s2 = timers s"
    "tileFault s2 = tileFault s"
    using poly by (simp_all add: s2_def s0_def)
  show "roiSetup (setupROI r m g s)"
    by (simp add: eq f s2)
  show "layersAnalyzed (setupROI r m g s) = (\<lambda>l. l = forest)"
    by (simp add: eq f)
  show "toggleDisabled (setupROI r m g s) = (\<lambda>l. False)"
    by (simp add: eq f)
  show "toggleChecked (setupROI r m g s) = (\<lambda>l. l = forest)"
    by (simp add: eq f)
  show "requests (setupROI r m g s) =
           requests s @ [roi_request ring s, GetMapUrl forest, GetLegend forest] @
           (if panelPresent s forest then [GetStatistics forest] else [])"
    by (simp add: eq f s2)
  show al: "analysisLayers (setupROI r m g s) =
           (analysisLayers s)(forest := loaded_overlay forest m s)"
    by (cases "usable_tile m") (simp_all add: eq f s2 loaded_overlay_def)
  show "nextOverlay (setupROI r m g s) =
           (case usable_tile m of Some u \<Rightarrow> Suc (nextOverlay s) | None \<Rightarrow> nextOverlay s)"
    by (simp add: eq f s2 cong: option.case_cong)
  show "legendData (setupROI r m g s) =
           (case usable_legend g of
              Some d \<Rightarrow> (legendData s)(forest := Some d) | None \<Rightarrow> legendData s)"
    by (simp add: eq f s2 cong: option.case_cong)
  have "analysisLayers t forest = loaded_overlay forest m s"
    using al by (simp add: eq)
  then show "mapOverlays (setupROI r m g s) =
           (case loaded_overlay forest m s of
              Some ov \<Rightarrow> insert (ovId ov) (mapOverlays s) | None \<Rightarrow> mapOverlays s)"
    by (simp add: eq f(10) s2 cong: option.case_cong)
  show "currentActiveLayer (setupROI r m g s) = forest"
    by (simp add: eq f)
  show "panelActive (setupROI r m g s) = (\<lambda>x. x = forest \<and> panelPresent s forest)"
    by (simp add: eq f s2)
  show "statusContainer (setupROI r m g s) =
           status_line ''success''
             (''ROI setup complete! Forest analysis ready. Area: '' @ area @ km2)"
    unfolding eq by (rule f)
  show "layerStatus (setupROI r m g s) =
           (\<lambda>l. if l = forest then ''Analyzed'' else ''Click toggle to analyze'')"
    unfolding eq by (rule f)
  show "currentPolygon (setupROI r m g s) = Some ring"
    by (simp add: eq f s2)
  show "panelPresent (setupROI r m g s) = panelPresent s"
    by (simp add: eq f s2)
  show "timers (setupROI r m g s) = timers s"
    by (simp add: eq f s2)
  show "tileFault (setupROI r m g s) = tileFault s"
    by (simp add: eq f s2)
qed

lemma setupROI_fault:
  assumes poly: "currentPolygon s = Some ring" and area: "setup_area r = Some area"
    and fault: "tile_error (loaded_overlay forest m s) s = Some e"
  shows "\<not> roiSetup (setupROI r m g s)"
    and "layersAnalyzed (setupROI r m g s) = (\<lambda>l. False)"
    and "statusContainer (setupROI r m g s) =
           status_line ''error'' (''Error: '' @ error_message e)"
proof -
  define s0 where "s0 = s\<lparr>statusContainer := status_line ''loading''
            (cycle_arrows @ '' Setting up ROI and analyzing forest layer...''),
          requests := requests s @ [roi_request ring s]\<rparr>"
  define s2 where "s2 = s0\<lparr>roiSetup := True, layersAnalyzed := (\<lambda>l. l = forest)\<rparr>"
  define u where "u = uncaught (updateLayerVisibility forest True (roi_loaded area m g s2))"
  have "refusal forest True (roi_loaded area m g s2) = tile_error (loaded_overlay forest m s0) s0"
    unfolding s2_def by (rule refusal_roi_loaded)
  also have "\<dots> = tile_error (loaded_overlay forest m s) s"
    by (simp add: s0_def tile_error_def loaded_overlay_def split: option.splits)
  finally have ref: "refusal forest True (roi_loaded area m g s2) = Some e"
    using fault by simp
  have thrown: "roi_ready area m g s2 = Inl (e, u)"
    by (rule roi_ready_cases [of area m g s2]) (use ref in \<open>simp_all add: u_def\<close>)
  have "setupROI r m g s = roi_caught r m g s0"
    using poly by (simp add: setupROI_def roi_requested_eq s0_def)
  also have "\<dots> = roi_failed (''Error: '' @ error_message e) u"
    using thrown by (simp add: roi_caught_ready [OF area] s2_def [symmetric])
  finally have eq: "setupROI r m g s = roi_failed (''Error: '' @ error_message e) u" .
  show "\<not> roiSetup (setupROI r m g s)"
    by (simp add: eq)
  show "layersAnalyzed (setupROI r m g s) = (\<lambda>l. False)"
    by (simp add: eq roi_failed_eq)
  show "statusContainer (setupROI r m g s) =
           status_line ''error'' (''Error: '' @ error_message e)"
    by (simp add: eq roi_failed_eq)
qed

lemma area_text: "toFixed 2 sample_area = ''12.35''"
  by code_simp

lemma sample_area_literal: "round64 (123456 / 10000) = sample_area"
  by code_simp

lemma setup_area_number:
  assumes "ok code" and "get_prop ''status'' result = Inr (JStr ''success'')"
    and "get_prop ''area_km2'' result = Inr (JNum x)"
  shows "setup_area (Response code (Parsed result)) = Some (toFixed 2 x)"
  using assms by (simp add: setup_area_def bind_def)

lemma setup_area_ok: "setup_area setup_ok = Some ''12.35''"
  by (simp add: setup_ok_def setup_area_number ok_def area_text)

lemma usable_tile_ok:
  "usable_tile tile_ok =
     Some (JStr ''https://earthengine.googleapis.com/v1/tiles/{z}/{x}/{y}'')"
  by code_simp

lemma usable_tile_quota: "usable_tile quota_exceeded = None"
  by (simp add: usable_tile_def quota_exceeded_def ok_def)

subsection \<open>The message of a failed setupROI\<close>

lemma status_line_inject [simp]: "status_line ty a = status_line ty b \<longleftrightarrow> a = b"
  by (simp add: status_line_def)






lemma setupROI_failed:
  assumes "currentPolygon s = Some ring" and "setup_area r = None"
  shows "\<exists>msg.
     setupROI r m g s =
       s\<lparr>statusContainer := status_line ''error'' msg,
         requests := requests s @ [roi_request ring s],
         roiSetup := False, layersAnalyzed := (\<lambda>l. False),
         toggleDisabled := (\<lambda>l. True), toggleChecked := (\<lambda>l. False),
         layerStatus := (\<lambda>l. if l = forest then ''Ready (Default)'' else ''Draw ROI to enable''),
         itemActive := (\<lambda>l. l = forest), itemAnalyzing := (\<lambda>l. False)\<rparr>"
proof -
  define s0 where "s0 = s\<lparr>statusContainer := status_line ''loading''
            (cycle_arrows @ '' Setting up ROI and analyzing forest layer...''),
          requests := requests s @ [roi_request ring s]\<rparr>"
  obtain msg where msg: "roi_caught r m g s0 = roi_failed msg s0"
    using roi_tried_failure [OF assms(2)] by blast
  have step: "setupROI r m g s = roi_caught r m g s0"
    using assms(1) by (simp add: setupROI_def roi_requested_eq s0_def)
  have "setupROI r m g s =
       s\<lparr>statusContainer := status_line ''error'' msg,
         requests := requests s @ [roi_request ring s],
         roiSetup := False, layersAnalyzed := (\<lambda>l. False),
         toggleDisabled := (\<lambda>l. True), toggleChecked := (\<lambda>l. False),
         layerStatus := (\<lambda>l. if l = forest then ''Ready (Default)'' else ''Draw ROI to enable''),
         itemActive := (\<lambda>l. l = forest), itemAnalyzing := (\<lambda>l. False)\<rparr>"
    unfolding step msg by (simp add: roi_failed_eq s0_def)
  then show ?thesis by blast
qed

subsection \<open>Drawing, editing and deleting the polygon\<close>

lemma updateCoordinatesDisplay_fields [simp]:
  "analysisLayers (updateCoordinatesDisplay ring s) = analysisLayers s"
  "nextOverlay (updateCoordinatesDisplay ring s) = nextOverlay s"
  "mapOverlays (updateCoordinatesDisplay ring s) = mapOverlays s"
  "tileFault (updateCoordinatesDisplay ring s) = tileFault s"
  "panelPresent (updateCoordinatesDisplay ring s) = panelPresent s"
  "panelActive (updateCoordinatesDisplay ring s) = panelActive s"
  "toggleChecked (updateCoordinatesDisplay ring s) = toggleChecked s"
  "toggleDisabled (updateCoordinatesDisplay ring s) = toggleDisabled s"
  "currentActiveLayer (updateCoordinatesDisplay ring s) = currentActiveLayer s"
  "legendShown (updateCoordinatesDisplay ring s) = legendShown s"
  by (simp_all add: updateCoordinatesDisplay_def Let_def)

lemma start_fields:
  "nextOverlay (initializeApp sample_page) = 0"
  "mapOverlays (initializeApp sample_page) = {}"
  "analysisLayers (initializeApp sample_page) = (\<lambda>l. None)"
  "tileFault (initializeApp sample_page) = (\<lambda>u. None)"
  "panelPresent (initializeApp sample_page) = (\<lambda>l. True)"
  "currentPolygon (initializeApp sample_page) = None"
  "timers (initializeApp sample_page) = []"
  by (simp_all add: initializeApp_def showStatus_eq resetLayerStates_eq sample_page_def)

lemma document_loaded_sample: "document_loaded sample_page"
  by (simp add: document_loaded_def sample_page_def)

lemma shapeCreated_drawn:
  assumes area: "setup_area r = Some area" and tile: "usable_tile m = Some u"
    and drawn: "tileFault s u = None"
  shows "mapOverlays (shapeCreated ring r m g s) = insert (nextOverlay s) (mapOverlays s)"
    and "analysisLayers (shapeCreated ring r m g s) =
           (analysisLayers s)(forest := Some \<lparr>ovId = nextOverlay s, ovUrl = u\<rparr>)"
    and "nextOverlay (shapeCreated ring r m g s) = Suc (nextOverlay s)"
    and "tileFault (shapeCreated ring r m g s) = tileFault s"
    and "panelPresent (shapeCreated ring r m g s) = panelPresent s"
    and "currentPolygon (shapeCreated ring r m g s) = Some ring"
    and "roiSetup (shapeCreated ring r m g s)"
    and "layersAnalyzed (shapeCreated ring r m g s) = (\<lambda>l. l = forest)"
    and "toggleChecked (shapeCreated ring r m g s) = (\<lambda>l. l = forest)"
    and "currentActiveLayer (shapeCreated ring r m g s) = forest"
    and "panelActive (shapeCreated ring r m g s) = (\<lambda>l. l = forest \<and> panelPresent s forest)"
    and "timers (shapeCreated ring r m g s) = timers s"
proof -
  define s' where "s' = updateCoordinatesDisplay ring (s\<lparr>currentPolygon := Some ring\<rparr>)"
  have k: "analysisLayers s' = analysisLayers s" "nextOverlay s' = nextOverlay s"
    "mapOverlays s' = mapOverlays s" "tileFault s' = tileFault s"
    "panelPresent s' = panelPresent s" "currentPolygon s' = Some ring"
    "timers s' = timers s"
    by (simp_all add: s'_def updateCoordinatesDisplay_def Let_def)
  have o: "loaded_overlay forest m s' = Some \<lparr>ovId = nextOverlay s, ovUrl = u\<rparr>"
    by (simp add: loaded_overlay_def tile k)
  have d: "tile_error (loaded_overlay forest m s') s' = None"
    by (simp add: o tile_error_def k drawn)
  note f = setupROI_ready [OF k(6) area d, of g]
  have eq: "shapeCreated ring r m g s = setupROI r m g s'"
    by (simp add: shapeCreated_def s'_def)
  show "mapOverlays (shapeCreated ring r m g s) = insert (nextOverlay s) (mapOverlays s)"
    by (simp add: eq f(9) o k)
  show "analysisLayers (shapeCreated ring r m g s) =
           (analysisLayers s)(forest := Some \<lparr>ovId = nextOverlay s, ovUrl = u\<rparr>)"
    by (simp add: eq f(6) o k)
  show "nextOverlay (shapeCreated ring r m g s) = Suc (nextOverlay s)"
    by (simp add: eq f(7) tile k)
  show "tileFault (shapeCreated ring r m g s) = tileFault s"
    by (simp add: eq f k)
  show "panelPresent (shapeCreated ring r m g s) = panelPresent s"
    by (simp add: eq f k)
  show "currentPolygon (shapeCreated ring r m g s) = Some ring"
    by (simp add: eq f)
  show "roiSetup (shapeCreated ring r m g s)"
    by (simp add: eq f)
  show "layersAnalyzed (shapeCreated ring r m g s) = (\<lambda>l. l = forest)"
    by (simp add: eq f)
  show "toggleChecked (shapeCreated ring r m g s) = (\<lambda>l. l = forest)"
    by (simp add: eq f)
  show "currentActiveLayer (shapeCreated ring r m g s) = forest"
    by (simp add: eq f)
  show "panelActive (shapeCreated ring r m g s) = (\<lambda>l. l = forest \<and> panelPresent s forest)"
    by (simp add: eq f k)
  show "timers (shapeCreated ring r m g s) = timers s"
    by (simp add: eq f k)
qed

lemma shapeEdited_failed:
  assumes "currentPolygon s = Some old" and "setup_area r = None"
  shows "\<not> roiSetup (shapeEdited ring r m g s)"
    and "layersAnalyzed (shapeEdited ring r m g s) = (\<lambda>l. False)"
    and "toggleChecked (shapeEdited ring r m g s) = (\<lambda>l. False)"
    and "panelActive (shapeEdited ring r m g s) = panelActive s"
    and "currentActiveLayer (shapeEdited ring r m g s) = currentActiveLayer s"
    and "mapOverlays (shapeEdited ring r m g s) = mapOverlays s"
    and "legendShown (shapeEdited ring r m g s) = legendShown s"
proof -
  define s' where "s' = updateCoordinatesDisplay ring (s\<lparr>currentPolygon := Some ring\<rparr>)"
  have k: "currentPolygon s' = Some ring" "panelActive s' = panelActive s"
    "currentActiveLayer s' = currentActiveLayer s" "mapOverlays s' = mapOverlays s"
    "legendShown s' = legendShown s"
    by (simp_all add: s'_def)
  have eq: "shapeEdited ring r m g s = setupROI r m g s'"
    using assms(1) by (simp add: shapeEdited_def s'_def)
  obtain msg where state: "setupROI r m g s' =
       s'\<lparr>statusContainer := status_line ''error'' msg,
         requests := requests s' @ [roi_request ring s'],
         roiSetup := False, layersAnalyzed := (\<lambda>l. False),
         toggleDisabled := (\<lambda>l. True), toggleChecked := (\<lambda>l. False),
         layerStatus := (\<lambda>l. if l = forest then ''Ready (Default)'' else ''Draw ROI to enable''),
         itemActive := (\<lambda>l. l = forest), itemAnalyzing := (\<lambda>l. False)\<rparr>"
    using setupROI_failed [OF k(1) assms(2), of m g] by blast
  show "\<not> roiSetup (shapeEdited ring r m g s)"
    and "layersAnalyzed (shapeEdited ring r m g s) = (\<lambda>l. False)"
    and "toggleChecked (shapeEdited ring r m g s) = (\<lambda>l. False)"
    and "panelActive (shapeEdited ring r m g s) = panelActive s"
    and "currentActiveLayer (shapeEdited ring r m g s) = currentActiveLayer s"
    and "mapOverlays (shapeEdited ring r m g s) = mapOverlays s"
    and "legendShown (shapeEdited ring r m g s) = legendShown s"
    by (simp_all add: eq state k)
qed

lemma handleResolutionChange_timers:
  assumes "roiSetup s" and "layersAnalyzed s = (\<lambda>l. l = forest)"
    and "toggleChecked s = (\<lambda>l. l = forest)"
  shows "timers (handleResolutionChange s) = timers s @ [forest]"
    and "roiSetup (handleResolutionChange s)"
    and "layersAnalyzed (handleResolutionChange s) = (\<lambda>l. l = forest)"
    and "toggleChecked (handleResolutionChange s) = (\<lambda>l. l = forest)"
proof -
  have l: "layersToReanalyze s = [forest]"
    by (simp add: layersToReanalyze_def validLayers_def assms)
  show "timers (handleResolutionChange s) = timers s @ [forest]"
    and "roiSetup (handleResolutionChange s)"
    and "layersAnalyzed (handleResolutionChange s) = (\<lambda>l. l = forest)"
    and "toggleChecked (handleResolutionChange s) = (\<lambda>l. l = forest)"
    using assms
    by (simp_all add: handleResolutionChange_def schedule_reanalysis_def l showStatus_eq
        updateLayerStatus_def Let_def)
qed

subsection \<open>What analyzeLayer does on a failure\<close>

lemma analysis_requested_eq:
  "analysis_requested l re r m g s =
     analysis_caught l re r m g
       (s\<lparr>layerStatus := (layerStatus s)(l := if re then ''Re-analyzing...'' else ''Analyzing...''),
          itemAnalyzing := (itemAnalyzing s)(l := True),
          statusContainer := status_line ''loading''
            (cycle_arrows @ (if re then '' Re-analyzing '' else '' Analyzing '') @
             layer_name l @ '' layer...''),
          requests := requests s @ [analysis_request l s]\<rparr>)"
proof -
  define a where "a = analysis_announced l re s"
  have a: "a = s\<lparr>layerStatus := (layerStatus s)(l := if re then ''Re-analyzing...'' else ''Analyzing...''),
          itemAnalyzing := (itemAnalyzing s)(l := True),
          statusContainer := status_line ''loading''
            (cycle_arrows @ (if re then '' Re-analyzing '' else '' Analyzing '') @
             layer_name l @ '' layer...'')\<rparr>"
    by (simp add: a_def analysis_announced_def updateLayerStatus_def showStatus_eq Let_def)
  have q: "analysis_request l a = analysis_request l s"
    by (simp add: a_def analysis_request_announced)
  have "analysis_requested l re r m g s = analysis_caught l re r m g (fetch (analysis_request l a) a)"
    unfolding analysis_requested_def Let_def a_def by (rule refl)
  also have "fetch (analysis_request l a) a = a\<lparr>requests := requests a @ [analysis_request l s]\<rparr>"
    by (simp add: fetch_def q)
  finally show ?thesis
    by (simp add: a)
qed

lemma analysis_failed_at:
  "analysis_failed l re prompt
     (showStatus msg ''error''
        (s\<lparr>layerStatus := (layerStatus s)(l := before), itemAnalyzing := (itemAnalyzing s)(l := True),
           statusContainer := c, requests := q\<rparr>)) =
   s\<lparr>statusContainer := status_line ''error'' msg, requests := q,
     layerStatus := (layerStatus s)(l := prompt),
     itemAnalyzing := (itemAnalyzing s)(l := False),
     toggleChecked := (if re then toggleChecked s else (toggleChecked s)(l := False))\<rparr>"
  by (simp add: analysis_failed_eq showStatus_eq)

lemma analysis_caught_rejected:
  "analysis_caught l re (Rejected reason) m g s =
     analysis_failed l re ''Error - Click toggle to retry''
       (showStatus (''Error analyzing '' @ layer_name l @ '': '' @ reason) ''error'' s)"
  by (simp add: analysis_caught_def analysis_tried_def)

lemma analysis_caught_unparsable:
  "analysis_caught l re (Response code (Unparsable reason)) m g s =
     analysis_failed l re ''Error - Click toggle to retry''
       (showStatus (''Error analyzing '' @ layer_name l @ '': '' @
          (if ok code then reason else ''Unknown error'')) ''error'' s)"
  by (simp add: analysis_caught_def analysis_tried_def failure_of_response_def Let_def)

lemma analysis_caught_detail:
  assumes "refused r" and "server_detail r = Some d"
  shows "analysis_caught l re r m g s =
     (if ok (reply_code r)
      then analysis_failed l re ''Failed - Click toggle to retry''
             (showStatus (layer_name l @ '' analysis failed: '' @ d) ''error'' s)
      else analysis_failed l re ''Error - Click toggle to retry''
             (showStatus (''Error analyzing '' @ layer_name l @ '': '' @ d) ''error'' s))"
proof (cases r)
  case (Rejected reason)
  with assms show ?thesis by (simp add: refused_def)
next
  case (Response code b)
  show ?thesis
  proof (cases b)
    case (Unparsable reason)
    with assms Response show ?thesis by (simp add: server_detail_def)
  next
    case (Parsed result)
    have d: "get_prop ''detail'' result = Inr (JStr d)" "d \<noteq> []"
      using assms(2) Response Parsed
      by (auto simp add: server_detail_def split: sum.splits json.splits if_splits)
    show ?thesis
    proof (cases "ok code")
      case False
      then show ?thesis
        by (simp add: Response Parsed analysis_caught_def analysis_tried_def
            failure_of_response_def Let_def d reply_code_def)
    next
      case True
      then obtain st where st: "get_prop ''status'' result = Inr st" "st \<noteq> JStr ''success''"
        using assms(1) Response Parsed by (auto simp add: refused_def split: sum.splits)
      show ?thesis
        using True st
        by (simp add: Response Parsed analysis_caught_def analysis_tried_def
            detail_or_unknown_def bind_def d reply_code_def)
    qed
  qed
qed

lemma analysis_caught_no_detail:
  assumes "refused r" and "no_detail r"
  shows "analysis_caught l re r m g s =
     (if ok (reply_code r)
      then analysis_failed l re ''Failed - Click toggle to retry''
             (showStatus (layer_name l @ '' analysis failed: Unknown error'') ''error'' s)
      else analysis_failed l re ''Error - Click toggle to retry''
             (showStatus (''Error analyzing '' @ layer_name l @ '': HTTP '' @
                show_nat (reply_code r)) ''error'' s))"
proof (cases r)
  case (Rejected reason)
  with assms show ?thesis by (simp add: refused_def)
next
  case (Response code b)
  show ?thesis
  proof (cases b)
    case (Unparsable reason)
    with assms Response show ?thesis by (simp add: no_detail_def)
  next
    case (Parsed result)
    obtain d where d: "get_prop ''detail'' result = Inr d" "\<not> truthy d"
      using assms(2) Response Parsed
      by (auto simp add: no_detail_def split: sum.splits)
    show ?thesis
    proof (cases "ok code")
      case False
      then show ?thesis
        by (simp add: Response Parsed analysis_caught_def analysis_tried_def
            failure_of_response_def Let_def d reply_code_def)
    next
      case True
      then obtain st where st: "get_prop ''status'' result = Inr st" "st \<noteq> JStr ''success''"
        using assms(1) Response Parsed by (auto simp add: refused_def split: sum.splits)
      show ?thesis
        using True st
        by (simp add: Response Parsed analysis_caught_def analysis_tried_def
            detail_or_unknown_def bind_def d reply_code_def)
    qed
  qed
qed

lemma analysis_caught_failure:
  assumes "\<not> analysis_success r"
  shows "\<exists>prompt msg.
     analysis_caught l re r m g s = analysis_failed l re prompt (showStatus msg ''error'' s) \<and>
     (prompt = ''Failed - Click toggle to retry'' \<or> prompt = ''Error - Click toggle to retry'')"
proof (cases r)
  case (Rejected reason)
  then show ?thesis
    using analysis_caught_rejected [of l re reason m g s] by blast
next
  case (Response code b)
  show ?thesis
  proof (cases b)
    case (Unparsable reason)
    then show ?thesis
      using analysis_caught_unparsable [of l re code reason m g s] Response by blast
  next
    case (Parsed result)
    show ?thesis
    proof (cases "ok code")
      case False
      then have "analysis_caught l re r m g s =
          analysis_failed l re ''Error - Click toggle to retry''
            (showStatus (''Error analyzing '' @ layer_name l @ '': '' @
               error_message (failure_of_response code b)) ''error'' s)"
        by (simp add: Response analysis_caught_def analysis_tried_def)
      then show ?thesis by blast
    next
      case True
      show ?thesis
      proof (cases "get_prop ''status'' result")
        case (Inl e)
        then have "analysis_caught l re r m g s =
          analysis_failed l re ''Error - Click toggle to retry''
            (showStatus (''Error analyzing '' @ layer_name l @ '': '' @
               error_message e) ''error'' s)"
          using True by (simp add: Response Parsed analysis_caught_def analysis_tried_def)
        then show ?thesis by blast
      next
        case (Inr st)
        then have st: "st \<noteq> JStr ''success''"
          using assms True by (simp add: Response Parsed analysis_success_def)
        show ?thesis
        proof (cases "detail_or_unknown result")
          case (Inl e)
          then have "analysis_caught l re r m g s =
            analysis_failed l re ''Error - Click toggle to retry''
              (showStatus (''Error analyzing '' @ layer_name l @ '': '' @
                 error_message e) ''error'' s)"
            using True st \<open>get_prop ''status'' result = Inr st\<close>
            by (simp add: Response Parsed analysis_caught_def analysis_tried_def)
          then show ?thesis by blast
        next
          case (Inr d)
          then have "analysis_caught l re r m g s =
            analysis_failed l re ''Failed - Click toggle to retry''
              (showStatus (layer_name l @ '' analysis failed: '' @ d) ''error'' s)"
            using True st \<open>get_prop ''status'' result = Inr st\<close>
            by (simp add: Response Parsed analysis_caught_def analysis_tried_def)
          then show ?thesis by blast
        qed
      qed
    qed
  qed
qed

lemma analyzeLayer_failed:
  assumes "roiSetup s" and "re \<or> \<not> layersAnalyzed s L" and "\<not> analysis_success r"
  shows "\<exists>prompt msg.
     analyzeLayer L re r m g s =
       s\<lparr>statusContainer := status_line ''error'' msg,
         requests := requests s @ [analysis_request L s],
         layerStatus := (layerStatus s)(L := prompt),
         itemAnalyzing := (itemAnalyzing s)(L := False),
         toggleChecked := (if re then toggleChecked s else (toggleChecked s)(L := False))\<rparr> \<and>
     (prompt = ''Failed - Click toggle to retry'' \<or> prompt = ''Error - Click toggle to retry'')"
proof -
  define s4 where "s4 = s\<lparr>layerStatus := (layerStatus s)(L := if re then ''Re-analyzing...'' else ''Analyzing...''),
          itemAnalyzing := (itemAnalyzing s)(L := True),
          statusContainer := status_line ''loading''
            (cycle_arrows @ (if re then '' Re-analyzing '' else '' Analyzing '') @
             layer_name L @ '' layer...''),
          requests := requests s @ [analysis_request L s]\<rparr>"
  obtain prompt msg where
    c: "analysis_caught L re r m g s4 = analysis_failed L re prompt (showStatus msg ''error'' s4)"
    and p: "prompt = ''Failed - Click toggle to retry'' \<or> prompt = ''Error - Click toggle to retry''"
    using analysis_caught_failure [OF assms(3)] by blast
  have "analyzeLayer L re r m g s = analysis_caught L re r m g s4"
    using assms(1,2) by (auto simp add: analyzeLayer_def analysis_requested_eq s4_def)
  also have "\<dots> = s\<lparr>statusContainer := status_line ''error'' msg,
         requests := requests s @ [analysis_request L s],
         layerStatus := (layerStatus s)(L := prompt),
         itemAnalyzing := (itemAnalyzing s)(L := False),
         toggleChecked := (if re then toggleChecked s else (toggleChecked s)(L := False))\<rparr>"
    by (subst c, unfold s4_def, rule analysis_failed_at)
  finally show ?thesis
    using p by blast
qed

lemma analyzeLayer_sent:
  assumes "roiSetup s" and "re \<or> \<not> layersAnalyzed s L"
  shows "analyzeLayer L re r m g s =
     analysis_caught L re r m g
       (s\<lparr>layerStatus := (layerStatus s)(L := if re then ''Re-analyzing...'' else ''Analyzing...''),
          itemAnalyzing := (itemAnalyzing s)(L := True),
          statusContainer := status_line ''loading''
            (cycle_arrows @ (if re then '' Re-analyzing '' else '' Analyzing '') @
             layer_name L @ '' layer...''),
          requests := requests s @ [analysis_request L s]\<rparr>)"
  using assms by (auto simp add: analyzeLayer_def analysis_requested_eq)

lemma analyzeLayer_rejected:
  assumes "roiSetup s" and "re \<or> \<not> layersAnalyzed s L"
  shows "statusContainer (analyzeLayer L re (Rejected reason) m g s) =
           status_line ''error'' (''Error analyzing '' @ layer_name L @ '': '' @ reason)"
    and "layerStatus (analyzeLayer L re (Rejected reason) m g s) L =
           ''Error - Click toggle to retry''"
  by (simp_all add: analyzeLayer_sent [OF assms] analysis_caught_rejected analysis_failed_eq
      showStatus_eq)

lemma analyzeLayer_detail:
  assumes "roiSetup s" and "re \<or> \<not> layersAnalyzed s L"
    and "refused r" and "server_detail r = Some d"
  shows "statusContainer (analyzeLayer L re r m g s) =
           status_line ''error''
             (if ok (reply_code r) then layer_name L @ '' analysis failed: '' @ d
              else ''Error analyzing '' @ layer_name L @ '': '' @ d)"
    and "layerStatus (analyzeLayer L re r m g s) L =
           (if ok (reply_code r) then ''Failed - Click toggle to retry''
            else ''Error - Click toggle to retry'')"
  by (simp_all add: analyzeLayer_sent [OF assms(1,2)] analysis_caught_detail [OF assms(3,4)]
      analysis_failed_eq showStatus_eq)

lemma analyzeLayer_no_detail:
  assumes "roiSetup s" and "re \<or> \<not> layersAnalyzed s L"
    and "refused r" and "no_detail r"
  shows "statusContainer (analyzeLayer L re r m g s) =
           status_line ''error''
             (if ok (reply_code r) then layer_name L @ '' analysis failed: Unknown error''
              else ''Error analyzing '' @ layer_name L @ '': HTTP '' @ show_nat (reply_code r))"
    and "layerStatus (analyzeLayer L re r m g s) L =
           (if ok (reply_code r) then ''Failed - Click toggle to retry''
            else ''Error - Click toggle to retry'')"
  by (simp_all add: analyzeLayer_sent [OF assms(1,2)] analysis_caught_no_detail [OF assms(3,4)]
      analysis_failed_eq showStatus_eq)

subsection \<open>Rows of the formatters\<close>

lemma bind_simps [simp]: "bind (Inr v) f = f v" "bind (Inl e) f = Inl e"
  by (simp_all add: bind_def)















subsection \<open>The resolution that an analysis request carries\<close>

text \<open>
  C9. Whenever \<open>analyzeLayer\<close> gets as far as its request (the ROI is established, and the
  layer is not yet analyzed or the call is a forced re-analysis) and the resolution input is
  empty, the request carries the default resolution of the layer from the fixed table:
  forest 10, wetland 10, tundra 250, grassland 10, algal_blooms 300, soil 500,
  chlorophyll 4638. It is the first request the call issues and its only analysis request.
\<close>

theorem default_resolution_sent:
  assumes "roiSetup s"
    and "isReanalysis \<or> \<not> layersAnalyzed s layerType"
    and "resolutionSelect s = []"
  shows "\<exists>qs. requests (analyzeLayer layerType isReanalysis r mapReply legendReply s) =
           requests s @
           AnalyzeLayer layerType
             (if startDate s \<noteq> [] then startDate s else ''2021-01-01'')
             (if endDate s \<noteq> [] then endDate s else ''2023-01-01'')
             (Fin (case layerType of
                     forest \<Rightarrow> 10 | wetland \<Rightarrow> 10 | tundra \<Rightarrow> 250 | grassland \<Rightarrow> 10
                   | algal_blooms \<Rightarrow> 300 | soil \<Rightarrow> 500 | chlorophyll \<Rightarrow> 4638)) # qs \<and>
           analysis_requests qs = []"
proof -
  have "analysis_request layerType s =
          AnalyzeLayer layerType
             (if startDate s \<noteq> [] then startDate s else ''2021-01-01'')
             (if endDate s \<noteq> [] then endDate s else ''2023-01-01'')
             (Fin (case layerType of
                     forest \<Rightarrow> 10 | wetland \<Rightarrow> 10 | tundra \<Rightarrow> 250 | grassland \<Rightarrow> 10
                   | algal_blooms \<Rightarrow> 300 | soil \<Rightarrow> 500 | chlorophyll \<Rightarrow> 4638))"
    using assms(3) default_resolution_read_back [of layerType]
    by (cases layerType) (simp_all add: analysis_request_def)
  then show ?thesis
    using requests_analyzeLayer [OF assms(1) assms(2), of r mapReply legendReply]
    by simp
qed

theorem default_resolution_sent_witness:
  "roiSetup sample_ready \<and> \<not> layersAnalyzed sample_ready tundra \<and>
   resolutionSelect sample_ready = [] \<and>
   (\<exists>qs. requests (analyzeLayer tundra False quota_exceeded tile_ok legend_missing sample_ready) =
      AnalyzeLayer tundra ''2021-01-01'' ''2023-01-01'' (Fin 250) # qs)"
proof -
  have h: "roiSetup sample_ready" "\<not> layersAnalyzed sample_ready tundra"
    "resolutionSelect sample_ready = []" "startDate sample_ready = []"
    "endDate sample_ready = []" "requests sample_ready = []"
    by (simp_all add: sample_ready_def sample_page_def)
  have "\<exists>qs. requests (analyzeLayer tundra False quota_exceeded tile_ok legend_missing
            sample_ready) =
          AnalyzeLayer tundra ''2021-01-01'' ''2023-01-01'' (Fin 250) # qs"
    using default_resolution_sent [of sample_ready False tundra quota_exceeded tile_ok
        legend_missing] h
    by auto
  with h show ?thesis by simp
qed

subsection \<open>Hiding a layer\<close>

lemma sample_two_visible: "visible sample_two b \<longleftrightarrow> b = soil"
  by (auto simp add: visible_def sample_two_def sample_page_def)

lemma sample_both_visible: "visible sample_both b \<longleftrightarrow> b = soil"
  by (auto simp add: visible_def sample_both_def sample_two_def sample_page_def)

text \<open>
  C7. \<open>updateLayerVisibility(L, false)\<close> returns normally. It scans the seven layers in the
  order forest, wetland, tundra, grassland, algal_blooms, soil, chlorophyll for the layers
  that are analyzed and whose toggle is checked; \<open>L\<close> itself is out of the scan when its
  toggle is unchecked, as it is when the change handler calls. If there is such a layer,
  the last one in the order becomes the active layer, and its statistics panel, if the page
  has one, the only active panel. The legend of that layer is shown if the legend data
  cached for it holds its classification key, and the legend panel is hidden if the cached
  data lacks the key. If no legend data is cached for the layer, the code does not touch
  the legend panel: it goes on showing what it showed, the legend of another layer. This is
  where the code departs from the claim, which has the legend of the promoted layer shown.
  If no layer is visible, the legend panel is hidden and no statistics panel is active.
\<close>

theorem hiding_promotes_last_visible:
  "\<exists>t. updateLayerVisibility L False s = Inr t \<and>
     (visible s a \<and> (\<forall>b. visible s b \<longrightarrow> position b \<le> position a) \<longrightarrow>
        currentActiveLayer t = a \<and>
        panelActive t = (\<lambda>x. x = a \<and> panelPresent s a) \<and>
        (\<not> toggleChecked s L \<longrightarrow> a \<noteq> L) \<and>
        (case legendData s a of
           None \<Rightarrow> legendShown t = legendShown s \<and> legendContent t = legendContent s
         | Some d \<Rightarrow>
             (case map_of d (legendKey a) of
                Some info \<Rightarrow> legendShown t \<and> legendContent t = legend_html info
              | None \<Rightarrow> \<not> legendShown t))) \<and>
     ((\<forall>b. \<not> visible s b) \<longrightarrow> \<not> legendShown t \<and> panelActive t = (\<lambda>x. False))"
proof -
  define t where "t = uncaught (updateLayerVisibility L False s)"
  have ret: "updateLayerVisibility L False s = Inr t"
    unfolding t_def by (rule ulv_returns) simp
  have hidden: "\<not> legendShown t \<and> panelActive t = (\<lambda>x. False)" if "\<forall>b. \<not> visible s b"
  proof -
    have none: "shown_layer L False s = None"
      using that by (simp add: shown_layer_def lastVisible_None)
    have "\<not> legendShown t"
      unfolding t_def using refusal_hide none by (rule ulv_legend_none)
    moreover have "panelActive t = (\<lambda>x. False)"
      unfolding t_def by (simp add: ulv_panelActive none)
    ultimately show ?thesis by simp
  qed
  have promoted: "currentActiveLayer t = a \<and>
        panelActive t = (\<lambda>x. x = a \<and> panelPresent s a) \<and>
        (\<not> toggleChecked s L \<longrightarrow> a \<noteq> L) \<and>
        (case legendData s a of
           None \<Rightarrow> legendShown t = legendShown s \<and> legendContent t = legendContent s
         | Some d \<Rightarrow>
             (case map_of d (legendKey a) of
                Some info \<Rightarrow> legendShown t \<and> legendContent t = legend_html info
              | None \<Rightarrow> \<not> legendShown t))"
    if "visible s a \<and> (\<forall>b. visible s b \<longrightarrow> position b \<le> position a)"
  proof -
    have last: "lastVisible s = Some a" and vis: "visible s a"
      using that by (simp_all add: lastVisible_Some)
    then have shown: "shown_layer L False s = Some a"
      by (simp add: shown_layer_def)
    have active: "currentActiveLayer t = a"
      unfolding t_def by (simp add: ulv_currentActiveLayer shown)
    have panel: "panelActive t = (\<lambda>x. x = a \<and> panelPresent s a)"
      unfolding t_def by (simp add: ulv_panelActive shown)
    have other: "a \<noteq> L" if "\<not> toggleChecked s L"
      using that vis by (auto simp add: visible_def)
    have legend: "case legendData s a of
           None \<Rightarrow> legendShown t = legendShown s \<and> legendContent t = legendContent s
         | Some d \<Rightarrow>
             (case map_of d (legendKey a) of
                Some info \<Rightarrow> legendShown t \<and> legendContent t = legend_html info
              | None \<Rightarrow> \<not> legendShown t)"
    proof (cases "legendData s a")
      case None
      then show ?thesis
        unfolding t_def using ulv_legend_not_loaded [of False s L a] last by simp
    next
      case (Some d)
      show ?thesis
      proof (cases "map_of d (legendKey a)")
        case None
        then have "cached_legend s a = None"
          by (simp add: cached_legend_def Some)
        then show ?thesis
          unfolding t_def using ulv_legend_no_key [of False s L a d] last Some None by simp
      next
        case (Some info)
        then have "cached_legend s a = Some info"
          by (simp add: cached_legend_def \<open>legendData s a = Some d\<close>)
        then show ?thesis
          unfolding t_def
          using ulv_legend_cached [OF refusal_hide shown] Some \<open>legendData s a = Some d\<close>
          by simp
      qed
    qed
    show ?thesis
      using active panel other legend by simp
  qed
  show ?thesis
    using ret hidden promoted by blast
qed

text \<open>
  With wetland and soil analyzed, the toggle of soil checked and the legend of wetland on
  display, hiding wetland promotes soil. If the legend request for soil has failed, so that
  no legend data is cached for soil, the legend panel goes on showing the legend of
  wetland; if the legend of soil is cached, the panel shows it.
\<close>

theorem hiding_promotes_last_visible_witness:
  "visible sample_two soil \<and> \<not> visible sample_two chlorophyll \<and>
   \<not> toggleChecked sample_two wetland \<and> legendData sample_two soil = None \<and>
   legendContent sample_two = legend_html (sample_legend wetland) \<and>
   (\<exists>t. updateLayerVisibility wetland False sample_two = Inr t \<and>
        currentActiveLayer t = soil \<and> panelActive t soil \<and> legendShown t \<and>
        legendContent t = legend_html (sample_legend wetland)) \<and>
   legend_html (sample_legend wetland) \<noteq> legend_html (sample_legend soil) \<and>
   visible sample_both soil \<and> \<not> visible sample_both chlorophyll \<and>
   (\<exists>t. updateLayerVisibility wetland False sample_both = Inr t \<and>
        currentActiveLayer t = soil \<and> panelActive t soil \<and> legendShown t \<and>
        legendContent t = legend_html (sample_legend soil))"
proof -
  have two: "visible sample_two soil \<and>
      (\<forall>b. visible sample_two b \<longrightarrow> position b \<le> position soil)"
    by (simp add: sample_two_visible)
  have both: "visible sample_both soil \<and>
      (\<forall>b. visible sample_both b \<longrightarrow> position b \<le> position soil)"
    by (simp add: sample_both_visible)
  have d2: "legendData sample_two soil = None" "legendShown sample_two"
    "legendContent sample_two = legend_html (sample_legend wetland)"
    "panelPresent sample_two soil" "\<not> toggleChecked sample_two wetland"
    by (simp_all add: sample_two_def sample_page_def)
  have d3: "legendData sample_both soil = Some [(legendKey soil, sample_legend soil)]"
    "panelPresent sample_both soil"
    by (simp_all add: sample_both_def sample_two_def sample_page_def)
  have differ: "legend_html (sample_legend wetland) \<noteq> legend_html (sample_legend soil)"
    by (simp add: legend_html_def sample_legend_def)
  have stale: "\<exists>t. updateLayerVisibility wetland False sample_two = Inr t \<and>
        currentActiveLayer t = soil \<and> panelActive t soil \<and> legendShown t \<and>
        legendContent t = legend_html (sample_legend wetland)"
    using hiding_promotes_last_visible [of wetland sample_two soil] two d2 by auto
  have fresh: "\<exists>t. updateLayerVisibility wetland False sample_both = Inr t \<and>
        currentActiveLayer t = soil \<and> panelActive t soil \<and> legendShown t \<and>
        legendContent t = legend_html (sample_legend soil)"
    using hiding_promotes_last_visible [of wetland sample_both soil] both d3 by auto
  show ?thesis
    using stale fresh differ d2
    by (simp add: sample_two_visible sample_both_visible)
qed

subsection \<open>Requests of a repeated and of a first toggle\<close>

lemma issued_append: "requests t = requests s @ qs \<Longrightarrow> issued s t = qs"
  by (simp add: issued_def)

lemma userToggles_first:
  assumes "roiSetup s" and "L \<noteq> forest" and "\<not> layersAnalyzed s L"
    and "\<not> toggleChecked s L" and "\<not> toggleDisabled s L"
  shows "analysis_requests (issued s (userToggles L r m g s)) = [analysis_request L s]"
proof -
  define s' where "s' = s\<lparr>toggleChecked := (toggleChecked s)(L := True)\<rparr>"
  have s': "roiSetup s'" "\<not> layersAnalyzed s' L" "toggleChecked s' L"
    "requests s' = requests s" "analysis_request L s' = analysis_request L s"
    using assms by (simp_all add: s'_def analysis_request_def)
  have "userToggles L r m g s = analyzeLayer L False r m g s'"
    using assms s'(2,3) by (simp add: userToggles_def toggleChanged_def s'_def [symmetric])
  moreover obtain qs where
    "requests (analyzeLayer L False r m g s') = requests s' @ analysis_request L s' # qs"
    "analysis_requests qs = []"
    using requests_analyzeLayer [of s' False L r m g] s' by auto
  ultimately show ?thesis
    using s'(4,5) by (simp add: issued_def analysis_request_def)
qed

lemma reshow_state:
  assumes "roiSetup s" and "layersAnalyzed s L"
  shows "analyzeLayer L False r m g s =
           (if toggleChecked s L then uncaught (updateLayerVisibility L True s) else s)"
  using assms by (simp add: analyzeLayer_def)

lemma reshow_requests:
  assumes "roiSetup s" and "layersAnalyzed s L"
  shows "requests (analyzeLayer L False r m g s) =
           requests s @
           (if toggleChecked s L \<and> refusal L True s = None
            then (case shown_layer L True s of
                    Some a \<Rightarrow> if panelPresent s a then [GetStatistics a] else []
                  | None \<Rightarrow> [])
            else [])"
  using assms by (simp add: analyzeLayer_def ulv_requests)

text \<open>
  C1, as amended. With the ROI established and \<open>analyzed[L]\<close> true,
  \<open>analyzeLayer(L, false)\<close> does nothing at all if the toggle of \<open>L\<close> is unchecked, and
  does exactly what \<open>updateLayerVisibility(L, true)\<close> does if it is checked (an exception
  of that call leaves \<open>analyzeLayer\<close> uncaught). It issues no analysis request, no map-url
  request and no legend request; but re-applying the visibility fetches the statistics of
  the layer shown, so the call is not free of requests: it issues at most one request, a
  statistics request; this is the request for the statistics of \<open>L\<close> when the overlay of
  \<open>L\<close> is cached, the map can draw it and the page has the statistics panel of \<open>L\<close>; and
  no request at all when the map cannot draw the overlay. Toggling on a layer other than
  forest that is enabled and not analyzed issues exactly one analysis request, for that
  layer. For forest the case does not arise: in every reachable state in which the ROI is
  established, forest is analyzed.
\<close>

theorem reshow_fetches_statistics_only:
  assumes "roiSetup s"
  shows "(layersAnalyzed s L \<longrightarrow>
            (\<not> toggleChecked s L \<longrightarrow> analyzeLayer L False r m g s = s) \<and>
            (toggleChecked s L \<longrightarrow>
               analyzeLayer L False r m g s = uncaught (updateLayerVisibility L True s)) \<and>
            analysis_requests (issued s (analyzeLayer L False r m g s)) = [] \<and>
            list_all is_statistics_request (issued s (analyzeLayer L False r m g s)) \<and>
            length (issued s (analyzeLayer L False r m g s)) \<le> 1 \<and>
            (toggleChecked s L \<and> analysisLayers s L \<noteq> None \<and> refusal L True s = None \<and>
             panelPresent s L \<longrightarrow>
               issued s (analyzeLayer L False r m g s) = [GetStatistics L]) \<and>
            (toggleChecked s L \<and> refusal L True s \<noteq> None \<longrightarrow>
               issued s (analyzeLayer L False r m g s) = [])) \<and>
         (L \<noteq> forest \<and> \<not> layersAnalyzed s L \<and> \<not> toggleChecked s L \<and> \<not> toggleDisabled s L \<longrightarrow>
            analysis_requests (issued s (userToggles L r m g s)) =
              [AnalyzeLayer L
                 (if startDate s \<noteq> [] then startDate s else ''2021-01-01'')
                 (if endDate s \<noteq> [] then endDate s else ''2023-01-01'')
                 (parseInt (if resolutionSelect s \<noteq> [] then resolutionSelect s
                            else num_to_string (defaultResolution L)))]) \<and>
         (reachable s \<longrightarrow> layersAnalyzed s forest)"
proof (intro conjI impI)
  assume an: "layersAnalyzed s L"
  let ?qs = "if toggleChecked s L \<and> refusal L True s = None
            then (case shown_layer L True s of
                    Some a \<Rightarrow> if panelPresent s a then [GetStatistics a] else []
                  | None \<Rightarrow> [])
            else []"
  have iss: "issued s (analyzeLayer L False r m g s) = ?qs"
    using reshow_requests [OF assms an] by (rule issued_append)
  show "analysis_requests (issued s (analyzeLayer L False r m g s)) = []"
    by (simp add: iss split: option.splits)
  show "list_all is_statistics_request (issued s (analyzeLayer L False r m g s))"
    by (simp add: iss split: option.splits)
  show "length (issued s (analyzeLayer L False r m g s)) \<le> 1"
    by (simp add: iss split: option.splits)
  show "analyzeLayer L False r m g s = s" if "\<not> toggleChecked s L"
    using that by (simp add: reshow_state [OF assms an])
  show "analyzeLayer L False r m g s = uncaught (updateLayerVisibility L True s)"
    if "toggleChecked s L"
    using that by (simp add: reshow_state [OF assms an])
  show "issued s (analyzeLayer L False r m g s) = [GetStatistics L]"
    if "toggleChecked s L \<and> analysisLayers s L \<noteq> None \<and> refusal L True s = None \<and>
        panelPresent s L"
    using that an by (simp add: iss shown_layer_def)
  show "issued s (analyzeLayer L False r m g s) = []"
    if "toggleChecked s L \<and> refusal L True s \<noteq> None"
    using that by (auto simp add: iss)
next
  assume "L \<noteq> forest \<and> \<not> layersAnalyzed s L \<and> \<not> toggleChecked s L \<and> \<not> toggleDisabled s L"
  then show "analysis_requests (issued s (userToggles L r m g s)) =
              [AnalyzeLayer L
                 (if startDate s \<noteq> [] then startDate s else ''2021-01-01'')
                 (if endDate s \<noteq> [] then endDate s else ''2023-01-01'')
                 (parseInt (if resolutionSelect s \<noteq> [] then resolutionSelect s
                            else num_to_string (defaultResolution L)))]"
    using userToggles_first [of s L r m g] assms by (simp add: analysis_request_def)
next
  assume "reachable s"
  then show "layersAnalyzed s forest"
    using assms by (rule reachable_established)
qed

text \<open>
  In a state with wetland and soil analyzed and soil shown: the repeated call for soil is
  the visibility update of soil and issues one request, for the statistics of soil; the
  first click on the toggle of tundra issues one analysis request, for tundra. And in the
  state reached from the loaded page by drawing a polygon, with good replies, the ROI is
  established and forest is analyzed.
\<close>

theorem reshow_fetches_statistics_only_witness:
  "roiSetup sample_two \<and> layersAnalyzed sample_two soil \<and> toggleChecked sample_two soil \<and>
   analyzeLayer soil False analysis_ok tile_ok legend_missing sample_two =
     uncaught (updateLayerVisibility soil True sample_two) \<and>
   analysis_requests
     (issued sample_two (analyzeLayer soil False analysis_ok tile_ok legend_missing sample_two)) = [] \<and>
   issued sample_two (analyzeLayer soil False analysis_ok tile_ok legend_missing sample_two) =
     [GetStatistics soil] \<and>
   \<not> layersAnalyzed sample_two tundra \<and> \<not> toggleChecked sample_two tundra \<and>
   \<not> toggleDisabled sample_two tundra \<and>
   analysis_requests
     (issued sample_two (userToggles tundra analysis_ok tile_ok legend_missing sample_two)) =
     [AnalyzeLayer tundra ''2021-01-01'' ''2023-01-01'' (Fin 250)] \<and>
   reachable
     (run [Created sample_ring setup_ok tile_ok (legend_ok forest)] (initializeApp sample_page)) \<and>
   roiSetup
     (run [Created sample_ring setup_ok tile_ok (legend_ok forest)] (initializeApp sample_page)) \<and>
   layersAnalyzed
     (run [Created sample_ring setup_ok tile_ok (legend_ok forest)] (initializeApp sample_page))
     forest"
proof -
  define s1 where
    "s1 = run [Created sample_ring setup_ok tile_ok (legend_ok forest)] (initializeApp sample_page)"
  have drawn: "tileFault (initializeApp sample_page)
          (JStr ''https://earthengine.googleapis.com/v1/tiles/{z}/{x}/{y}'') = None"
    by (simp add: start_fields)
  have "roiSetup
      (shapeCreated sample_ring setup_ok tile_ok (legend_ok forest) (initializeApp sample_page))"
    by (rule shapeCreated_drawn(7) [OF setup_area_ok usable_tile_ok drawn])
  then have set1: "roiSetup s1"
    by (simp add: s1_def run_def)
  have reach1: "reachable s1"
    unfolding reachable_def s1_def using document_loaded_sample by blast
  have forest1: "layersAnalyzed s1 forest"
    using reshow_fetches_statistics_only [OF set1, of forest analysis_ok tile_ok legend_missing]
      reach1 by blast
  have h: "roiSetup sample_two" "layersAnalyzed sample_two soil" "toggleChecked sample_two soil"
    "\<not> layersAnalyzed sample_two tundra" "\<not> toggleChecked sample_two tundra"
    "\<not> toggleDisabled sample_two tundra" "analysisLayers sample_two soil \<noteq> None"
    "panelPresent sample_two soil" "refusal soil True sample_two = None"
    "startDate sample_two = []" "endDate sample_two = []" "resolutionSelect sample_two = []"
    by (simp_all add: sample_two_def sample_page_def refusal_def)
  note soil = reshow_fetches_statistics_only [OF h(1), of soil analysis_ok tile_ok legend_missing]
  note tundra = reshow_fetches_statistics_only [OF h(1), of tundra analysis_ok tile_ok legend_missing]
  have a: "analyzeLayer soil False analysis_ok tile_ok legend_missing sample_two =
     uncaught (updateLayerVisibility soil True sample_two)"
    using soil h(2,3) by blast
  have b: "analysis_requests
     (issued sample_two (analyzeLayer soil False analysis_ok tile_ok legend_missing sample_two)) = []"
    using soil h(2) by blast
  have c: "issued sample_two (analyzeLayer soil False analysis_ok tile_ok legend_missing sample_two) =
     [GetStatistics soil]"
    using soil h(2,3,7,8,9) by blast
  have "analysis_requests
     (issued sample_two (userToggles tundra analysis_ok tile_ok legend_missing sample_two)) =
     [AnalyzeLayer tundra
        (if startDate sample_two \<noteq> [] then startDate sample_two else ''2021-01-01'')
        (if endDate sample_two \<noteq> [] then endDate sample_two else ''2023-01-01'')
        (parseInt (if resolutionSelect sample_two \<noteq> [] then resolutionSelect sample_two
                   else num_to_string (defaultResolution tundra)))]"
    using tundra h(4,5,6) by blast
  then have d: "analysis_requests
     (issued sample_two (userToggles tundra analysis_ok tile_ok legend_missing sample_two)) =
     [AnalyzeLayer tundra ''2021-01-01'' ''2023-01-01'' (Fin 250)]"
    using default_resolution_read_back [of tundra] by (simp add: h(10,11,12))
  show ?thesis
    using a b c d h(1-6) set1 reach1 forest1 by (simp add: s1_def)
qed

text \<open>
  The claim as stated fails on the fetch: the repeated call for soil, analyzed and shown,
  requests the statistics of soil.
\<close>

theorem reshow_fetches_counterexample:
  "roiSetup sample_two \<and> layersAnalyzed sample_two soil \<and> toggleChecked sample_two soil \<and>
   issued sample_two (analyzeLayer soil False analysis_ok tile_ok legend_missing sample_two) =
     [GetStatistics soil]"
proof -
  have h: "roiSetup sample_two" "layersAnalyzed sample_two soil" "toggleChecked sample_two soil"
    "analysisLayers sample_two soil \<noteq> None" "panelPresent sample_two soil"
    "refusal soil True sample_two = None"
    by (simp_all add: sample_two_def sample_page_def refusal_def)
  have "issued sample_two (analyzeLayer soil False analysis_ok tile_ok legend_missing sample_two) =
     [GetStatistics soil]"
    using reshow_requests [OF h(1) h(2), of analysis_ok tile_ok legend_missing] h
    by (simp add: issued_def shown_layer_def)
  with h show ?thesis by simp
qed

subsection \<open>A setup of the ROI that succeeds\<close>

text \<open>
  C5, as amended. When the reply to the setup request is a 2xx response whose body has the
  status \<open>success\<close> and a numeric \<open>area_km2\<close>, \<open>setupROI\<close> requests the tile URL and the
  legend of forest. If the map can draw the overlay that \<open>analysisLayers\<close> then holds for
  forest (or there is none), the ROI is marked established; forest is the only analyzed
  layer; every toggle is enabled and the toggle of forest is the only one checked; the
  overlay of forest is the one just built when the map-url reply was usable, and else the
  one held before, if any; the legend data of forest is that of the legend reply when it was
  usable; the overlay of forest, if there is one, is on the map; forest is the active
  layer; and the status container shows the success message with the area rounded to two
  decimals. If the map throws when it draws the overlay, the \<open>catch\<close> block
  takes the setup for failed: the ROI is marked not established, no layer is analyzed, and
  the status container shows the error.
\<close>

theorem setup_success_shows_forest:
  assumes "currentPolygon s = Some ring"
    and "ok code" and "get_prop ''status'' result = Inr (JStr ''success'')"
    and "get_prop ''area_km2'' result = Inr (JNum x)"
  shows
    "(let t = setupROI (Response code (Parsed result)) m g s in
      (tile_error (loaded_overlay forest m s) s = None \<longrightarrow>
         roiSetup t \<and> layersAnalyzed t = (\<lambda>l. l = forest) \<and>
         toggleDisabled t = (\<lambda>l. False) \<and> toggleChecked t = (\<lambda>l. l = forest) \<and>
         issued s t =
           [roi_request ring s, GetMapUrl forest, GetLegend forest] @
           (if panelPresent s forest then [GetStatistics forest] else []) \<and>
         analysisLayers t forest = loaded_overlay forest m s \<and>
         legendData t forest =
           (case usable_legend g of Some d \<Rightarrow> Some d | None \<Rightarrow> legendData s forest) \<and>
         mapOverlays t =
           (case loaded_overlay forest m s of
              Some ov \<Rightarrow> insert (ovId ov) (mapOverlays s) | None \<Rightarrow> mapOverlays s) \<and>
         currentActiveLayer t = forest \<and>
         panelActive t = (\<lambda>l. l = forest \<and> panelPresent s forest) \<and>
         statusContainer t =
           status_line ''success''
             (''ROI setup complete! Forest analysis ready. Area: '' @ toFixed 2 x @ km2)) \<and>
      (\<forall>e. tile_error (loaded_overlay forest m s) s = Some e \<longrightarrow>
         \<not> roiSetup t \<and> layersAnalyzed t = (\<lambda>l. False) \<and>
         statusContainer t = status_line ''error'' (''Error: '' @ error_message e)))"
proof -
  define r where "r = Response code (Parsed result)"
  have area: "setup_area r = Some (toFixed 2 x)"
    unfolding r_def using assms(2,3,4) by (rule setup_area_number)
  have good: "roiSetup (setupROI r m g s) \<and> layersAnalyzed (setupROI r m g s) = (\<lambda>l. l = forest) \<and>
         toggleDisabled (setupROI r m g s) = (\<lambda>l. False) \<and>
         toggleChecked (setupROI r m g s) = (\<lambda>l. l = forest) \<and>
         issued s (setupROI r m g s) =
           [roi_request ring s, GetMapUrl forest, GetLegend forest] @
           (if panelPresent s forest then [GetStatistics forest] else []) \<and>
         analysisLayers (setupROI r m g s) forest = loaded_overlay forest m s \<and>
         legendData (setupROI r m g s) forest =
           (case usable_legend g of Some d \<Rightarrow> Some d | None \<Rightarrow> legendData s forest) \<and>
         mapOverlays (setupROI r m g s) =
           (case loaded_overlay forest m s of
              Some ov \<Rightarrow> insert (ovId ov) (mapOverlays s) | None \<Rightarrow> mapOverlays s) \<and>
         currentActiveLayer (setupROI r m g s) = forest \<and>
         panelActive (setupROI r m g s) = (\<lambda>l. l = forest \<and> panelPresent s forest) \<and>
         statusContainer (setupROI r m g s) =
           status_line ''success''
             (''ROI setup complete! Forest analysis ready. Area: '' @ toFixed 2 x @ km2)"
    if drawn: "tile_error (loaded_overlay forest m s) s = None"
  proof -
    note f = setupROI_ready [OF assms(1) area drawn, of g]
    have "issued s (setupROI r m g s) =
           [roi_request ring s, GetMapUrl forest, GetLegend forest] @
           (if panelPresent s forest then [GetStatistics forest] else [])"
      by (simp add: issued_def f(5))
    moreover have "legendData (setupROI r m g s) forest =
           (case usable_legend g of Some d \<Rightarrow> Some d | None \<Rightarrow> legendData s forest)"
      by (simp add: f(8) split: option.splits)
    moreover have "analysisLayers (setupROI r m g s) forest = loaded_overlay forest m s"
      by (simp add: f(6))
    ultimately show ?thesis
      using f(1,2,3,4,9,10,11,12) by simp
  qed
  have bad: "\<not> roiSetup (setupROI r m g s) \<and> layersAnalyzed (setupROI r m g s) = (\<lambda>l. False) \<and>
         statusContainer (setupROI r m g s) =
           status_line ''error'' (''Error: '' @ error_message e)"
    if "tile_error (loaded_overlay forest m s) s = Some e" for e
    using setupROI_fault [OF assms(1) area that, of g] by simp
  show ?thesis
    unfolding Let_def r_def [symmetric] using good bad by blast
qed

text \<open>
  The reply \<open>{"status": "success", "area_km2": 12.3456}\<close> to the setup of a first polygon,
  with a usable tile URL and legend: the overlay of forest, the first overlay built, is on
  the map, and the message gives the area as 12.35.
\<close>

theorem setup_success_shows_forest_witness:
  "currentPolygon sample_drawn = Some sample_ring \<and> ok 200 \<and>
   round64 (123456 / 10000) = sample_area \<and>
   roiSetup (setupROI setup_ok tile_ok (legend_ok forest) sample_drawn) \<and>
   layersAnalyzed (setupROI setup_ok tile_ok (legend_ok forest) sample_drawn) =
     (\<lambda>l. l = forest) \<and>
   toggleDisabled (setupROI setup_ok tile_ok (legend_ok forest) sample_drawn) = (\<lambda>l. False) \<and>
   analysisLayers (setupROI setup_ok tile_ok (legend_ok forest) sample_drawn) forest =
     Some \<lparr>ovId = 0, ovUrl = JStr ''https://earthengine.googleapis.com/v1/tiles/{z}/{x}/{y}''\<rparr> \<and>
   legendData (setupROI setup_ok tile_ok (legend_ok forest) sample_drawn) forest =
     Some [(legendKey forest, sample_legend forest)] \<and>
   mapOverlays (setupROI setup_ok tile_ok (legend_ok forest) sample_drawn) = {0} \<and>
   currentActiveLayer (setupROI setup_ok tile_ok (legend_ok forest) sample_drawn) = forest \<and>
   panelActive (setupROI setup_ok tile_ok (legend_ok forest) sample_drawn) forest \<and>
   statusContainer (setupROI setup_ok tile_ok (legend_ok forest) sample_drawn) =
     status_line ''success'' (''ROI setup complete! Forest analysis ready. Area: 12.35'' @ km2)"
proof -
  define result where
    "result = JObj [(''status'', JStr ''success''), (''area_km2'', JNum sample_area)]"
  have ok: "setup_ok = Response 200 (Parsed result)"
    by (simp add: setup_ok_def result_def)
  have h: "currentPolygon sample_drawn = Some sample_ring" "ok 200"
    "get_prop ''status'' result = Inr (JStr ''success'')"
    "get_prop ''area_km2'' result = Inr (JNum sample_area)"
    by (simp_all add: sample_drawn_def sample_page_def ok_def result_def)
  have o: "loaded_overlay forest tile_ok sample_drawn =
      Some \<lparr>ovId = 0, ovUrl = JStr ''https://earthengine.googleapis.com/v1/tiles/{z}/{x}/{y}''\<rparr>"
    by (simp add: loaded_overlay_def usable_tile_ok sample_drawn_def sample_page_def)
  have tf: "tileFault sample_drawn = (\<lambda>u. None)"
    by (simp add: sample_drawn_def sample_page_def)
  have d: "tile_error (loaded_overlay forest tile_ok sample_drawn) sample_drawn = None"
    "mapOverlays sample_drawn = {}" "panelPresent sample_drawn forest"
    "usable_legend (legend_ok forest) = Some [(legendKey forest, sample_legend forest)]"
    by (simp add: o tile_error_def tf)
       (simp_all add: sample_drawn_def sample_page_def usable_legend_def legend_ok_def ok_def)
  show ?thesis
    using setup_success_shows_forest [OF h, of tile_ok "legend_ok forest"] d h(1,2)
      sample_area_literal
    by (simp add: Let_def ok [symmetric] o area_text)
qed

text \<open>
  The claim as stated fails on the overlay: with the same reply to the setup request and the
  reply HTTP 500 to the map-url request, the setup succeeds, and no overlay of forest is
  cached or on the map.
\<close>

theorem setup_without_overlay_counterexample:
  "roiSetup (setupROI setup_ok quota_exceeded (legend_ok forest) sample_drawn) \<and>
   layersAnalyzed (setupROI setup_ok quota_exceeded (legend_ok forest) sample_drawn) forest \<and>
   statusContainer (setupROI setup_ok quota_exceeded (legend_ok forest) sample_drawn) =
     status_line ''success'' (''ROI setup complete! Forest analysis ready. Area: 12.35'' @ km2) \<and>
   analysisLayers (setupROI setup_ok quota_exceeded (legend_ok forest) sample_drawn) forest = None \<and>
   mapOverlays (setupROI setup_ok quota_exceeded (legend_ok forest) sample_drawn) = {}"
proof -
  have h: "currentPolygon sample_drawn = Some sample_ring"
    by (simp add: sample_drawn_def sample_page_def)
  have o: "loaded_overlay forest quota_exceeded sample_drawn = None"
    by (simp add: loaded_overlay_def usable_tile_quota sample_drawn_def sample_page_def)
  have d: "tile_error (loaded_overlay forest quota_exceeded sample_drawn) sample_drawn = None"
    by (simp add: o tile_error_def)
  note f = setupROI_ready [OF h setup_area_ok d, of "legend_ok forest"]
  have "mapOverlays sample_drawn = {}"
    by (simp add: sample_drawn_def sample_page_def)
  then show ?thesis
    using f(1,2,6,9,12) by (simp add: o)
qed

subsection \<open>A setup of the ROI that fails\<close>




subsection \<open>The deletion of the ROI\<close>

text \<open>
  C8. The handler of the deletion clears the polygon and marks the ROI not established; no
  layer is analyzed any more; every toggle is disabled and unchecked; the coordinate
  readout shows its placeholder; the status text of forest reads \<open>Ready (Default)\<close>;
  forest is the only layer row that is marked active; the legend panel is hidden and no
  statistics panel is active. From the map, the handler removes the overlays that
  \<open>analysisLayers\<close> holds at that moment, and no others. An overlay that was on the map
  when a later \<open>loadLayerData\<close> put a new overlay in its place in \<open>analysisLayers\<close> is not
  among them: it stays on the map. This is where the code departs from the claim, which
  has all overlays removed.
\<close>

theorem deletion_resets:
  "currentPolygon (shapeDeleted s) = None \<and> \<not> roiSetup (shapeDeleted s) \<and>
   layersAnalyzed (shapeDeleted s) = (\<lambda>l. False) \<and>
   toggleDisabled (shapeDeleted s) = (\<lambda>l. True) \<and>
   toggleChecked (shapeDeleted s) = (\<lambda>l. False) \<and>
   coordinatesDisplay (shapeDeleted s) =
     ''Draw a polygon on the map to see coordinates here...'' \<and>
   layerStatus (shapeDeleted s) forest = ''Ready (Default)'' \<and>
   itemActive (shapeDeleted s) = (\<lambda>l. l = forest) \<and>
   panelActive (shapeDeleted s) = (\<lambda>l. False) \<and> \<not> legendShown (shapeDeleted s) \<and>
   mapOverlays (shapeDeleted s) =
     mapOverlays s - {i. \<exists>l ov. analysisLayers s l = Some ov \<and> ovId ov = i}"
  by (simp add: shapeDeleted_eq)

text \<open>
  A polygon is drawn, a second polygon is drawn, the polygon is deleted; every reply is a
  good one. The second setup builds a new overlay for forest (overlay 1) while the first
  (overlay 0) is on the map, and the deletion removes overlay 1 only.
\<close>

theorem deletion_resets_witness:
  "reachable
     (run [Created sample_ring setup_ok tile_ok (legend_ok forest),
           Created sample_ring setup_ok tile_ok (legend_ok forest),
           Deleted] (initializeApp sample_page)) \<and>
   mapOverlays
     (run [Created sample_ring setup_ok tile_ok (legend_ok forest),
           Created sample_ring setup_ok tile_ok (legend_ok forest)]
        (initializeApp sample_page)) = {0, 1} \<and>
   mapOverlays
     (run [Created sample_ring setup_ok tile_ok (legend_ok forest),
           Created sample_ring setup_ok tile_ok (legend_ok forest),
           Deleted] (initializeApp sample_page)) = {0} \<and>
   layersAnalyzed
     (run [Created sample_ring setup_ok tile_ok (legend_ok forest),
           Created sample_ring setup_ok tile_ok (legend_ok forest),
           Deleted] (initializeApp sample_page)) = (\<lambda>l. False)"
proof -
  define s0 where "s0 = initializeApp sample_page"
  define s1 where "s1 = shapeCreated sample_ring setup_ok tile_ok (legend_ok forest) s0"
  define s2 where "s2 = shapeCreated sample_ring setup_ok tile_ok (legend_ok forest) s1"
  define u where "u = JStr ''https://earthengine.googleapis.com/v1/tiles/{z}/{x}/{y}''"
  have tile: "usable_tile tile_ok = Some u"
    by (simp add: usable_tile_ok u_def)
  have f0: "nextOverlay s0 = 0" "mapOverlays s0 = {}" "analysisLayers s0 = (\<lambda>l. None)"
    "tileFault s0 = (\<lambda>u. None)"
    by (simp_all add: s0_def start_fields)
  have d0: "tileFault s0 u = None"
    by (simp add: f0)
  note c1 = shapeCreated_drawn [OF setup_area_ok tile d0, of sample_ring "legend_ok forest",
      folded s1_def]
  have f1: "nextOverlay s1 = 1" "mapOverlays s1 = {0}" "tileFault s1 = (\<lambda>u. None)"
    "analysisLayers s1 = (\<lambda>l. None)(forest := Some \<lparr>ovId = 0, ovUrl = u\<rparr>)"
    by (simp_all add: c1 f0)
  have d1: "tileFault s1 u = None"
    by (simp add: f1)
  note c2 = shapeCreated_drawn [OF setup_area_ok tile d1, of sample_ring "legend_ok forest",
      folded s2_def]
  have f2: "mapOverlays s2 = {0, 1}"
    "analysisLayers s2 = (\<lambda>l. None)(forest := Some \<lparr>ovId = 1, ovUrl = u\<rparr>)"
    by (auto simp add: c2 f1)
  have held: "{i. \<exists>l ov. analysisLayers s2 l = Some ov \<and> ovId ov = i} = {1}"
    by (auto simp add: f2 split: if_splits)
  have r2: "run [Created sample_ring setup_ok tile_ok (legend_ok forest),
           Created sample_ring setup_ok tile_ok (legend_ok forest)]
        (initializeApp sample_page) = s2"
    by (simp add: run_def s2_def s1_def s0_def)
  have r3: "run [Created sample_ring setup_ok tile_ok (legend_ok forest),
           Created sample_ring setup_ok tile_ok (legend_ok forest),
           Deleted] (initializeApp sample_page) = shapeDeleted s2"
    by (simp add: run_def s2_def s1_def s0_def)
  have "reachable (run [Created sample_ring setup_ok tile_ok (legend_ok forest),
           Created sample_ring setup_ok tile_ok (legend_ok forest),
           Deleted] (initializeApp sample_page))"
    unfolding reachable_def using document_loaded_sample by blast
  moreover have "mapOverlays (shapeDeleted s2) = {0}"
    using deletion_resets [of s2] by (auto simp add: held f2)
  moreover have "layersAnalyzed (shapeDeleted s2) = (\<lambda>l. False)"
    using deletion_resets [of s2] by simp
  ultimately show ?thesis
    by (simp add: r2 r3 f2)
qed

subsection \<open>The active layer\<close>

text \<open>
  C2. The claim has it that in every reachable state a layer whose statistics panel is
  active is analyzed and has its toggle checked, and that no panel is active when no layer
  is visible. The code does not keep this: a polygon is drawn and the setup succeeds, so
  that forest is shown and its statistics panel is active; the polygon is edited and this
  setup fails (HTTP 500). The failure resets the analysis state and the toggles, and
  leaves the statistics panel, the legend panel and the map as they were: in the state
  reached, the panel of forest is active and forest is the active layer, its overlay is on
  the map and the legend panel is shown, while no layer is analyzed and no toggle is
  checked.
\<close>

theorem failed_setup_keeps_active_panel:
  "reachable
     (run [Created sample_ring setup_ok tile_ok (legend_ok forest),
           Edited sample_ring quota_exceeded tile_ok (legend_ok forest)]
        (initializeApp sample_page)) \<and>
   panelActive
     (run [Created sample_ring setup_ok tile_ok (legend_ok forest),
           Edited sample_ring quota_exceeded tile_ok (legend_ok forest)]
        (initializeApp sample_page)) forest \<and>
   currentActiveLayer
     (run [Created sample_ring setup_ok tile_ok (legend_ok forest),
           Edited sample_ring quota_exceeded tile_ok (legend_ok forest)]
        (initializeApp sample_page)) = forest \<and>
   mapOverlays
     (run [Created sample_ring setup_ok tile_ok (legend_ok forest),
           Edited sample_ring quota_exceeded tile_ok (legend_ok forest)]
        (initializeApp sample_page)) = {0} \<and>
   \<not> roiSetup
     (run [Created sample_ring setup_ok tile_ok (legend_ok forest),
           Edited sample_ring quota_exceeded tile_ok (legend_ok forest)]
        (initializeApp sample_page)) \<and>
   layersAnalyzed
     (run [Created sample_ring setup_ok tile_ok (legend_ok forest),
           Edited sample_ring quota_exceeded tile_ok (legend_ok forest)]
        (initializeApp sample_page)) = (\<lambda>l. False) \<and>
   toggleChecked
     (run [Created sample_ring setup_ok tile_ok (legend_ok forest),
           Edited sample_ring quota_exceeded tile_ok (legend_ok forest)]
        (initializeApp sample_page)) = (\<lambda>l. False)"
proof -
  define s0 where "s0 = initializeApp sample_page"
  define s1 where "s1 = shapeCreated sample_ring setup_ok tile_ok (legend_ok forest) s0"
  define s2 where "s2 = shapeEdited sample_ring quota_exceeded tile_ok (legend_ok forest) s1"
  define u where "u = JStr ''https://earthengine.googleapis.com/v1/tiles/{z}/{x}/{y}''"
  have tile: "usable_tile tile_ok = Some u"
    by (simp add: usable_tile_ok u_def)
  have f0: "nextOverlay s0 = 0" "mapOverlays s0 = {}" "tileFault s0 = (\<lambda>u. None)"
    "panelPresent s0 = (\<lambda>l. True)"
    by (simp_all add: s0_def start_fields)
  have d0: "tileFault s0 u = None"
    by (simp add: f0)
  note c1 = shapeCreated_drawn [OF setup_area_ok tile d0, of sample_ring "legend_ok forest",
      folded s1_def]
  have f1: "currentPolygon s1 = Some sample_ring" "mapOverlays s1 = {0}"
    "panelActive s1 = (\<lambda>l. l = forest)" "currentActiveLayer s1 = forest"
    by (simp_all add: c1 f0)
  have none: "setup_area quota_exceeded = None"
    by (simp add: setup_area_def quota_exceeded_def ok_def)
  note c2 = shapeEdited_failed [OF f1(1) none, of sample_ring tile_ok "legend_ok forest",
      folded s2_def]
  have r2: "run [Created sample_ring setup_ok tile_ok (legend_ok forest),
           Edited sample_ring quota_exceeded tile_ok (legend_ok forest)]
        (initializeApp sample_page) = s2"
    by (simp add: run_def s2_def s1_def s0_def)
  have "reachable s2"
    unfolding reachable_def r2 [symmetric] using document_loaded_sample by blast
  then show ?thesis
    unfolding r2 using c2 f1 by simp
qed

subsection \<open>An analysis that fails\<close>

text \<open>
  C4. \<open>analyzeLayer(L, isReanalysis)\<close> gets as far as its request when the ROI is
  established and the layer is not analyzed or the call is a forced re-analysis. When the
  reply is not a 2xx response whose body has the status \<open>success\<close>, the call returns with
  the page as it was but for this: the request is logged; the status container shows an
  error message; the status text of \<open>L\<close> is one of the two retry prompts; the row of \<open>L\<close>
  is no longer marked as analyzing; and the toggle of \<open>L\<close> is unchecked if the call is not
  forced, and left as it is if the call is forced. The message holds the detail of the
  server: after \<open>Error analyzing L: \<close> for a response that is not 2xx, after
  \<open>L analysis failed: \<close> for a 2xx response whose status is not \<open>success\<close>; the message
  of the exception for a rejected request; and a fallback when the body gives no detail.
  The analysis state is not touched: \<open>analyzed[L]\<close> is as it was before the call. After a
  first analysis that fails it is false, as the claim has it. After a forced re-analysis
  that fails it is still true: here the code departs from the claim, and from its own
  prompt, since a click on the toggle of a layer that is analyzed does not analyze again.
\<close>

theorem analysis_failure_prompts:
  assumes "roiSetup s" and "re \<or> \<not> layersAnalyzed s L" and "\<not> analysis_success r"
  shows "\<exists>prompt msg.
     analyzeLayer L re r m g s =
       s\<lparr>statusContainer := status_line ''error'' msg,
         requests := requests s @ [analysis_request L s],
         layerStatus := (layerStatus s)(L := prompt),
         itemAnalyzing := (itemAnalyzing s)(L := False),
         toggleChecked := (if re then toggleChecked s else (toggleChecked s)(L := False))\<rparr> \<and>
     layersAnalyzed (analyzeLayer L re r m g s) L = layersAnalyzed s L \<and>
     (prompt = ''Failed - Click toggle to retry'' \<or> prompt = ''Error - Click toggle to retry'') \<and>
     (\<forall>reason. r = Rejected reason \<longrightarrow>
        msg = ''Error analyzing '' @ layer_name L @ '': '' @ reason \<and>
        prompt = ''Error - Click toggle to retry'') \<and>
     (\<forall>d. refused r \<and> server_detail r = Some d \<longrightarrow>
        msg = (if ok (reply_code r) then layer_name L @ '' analysis failed: '' @ d
               else ''Error analyzing '' @ layer_name L @ '': '' @ d) \<and>
        prompt = (if ok (reply_code r) then ''Failed - Click toggle to retry''
                  else ''Error - Click toggle to retry'')) \<and>
     (refused r \<and> no_detail r \<longrightarrow>
        msg = (if ok (reply_code r) then layer_name L @ '' analysis failed: Unknown error''
               else ''Error analyzing '' @ layer_name L @ '': HTTP '' @ show_nat (reply_code r)) \<and>
        prompt = (if ok (reply_code r) then ''Failed - Click toggle to retry''
                  else ''Error - Click toggle to retry''))"
proof -
  define t where "t = analyzeLayer L re r m g s"
  obtain prompt msg where
    state: "t =
       s\<lparr>statusContainer := status_line ''error'' msg,
         requests := requests s @ [analysis_request L s],
         layerStatus := (layerStatus s)(L := prompt),
         itemAnalyzing := (itemAnalyzing s)(L := False),
         toggleChecked := (if re then toggleChecked s else (toggleChecked s)(L := False))\<rparr>"
    and p: "prompt = ''Failed - Click toggle to retry'' \<or> prompt = ''Error - Click toggle to retry''"
    unfolding t_def using analyzeLayer_failed [OF assms, of m g] by blast
  have sc: "statusContainer t = status_line ''error'' msg" and ls: "layerStatus t L = prompt"
    and an: "layersAnalyzed t L = layersAnalyzed s L"
    by (simp_all add: state)
  have c1: "msg = ''Error analyzing '' @ layer_name L @ '': '' @ reason \<and>
        prompt = ''Error - Click toggle to retry''" if "r = Rejected reason" for reason
    using analyzeLayer_rejected [OF assms(1,2), of reason m g] sc ls
    by (simp add: t_def that)
  have c2: "msg = (if ok (reply_code r) then layer_name L @ '' analysis failed: '' @ d
               else ''Error analyzing '' @ layer_name L @ '': '' @ d) \<and>
        prompt = (if ok (reply_code r) then ''Failed - Click toggle to retry''
                  else ''Error - Click toggle to retry'')"
    if "refused r \<and> server_detail r = Some d" for d
  proof -
    from that have a: "refused r" and b: "server_detail r = Some d" by simp_all
    show ?thesis
      using analyzeLayer_detail [OF assms(1,2) a b, of m g] sc ls
      by (simp add: t_def [symmetric])
  qed
  have c3: "msg = (if ok (reply_code r) then layer_name L @ '' analysis failed: Unknown error''
               else ''Error analyzing '' @ layer_name L @ '': HTTP '' @ show_nat (reply_code r)) \<and>
        prompt = (if ok (reply_code r) then ''Failed - Click toggle to retry''
                  else ''Error - Click toggle to retry'')"
    if "refused r \<and> no_detail r"
  proof -
    from that have a: "refused r" and b: "no_detail r" by simp_all
    show ?thesis
      using analyzeLayer_no_detail [OF assms(1,2) a b, of m g] sc ls
      by (simp add: t_def [symmetric])
  qed
  show ?thesis
    unfolding t_def [symmetric] using state an p c1 c2 c3 by blast
qed

text \<open>
  The reply HTTP 500 with the body \<open>{"detail": "GEE quota exceeded"}\<close>, in a state with the
  ROI established, soil analyzed and shown, tundra not analyzed. To a first analysis of
  tundra: the message holds the detail, tundra stays not analyzed and its toggle is
  unchecked. To a forced re-analysis of soil: the message holds the detail, the toggle of
  soil stays checked, and soil is still analyzed. The same happens from the loaded page: a
  polygon is drawn, the resolution is changed, and the re-analysis of forest that the timer
  starts gets the reply HTTP 500; forest is still analyzed and its toggle still checked,
  under the prompt to retry.
\<close>

theorem analysis_failure_prompts_witness:
  "roiSetup sample_two \<and> \<not> layersAnalyzed sample_two tundra \<and>
   \<not> analysis_success quota_exceeded \<and>
   statusContainer (analyzeLayer tundra False quota_exceeded tile_ok legend_missing sample_two) =
     status_line ''error'' ''Error analyzing tundra: GEE quota exceeded'' \<and>
   layerStatus (analyzeLayer tundra False quota_exceeded tile_ok legend_missing sample_two) tundra =
     ''Error - Click toggle to retry'' \<and>
   \<not> layersAnalyzed (analyzeLayer tundra False quota_exceeded tile_ok legend_missing sample_two)
       tundra \<and>
   \<not> toggleChecked (analyzeLayer tundra False quota_exceeded tile_ok legend_missing sample_two)
       tundra \<and>
   layersAnalyzed sample_two soil \<and> toggleChecked sample_two soil \<and>
   statusContainer (analyzeLayer soil True quota_exceeded tile_ok legend_missing sample_two) =
     status_line ''error'' ''Error analyzing soil: GEE quota exceeded'' \<and>
   layerStatus (analyzeLayer soil True quota_exceeded tile_ok legend_missing sample_two) soil =
     ''Error - Click toggle to retry'' \<and>
   toggleChecked (analyzeLayer soil True quota_exceeded tile_ok legend_missing sample_two) soil \<and>
   layersAnalyzed (analyzeLayer soil True quota_exceeded tile_ok legend_missing sample_two) soil \<and>
   reachable
     (run [Created sample_ring setup_ok tile_ok (legend_ok forest), ResolutionChanged ''30'',
           TimerFired forest quota_exceeded tile_ok legend_missing] (initializeApp sample_page)) \<and>
   layersAnalyzed
     (run [Created sample_ring setup_ok tile_ok (legend_ok forest), ResolutionChanged ''30'',
           TimerFired forest quota_exceeded tile_ok legend_missing] (initializeApp sample_page))
     forest \<and>
   toggleChecked
     (run [Created sample_ring setup_ok tile_ok (legend_ok forest), ResolutionChanged ''30'',
           TimerFired forest quota_exceeded tile_ok legend_missing] (initializeApp sample_page))
     forest \<and>
   layerStatus
     (run [Created sample_ring setup_ok tile_ok (legend_ok forest), ResolutionChanged ''30'',
           TimerFired forest quota_exceeded tile_ok legend_missing] (initializeApp sample_page))
     forest = ''Error - Click toggle to retry''"
proof -
  have h: "roiSetup sample_two" "\<not> layersAnalyzed sample_two tundra"
    "layersAnalyzed sample_two soil" "toggleChecked sample_two soil"
    "\<not> toggleChecked sample_two tundra"
    by (simp_all add: sample_two_def sample_page_def)
  have q: "\<not> analysis_success quota_exceeded" "refused quota_exceeded"
    "server_detail quota_exceeded = Some ''GEE quota exceeded''"
    "\<not> ok (reply_code quota_exceeded)"
    by (simp_all add: analysis_success_def quota_exceeded_def refused_def server_detail_def
        reply_code_def ok_def)
  define t where "t = analyzeLayer tundra False quota_exceeded tile_ok legend_missing sample_two"
  define u where "u = analyzeLayer soil True quota_exceeded tile_ok legend_missing sample_two"
  have first: "statusContainer t = status_line ''error'' ''Error analyzing tundra: GEE quota exceeded'' \<and>
      layerStatus t tundra = ''Error - Click toggle to retry'' \<and>
      \<not> layersAnalyzed t tundra \<and> \<not> toggleChecked t tundra"
  proof -
    obtain prompt msg where
      state: "t = sample_two\<lparr>statusContainer := status_line ''error'' msg,
         requests := requests sample_two @ [analysis_request tundra sample_two],
         layerStatus := (layerStatus sample_two)(tundra := prompt),
         itemAnalyzing := (itemAnalyzing sample_two)(tundra := False),
         toggleChecked := (if False then toggleChecked sample_two
                           else (toggleChecked sample_two)(tundra := False))\<rparr>"
      and an: "layersAnalyzed t tundra = layersAnalyzed sample_two tundra"
      and detail: "\<forall>d. refused quota_exceeded \<and> server_detail quota_exceeded = Some d \<longrightarrow>
        msg = (if ok (reply_code quota_exceeded) then layer_name tundra @ '' analysis failed: '' @ d
               else ''Error analyzing '' @ layer_name tundra @ '': '' @ d) \<and>
        prompt = (if ok (reply_code quota_exceeded) then ''Failed - Click toggle to retry''
                  else ''Error - Click toggle to retry'')"
      unfolding t_def
      using analysis_failure_prompts [of sample_two False tundra quota_exceeded tile_ok
          legend_missing] h(1,2) q(1)
      by blast
    have "msg = ''Error analyzing tundra: GEE quota exceeded''"
      "prompt = ''Error - Click toggle to retry''"
      using detail q by simp_all
    then show ?thesis
      using an h(2) by (simp add: state)
  qed
  have forced: "statusContainer u = status_line ''error'' ''Error analyzing soil: GEE quota exceeded'' \<and>
      layerStatus u soil = ''Error - Click toggle to retry'' \<and>
      toggleChecked u soil \<and> layersAnalyzed u soil"
  proof -
    obtain prompt msg where
      state: "u = sample_two\<lparr>statusContainer := status_line ''error'' msg,
         requests := requests sample_two @ [analysis_request soil sample_two],
         layerStatus := (layerStatus sample_two)(soil := prompt),
         itemAnalyzing := (itemAnalyzing sample_two)(soil := False),
         toggleChecked := (if True then toggleChecked sample_two
                           else (toggleChecked sample_two)(soil := False))\<rparr>"
      and an: "layersAnalyzed u soil = layersAnalyzed sample_two soil"
      and detail: "\<forall>d. refused quota_exceeded \<and> server_detail quota_exceeded = Some d \<longrightarrow>
        msg = (if ok (reply_code quota_exceeded) then layer_name soil @ '' analysis failed: '' @ d
               else ''Error analyzing '' @ layer_name soil @ '': '' @ d) \<and>
        prompt = (if ok (reply_code quota_exceeded) then ''Failed - Click toggle to retry''
                  else ''Error - Click toggle to retry'')"
      unfolding u_def
      using analysis_failure_prompts [of sample_two True soil quota_exceeded tile_ok
          legend_missing] h(1) q(1)
      by blast
    have "msg = ''Error analyzing soil: GEE quota exceeded''"
      "prompt = ''Error - Click toggle to retry''"
      using detail q by simp_all
    then show ?thesis
      using an h(3,4) by (simp add: state)
  qed
  define s0 where "s0 = initializeApp sample_page"
  define s1 where "s1 = shapeCreated sample_ring setup_ok tile_ok (legend_ok forest) s0"
  define s2 where "s2 = handleResolutionChange (s1\<lparr>resolutionSelect := ''30''\<rparr>)"
  define s3 where "s3 = s2\<lparr>timers := remove1 forest (timers s2)\<rparr>"
  define w where "w = analyzeLayer forest True quota_exceeded tile_ok legend_missing s3"
  have d0: "tileFault s0 (JStr ''https://earthengine.googleapis.com/v1/tiles/{z}/{x}/{y}'') = None"
    by (simp add: s0_def start_fields)
  note c1 = shapeCreated_drawn [OF setup_area_ok usable_tile_ok d0, of sample_ring
      "legend_ok forest", folded s1_def]
  have f1: "roiSetup (s1\<lparr>resolutionSelect := ''30''\<rparr>)"
    "layersAnalyzed (s1\<lparr>resolutionSelect := ''30''\<rparr>) = (\<lambda>l. l = forest)"
    "toggleChecked (s1\<lparr>resolutionSelect := ''30''\<rparr>) = (\<lambda>l. l = forest)"
    "timers (s1\<lparr>resolutionSelect := ''30''\<rparr>) = []"
    by (simp_all add: c1 s0_def start_fields)
  note c2 = handleResolutionChange_timers [OF f1(1,2,3), folded s2_def]
  have f3: "roiSetup s3" "layersAnalyzed s3 forest" "toggleChecked s3 forest"
    "forest \<in> set (timers s2)"
    by (simp_all add: s3_def c2 f1(4))
  have r3: "run [Created sample_ring setup_ok tile_ok (legend_ok forest), ResolutionChanged ''30'',
           TimerFired forest quota_exceeded tile_ok legend_missing] (initializeApp sample_page) = w"
    using f3(4) by (simp add: run_def w_def s3_def s2_def s1_def s0_def)
  have reach: "reachable w"
    unfolding reachable_def r3 [symmetric] using document_loaded_sample by blast
  have timed: "layersAnalyzed w forest \<and> toggleChecked w forest \<and>
      layerStatus w forest = ''Error - Click toggle to retry''"
  proof -
    obtain prompt msg where
      state: "w = s3\<lparr>statusContainer := status_line ''error'' msg,
         requests := requests s3 @ [analysis_request forest s3],
         layerStatus := (layerStatus s3)(forest := prompt),
         itemAnalyzing := (itemAnalyzing s3)(forest := False),
         toggleChecked := (if True then toggleChecked s3
                           else (toggleChecked s3)(forest := False))\<rparr>"
      and an: "layersAnalyzed w forest = layersAnalyzed s3 forest"
      and detail: "\<forall>d. refused quota_exceeded \<and> server_detail quota_exceeded = Some d \<longrightarrow>
        msg = (if ok (reply_code quota_exceeded) then layer_name forest @ '' analysis failed: '' @ d
               else ''Error analyzing '' @ layer_name forest @ '': '' @ d) \<and>
        prompt = (if ok (reply_code quota_exceeded) then ''Failed - Click toggle to retry''
                  else ''Error - Click toggle to retry'')"
      unfolding w_def
      using analysis_failure_prompts [of s3 True forest quota_exceeded tile_ok legend_missing]
        f3(1) q(1)
      by blast
    have "prompt = ''Error - Click toggle to retry''"
      using detail q by simp
    then show ?thesis
      using an f3(2,3) by (simp add: state)
  qed
  show ?thesis
    using first forced h q(1) reach timed unfolding r3 by (simp add: t_def u_def)
qed

subsection \<open>The change of the wetland area\<close>




subsection \<open>Falsy fields of a statistics record\<close>





end
